(* ===== verification/Py_Prelude.thy ===== *)
theory Py_Prelude
  imports Complex_Main "HOL-Library.Sublist"
begin

text \<open>
  The Python layer shared by every component of \<^verbatim>\<open>src/streamlit_app.py\<close>.
  A Python \<open>str\<close> is a sequence of Unicode code points (\<open>pystr\<close>, a \<open>nat list\<close>);
  ASCII literals of the source are written \<open>py ''...''\<close>. The dictionary-shaped
  responses of the back-end services are values of \<open>pyval\<close> (JSON-like: None, bool, int,
  float, str, list, dict). Floats are modelled by their exact rational value (binary rounding,
  NaN and infinities are not modelled). Every built-in operation the dashboard applies to such a
  value (\<open>d.get(k, x)\<close>, \<open>d[k]\<close>, \<open>k in v\<close>, \<open>len(v)\<close>, \<open>v[:8]\<close>,
  iteration, \<open>v / 100\<close>, \<open>str.strip\<close>, \<open>str.lower\<close>) is a total function into
  \<open>exc + _\<close>, the exception it raises on the left.
\<close>

named_theorems py_simps "evaluation rules of the Python value model"

section \<open>Strings\<close>

type_synonym pystr = "nat list"

definition py :: "string \<Rightarrow> pystr" where
  "py s = map of_char s"

text \<open>\<open>str.isspace\<close> of CPython: the code points of bidirectional class WS, B, S or
  category Zs.\<close>

definition is_space :: "nat \<Rightarrow> bool" where
  "is_space c \<longleftrightarrow>
     (9 \<le> c \<and> c \<le> 13) \<or> (28 \<le> c \<and> c \<le> 32) \<or> c = 133 \<or> c = 160 \<or> c = 5760 \<or>
     (8192 \<le> c \<and> c \<le> 8202) \<or> c = 8232 \<or> c = 8233 \<or> c = 8239 \<or> c = 8287 \<or> c = 12288"

definition py_lstrip :: "pystr \<Rightarrow> pystr" where
  "py_lstrip s = dropWhile is_space s"

definition py_rstrip :: "pystr \<Rightarrow> pystr" where
  "py_rstrip s = rev (dropWhile is_space (rev s))"

text \<open>\<open>s.strip()\<close> with no argument.\<close>

definition py_strip :: "pystr \<Rightarrow> pystr" where
  "py_strip s = py_rstrip (py_lstrip s)"

text \<open>\<open>s.lower()\<close> on the ASCII letters. The dashboard lowers the fixed ASCII
  configuration keys and compares a lowered environment variable with \<open>"true"\<close>; no
  non-ASCII code point lowers to one of \<open>t, r, u, e\<close>, so the ASCII mapping decides both
  uses exactly.\<close>

definition py_lower :: "pystr \<Rightarrow> pystr" where
  "py_lower s = map (\<lambda>c. if 65 \<le> c \<and> c \<le> 90 then c + 32 else c) s"

text \<open>\<open>needle in hay\<close> on two strings: a left-to-right search for a contiguous match.\<close>

fun py_contains :: "pystr \<Rightarrow> pystr \<Rightarrow> bool" where
  "py_contains n [] = (n = [])"
| "py_contains n (c # cs) = (prefix n (c # cs) \<or> py_contains n cs)"

section \<open>Dynamic values\<close>

datatype pyval =
    PNone
  | PBool bool
  | PInt int
  | PFloat rat
  | PStr pystr
  | PList "pyval list"
  | PDict "(pystr \<times> pyval) list"

text \<open>The exceptions the dashboard can meet. A service failure carries \<open>str(e)\<close>;
  \<open>RerunRequest\<close> is Streamlit's \<open>RerunException\<close>, a \<open>BaseException\<close> that
  \<open>except Exception\<close> does not catch.\<close>

datatype exc =
    ServiceError pystr
  | TypeError
  | KeyError
  | AttributeError
  | ValueError
  | IndexError
  | StreamlitAPIException
  | RerunRequest

definition is_exception :: "exc \<Rightarrow> bool" where
  "is_exception e \<longleftrightarrow> e \<noteq> RerunRequest"

fun py_truthy :: "pyval \<Rightarrow> bool" where
  "py_truthy PNone = False"
| "py_truthy (PBool b) = b"
| "py_truthy (PInt i) = (i \<noteq> 0)"
| "py_truthy (PFloat r) = (r \<noteq> 0)"
| "py_truthy (PStr s) = (s \<noteq> [])"
| "py_truthy (PList xs) = (xs \<noteq> [])"
| "py_truthy (PDict d) = (d \<noteq> [])"

text \<open>\<open>v.get(k, default)\<close>: only a dict has \<open>get\<close>.\<close>

definition py_get :: "pyval \<Rightarrow> pystr \<Rightarrow> pyval \<Rightarrow> exc + pyval" where
  "py_get v k dflt =
     (case v of
        PDict d \<Rightarrow> Inr (case map_of d k of Some x \<Rightarrow> x | None \<Rightarrow> dflt)
      | _ \<Rightarrow> Inl AttributeError)"

text \<open>\<open>v[k]\<close> with a string key.\<close>

definition py_getitem :: "pyval \<Rightarrow> pystr \<Rightarrow> exc + pyval" where
  "py_getitem v k =
     (case v of
        PDict d \<Rightarrow> (case map_of d k of Some x \<Rightarrow> Inr x | None \<Rightarrow> Inl KeyError)
      | _ \<Rightarrow> Inl TypeError)"

text \<open>\<open>k in v\<close> with a string \<open>k\<close>: substring test on a str, \<open>==\<close> membership on a
  list (a str equals only an equal str), key membership on a dict; anything else is not a
  container.\<close>

fun py_in :: "pystr \<Rightarrow> pyval \<Rightarrow> exc + bool" where
  "py_in k (PStr s) = Inr (py_contains k s)"
| "py_in k (PList xs) = Inr (list_ex (\<lambda>x. x = PStr k) xs)"
| "py_in k (PDict d) = Inr (list_ex (\<lambda>p. fst p = k) d)"
| "py_in k _ = Inl TypeError"

fun py_len :: "pyval \<Rightarrow> exc + nat" where
  "py_len (PStr s) = Inr (length s)"
| "py_len (PList xs) = Inr (length xs)"
| "py_len (PDict d) = Inr (length d)"
| "py_len _ = Inl TypeError"

text \<open>\<open>v[:8]\<close>: a prefix of a str or a list; a dict is not sliceable, a scalar not
  subscriptable.\<close>

fun py_slice8 :: "pyval \<Rightarrow> exc + pyval" where
  "py_slice8 (PStr s) = Inr (PStr (take 8 s))"
| "py_slice8 (PList xs) = Inr (PList (take 8 xs))"
| "py_slice8 _ = Inl TypeError"

text \<open>\<open>for x in v\<close>: the elements of a list, the keys of a dict, the one-character strings
  of a str.\<close>

fun py_iter :: "pyval \<Rightarrow> exc + pyval list" where
  "py_iter (PList xs) = Inr xs"
| "py_iter (PDict d) = Inr (map (\<lambda>p. PStr (fst p)) d)"
| "py_iter (PStr s) = Inr (map (\<lambda>c. PStr [c]) s)"
| "py_iter _ = Inl TypeError"

text \<open>\<open>v[i]\<close> with a non-negative int index.\<close>

fun py_index :: "pyval \<Rightarrow> nat \<Rightarrow> exc + pyval" where
  "py_index (PList xs) i = (if i < length xs then Inr (xs ! i) else Inl IndexError)"
| "py_index (PStr s) i = (if i < length s then Inr (PStr [s ! i]) else Inl IndexError)"
| "py_index (PDict d) i = Inl KeyError"
| "py_index _ i = Inl TypeError"

text \<open>Sequencing of two expressions: the second is evaluated only if the first did not
  raise.\<close>

definition py_then :: "exc + 'a \<Rightarrow> ('a \<Rightarrow> exc + 'b) \<Rightarrow> exc + 'b" where
  "py_then r f = (case r of Inl e \<Rightarrow> Inl e | Inr x \<Rightarrow> f x)"

text \<open>\<open>v / 100\<close> (true division): bool and int are promoted to float.\<close>

fun py_div100 :: "pyval \<Rightarrow> exc + pyval" where
  "py_div100 (PBool b) = Inr (PFloat (if b then 1 / 100 else 0))"
| "py_div100 (PInt i) = Inr (PFloat (of_int i / 100))"
| "py_div100 (PFloat r) = Inr (PFloat (r / 100))"
| "py_div100 _ = Inl TypeError"

text \<open>\<open>format(v, ".2f")\<close>: numbers only; a str rejects the format code, other objects
  have no such format.\<close>

fun py_format_f2 :: "pyval \<Rightarrow> exc + pyval" where
  "py_format_f2 (PBool b) = Inr (PBool b)"
| "py_format_f2 (PInt i) = Inr (PInt i)"
| "py_format_f2 (PFloat r) = Inr (PFloat r)"
| "py_format_f2 (PStr s) = Inl ValueError"
| "py_format_f2 _ = Inl TypeError"

text \<open>Dictionary keys: a hashable value is identified by its class under \<open>==\<close>
  (\<open>True == 1 == 1.0\<close>); lists and dicts are unhashable.\<close>

datatype pykey = KNone | KNum rat | KStr pystr

fun py_hash_key :: "pyval \<Rightarrow> exc + pykey" where
  "py_hash_key PNone = Inr KNone"
| "py_hash_key (PBool b) = Inr (KNum (if b then 1 else 0))"
| "py_hash_key (PInt i) = Inr (KNum (of_int i))"
| "py_hash_key (PFloat r) = Inr (KNum r)"
| "py_hash_key (PStr s) = Inr (KStr s)"
| "py_hash_key _ = Inl TypeError"

text \<open>\<open>a == b\<close> on hashable values.\<close>

definition py_eq :: "pyval \<Rightarrow> pyval \<Rightarrow> bool" where
  "py_eq a b \<longleftrightarrow> (case (py_hash_key a, py_hash_key b) of
                     (Inr ka, Inr kb) \<Rightarrow> ka = kb
                   | _ \<Rightarrow> a = b)"

section \<open>Lemmas on strings\<close>

lemma py_contains_sublist [py_simps]: "py_contains n h \<longleftrightarrow> sublist n h"
  by (induction h) (auto simp: sublist_Cons_right)

lemma py_contains_Nil [simp]: "py_contains [] h"
  by (simp add: py_contains_sublist)

lemma py_lstrip_hd: "py_lstrip s = c # r \<Longrightarrow> \<not> is_space c"
  unfolding py_lstrip_def by (simp add: dropWhile_eq_Cons_conv)

lemma py_rstrip_last: "py_rstrip s \<noteq> [] \<Longrightarrow> \<not> is_space (last (py_rstrip s))"
proof -
  assume ne: "py_rstrip s \<noteq> []"
  then obtain c r where d: "dropWhile is_space (rev s) = c # r"
    by (cases "dropWhile is_space (rev s)") (auto simp: py_rstrip_def)
  then have "\<not> is_space c" by (simp add: dropWhile_eq_Cons_conv)
  with d show ?thesis by (simp add: py_rstrip_def)
qed

lemma py_rstrip_Cons_hd:
  assumes "\<not> is_space c"
  shows "\<exists>r. py_rstrip (c # s) = c # r"
proof (cases "dropWhile is_space (rev s) = []")
  case True
  with assms have "dropWhile is_space (rev (c # s)) = [c]"
    by (simp add: dropWhile_append3)
  then show ?thesis by (simp add: py_rstrip_def)
next
  case False
  then obtain x where "x \<in> set (rev s)" "\<not> is_space x"
    by (auto simp: dropWhile_eq_Nil_conv)
  then have "dropWhile is_space (rev s @ [c]) = dropWhile is_space (rev s) @ [c]"
    by (rule dropWhile_append1)
  then show ?thesis by (simp add: py_rstrip_def)
qed

text \<open>The result of \<open>strip\<close> neither starts nor ends with white space.\<close>

lemma py_strip_hd: "py_strip s = c # r \<Longrightarrow> \<not> is_space c"
proof -
  assume st: "py_strip s = c # r"
  then obtain c' r' where l: "py_lstrip s = c' # r'"
    by (cases "py_lstrip s") (auto simp: py_strip_def py_rstrip_def)
  then have "\<not> is_space c'" by (rule py_lstrip_hd)
  then obtain q where "py_rstrip (c' # r') = c' # q" using py_rstrip_Cons_hd by blast
  with st l \<open>\<not> is_space c'\<close> show ?thesis by (simp add: py_strip_def)
qed

lemma py_strip_last: "py_strip s \<noteq> [] \<Longrightarrow> \<not> is_space (last (py_strip s))"
  unfolding py_strip_def by (rule py_rstrip_last)

lemma ball_set_dropWhile: "(\<forall>x \<in> set (dropWhile P s). P x) \<longleftrightarrow> (\<forall>x \<in> set s. P x)"
  by (induction s) auto

lemma py_strip_Nil_iff [py_simps]: "py_strip s = [] \<longleftrightarrow> (\<forall>c \<in> set s. is_space c)"
  by (simp add: py_strip_def py_rstrip_def py_lstrip_def ball_set_dropWhile)

lemma py_strip_sublist: "sublist (py_strip s) s"
proof -
  have "suffix (py_lstrip s) s" unfolding py_lstrip_def
    by (metis suffix_def takeWhile_dropWhile_id)
  moreover have "prefix (py_rstrip t) t" for t
    unfolding py_rstrip_def
    by (metis prefix_def rev_append rev_rev_ident takeWhile_dropWhile_id)
  ultimately show ?thesis unfolding py_strip_def
    by (meson prefix_imp_sublist sublist_order.order.trans suffix_imp_sublist)
qed

text \<open>Stripping is idempotent.\<close>

lemma py_strip_idem: "py_strip (py_strip s) = py_strip s"
proof (cases "py_strip s")
  case Nil
  then show ?thesis by (simp only: Nil) (simp add: py_strip_def py_rstrip_def py_lstrip_def)
next
  case (Cons c r)
  have hd: "\<not> is_space c" using py_strip_hd [OF Cons] .
  have lst: "\<not> is_space (last (c # r))" using py_strip_last [of s] Cons by simp
  have "py_lstrip (c # r) = c # r" using hd by (simp add: py_lstrip_def)
  moreover have "dropWhile is_space (rev (c # r)) = rev (c # r)"
  proof -
    have "\<not> is_space (hd (rev (c # r)))" using lst by (metis hd_rev)
    then show ?thesis using dropWhile_eq_self_iff by blast
  qed
  ultimately show ?thesis using Cons by (simp add: py_strip_def py_rstrip_def)
qed

lemma py_lower_length [simp]: "length (py_lower s) = length s"
  by (simp add: py_lower_def)

lemma py_eq_refl [simp]: "py_eq a a"
  by (simp add: py_eq_def split: sum.splits)

text \<open>No built-in operation raises Streamlit's rerun request.\<close>

lemma py_ops_not_rerun [simp]:
  "py_get v k d \<noteq> Inl RerunRequest"
  "py_getitem v k \<noteq> Inl RerunRequest"
  "py_in k v \<noteq> Inl RerunRequest"
  "py_len v \<noteq> Inl RerunRequest"
  "py_slice8 v \<noteq> Inl RerunRequest"
  "py_iter v \<noteq> Inl RerunRequest"
  "py_div100 v \<noteq> Inl RerunRequest"
  "py_format_f2 v \<noteq> Inl RerunRequest"
  "py_hash_key v \<noteq> Inl RerunRequest"
  "py_index v i \<noteq> Inl RerunRequest"
  by (cases v; simp add: py_get_def py_getitem_def split: option.splits)+

lemma py_then_not_rerun:
  "r \<noteq> Inl RerunRequest \<Longrightarrow> (\<And>x. f x \<noteq> Inl RerunRequest) \<Longrightarrow>
   py_then r f \<noteq> Inl RerunRequest"
  by (cases r) (auto simp: py_then_def)

lemma py_then_Inr [simp]: "py_then (Inr x) f = f x"
  by (simp add: py_then_def)

lemma py_then_Inl [simp]: "py_then (Inl e) f = Inl e"
  by (simp add: py_then_def)

text \<open>Membership of a key in a dict, \<open>k in d\<close>, read through \<open>map_of\<close>.\<close>

lemma list_ex_fst_map_of: "list_ex (\<lambda>p. fst p = k) d \<longleftrightarrow> map_of d k \<noteq> None"
  by (induction d) auto

lemma list_ex_map_of: "map_of d k = Some v \<Longrightarrow> list_ex (\<lambda>p. fst p = k) d"
  by (simp add: list_ex_fst_map_of)

end
