(* ===== verification/Ui_Trace.thy ===== *)
theory Ui_Trace
  imports Py_Prelude
begin

text \<open>
  What one Streamlit script run does, as data. A run is a sequence of events: elements
  rendered in the page or the sidebar, widgets drawn, the start and end of a \<open>with\<close>
  block (\<open>st.spinner\<close>, \<open>st.expander\<close>), calls to the back-end services and
  \<open>logger.exception\<close>. A statement of the script is a value of \<open>'a ui\<close>: the events it
  produced and either its result or the exception it raised; \<open>ui_bind\<close> stops at the first
  exception as Python does, \<open>ui_try\<close> is \<open>try/except Exception\<close> (it does not catch
  Streamlit's rerun request) and \<open>ui_with\<close> is a context manager whose exit runs on every
  path. The services are one function \<open>backend\<close> from a call to its result or the message
  of the exception it raised. The fixed Chinese texts of the source are identified by an ASCII
  gloss (\<open>Lit\<close>); text built by f-strings is a list of pieces.
\<close>

named_theorems ui_simps "unfolding rules for user-interface actions"
named_theorems ui_intros "rules showing that an action opens and closes its blocks in order"

type_synonym day = int

datatype piece =
    Lit string
  | Str pystr
  | Val pyval
  | F2 pyval
  | Msg exc
  | Cnt nat

type_synonym ptext = "piece list"

datatype status = Success | Error | Warning | Info

datatype elem =
    Title ptext
  | Markdown ptext
  | Subheader ptext
  | Caption ptext
  | Alert status ptext
  | Progress int
  | PlainText ptext
  | Metric string ptext "ptext option"
  | TextField pystr ptext
  | DataFrame "pyval list list"
  | LineChart pyval

datatype ctx = Spinner ptext | Expander ptext

datatype call =
    AnalyzeStock pystr pystr bool pystr bool
  | GetHistoryList "pystr option" day nat nat
  | GetRealtimeQuote pystr
  | GetHistoryData pystr pystr nat
  | GetTaskQueue
  | ListTasks nat
  | GetConfig bool

datatype event =
    Render elem
  | SideRender elem
  | Widget string
  | Begin ctx
  | End ctx
  | Call call
  | LogException string
  | PageConfig string string

type_synonym backend = "call \<Rightarrow> pystr + pyval"

type_synonym 'a ui = "event list \<times> (exc + 'a)"

section \<open>Actions\<close>

definition ui_ret :: "'a \<Rightarrow> 'a ui" where
  "ui_ret x = ([], Inr x)"

definition ui_lift :: "exc + 'a \<Rightarrow> 'a ui" where
  "ui_lift r = ([], r)"

definition ui_emit :: "event \<Rightarrow> unit ui" where
  "ui_emit ev = ([ev], Inr ())"

definition ui_render :: "elem \<Rightarrow> unit ui" where
  "ui_render e = ui_emit (Render e)"

definition ui_bind :: "'a ui \<Rightarrow> ('a \<Rightarrow> 'b ui) \<Rightarrow> 'b ui" where
  "ui_bind m f =
     (case snd m of
        Inl e \<Rightarrow> (fst m, Inl e)
      | Inr x \<Rightarrow> (fst m @ fst (f x), snd (f x)))"

definition ui_seq :: "unit ui \<Rightarrow> 'b ui \<Rightarrow> 'b ui" where
  "ui_seq m n = ui_bind m (\<lambda>_. n)"

definition ui_try :: "'a ui \<Rightarrow> (exc \<Rightarrow> 'a ui) \<Rightarrow> 'a ui" where
  "ui_try m h =
     (case snd m of
        Inl e \<Rightarrow> (if is_exception e then (fst m @ fst (h e), snd (h e)) else m)
      | Inr x \<Rightarrow> m)"

definition ui_with :: "ctx \<Rightarrow> 'a ui \<Rightarrow> 'a ui" where
  "ui_with c m = (Begin c # fst m @ [End c], snd m)"

definition ui_call :: "backend \<Rightarrow> call \<Rightarrow> pyval ui" where
  "ui_call b c =
     ([Call c], (case b c of Inl msg \<Rightarrow> Inl (ServiceError msg) | Inr v \<Rightarrow> Inr v))"

text \<open>A \<open>for\<close> loop over a list.\<close>

fun ui_for :: "'a list \<Rightarrow> ('a \<Rightarrow> unit ui) \<Rightarrow> unit ui" where
  "ui_for [] f = ui_ret ()"
| "ui_for (x # xs) f = ui_seq (f x) (ui_for xs f)"

text \<open>A comprehension \<open>[f(x) for x in xs]\<close> whose elements may raise.\<close>

fun ui_map :: "('a \<Rightarrow> exc + 'b) \<Rightarrow> 'a list \<Rightarrow> exc + 'b list" where
  "ui_map f [] = Inr []"
| "ui_map f (x # xs) =
     (case f x of
        Inl e \<Rightarrow> Inl e
      | Inr y \<Rightarrow> (case ui_map f xs of Inl e \<Rightarrow> Inl e | Inr ys \<Rightarrow> Inr (y # ys)))"

text \<open>\<open>if k in r: f(r[k])\<close>.\<close>

definition when_key :: "pyval \<Rightarrow> pystr \<Rightarrow> (pyval \<Rightarrow> unit ui) \<Rightarrow> unit ui" where
  "when_key r k f =
     ui_bind (ui_lift (py_in k r))
       (\<lambda>found. if found then ui_bind (ui_lift (py_getitem r k)) f else ui_ret ())"

text \<open>Widgets drawn in order, each identified by its label.\<close>

definition ui_widgets :: "string list \<Rightarrow> unit ui" where
  "ui_widgets ws = ui_for ws (\<lambda>w. ui_emit (Widget w))"

text \<open>The value of \<open>st.selectbox(label, options, index=dflt)\<close>: the option the user
  picked if it is one, the default otherwise (Streamlit's widget contract).\<close>

definition st_selectbox :: "'a list \<Rightarrow> nat \<Rightarrow> nat option \<Rightarrow> 'a" where
  "st_selectbox opts dflt sel =
     (case sel of
        Some i \<Rightarrow> (if i < length opts then opts ! i else opts ! dflt)
      | None \<Rightarrow> opts ! dflt)"

section \<open>Observations of a trace\<close>

fun calls :: "event list \<Rightarrow> call list" where
  "calls [] = []"
| "calls (Call c # es) = c # calls es"
| "calls (e # es) = calls es"

text \<open>The titles of the expanders opened, in order.\<close>

fun expanders :: "event list \<Rightarrow> ptext list" where
  "expanders [] = []"
| "expanders (Begin (Expander t) # es) = t # expanders es"
| "expanders (e # es) = expanders es"

fun alerts :: "event list \<Rightarrow> (status \<times> ptext) list" where
  "alerts [] = []"
| "alerts (Render (Alert s t) # es) = (s, t) # alerts es"
| "alerts (e # es) = alerts es"

text \<open>The stack of open \<open>with\<close> blocks after a trace, \<open>None\<close> if a block is closed out of
  order.\<close>

fun nest :: "ctx list \<Rightarrow> event list \<Rightarrow> ctx list option" where
  "nest st [] = Some st"
| "nest st (Begin c # es) = nest (c # st) es"
| "nest st (End c # es) =
     (case st of [] \<Rightarrow> None | c' # st' \<Rightarrow> (if c = c' then nest st' es else None))"
| "nest st (e # es) = nest st es"

definition well_nested :: "event list \<Rightarrow> bool" where
  "well_nested es \<longleftrightarrow> nest [] es = Some []"

text \<open>Every service call is made while a spinner is shown.\<close>

fun calls_in_spinner :: "ctx list \<Rightarrow> event list \<Rightarrow> bool" where
  "calls_in_spinner st [] = True"
| "calls_in_spinner st (Begin c # es) = calls_in_spinner (c # st) es"
| "calls_in_spinner st (End c # es) = calls_in_spinner (drop 1 st) es"
| "calls_in_spinner st (Call c # es) =
     (list_ex (\<lambda>x. case x of Spinner _ \<Rightarrow> True | _ \<Rightarrow> False) st \<and> calls_in_spinner st es)"
| "calls_in_spinner st (e # es) = calls_in_spinner st es"

text \<open>Every event of an action satisfies \<open>P\<close>.\<close>

definition trace_all :: "(event \<Rightarrow> bool) \<Rightarrow> 'a ui \<Rightarrow> bool" where
  "trace_all P m \<longleftrightarrow> list_all P (fst m)"

text \<open>An event that renders an element other than an alert.\<close>

fun plain_render :: "event \<Rightarrow> bool" where
  "plain_render (Render (Alert s t)) = False"
| "plain_render (Render e) = True"
| "plain_render _ = False"

text \<open>An event that opens a spinner.\<close>

fun opens_spinner :: "event \<Rightarrow> bool" where
  "opens_spinner (Begin (Spinner _)) = True"
| "opens_spinner _ = False"

definition no_calls :: "'a ui \<Rightarrow> bool" where
  "no_calls m \<longleftrightarrow> calls (fst m) = []"

text \<open>The busy-indicator discipline: blocks are closed in order on every path and every
  service call happens inside an open spinner.\<close>

definition spinner_guarded :: "'a ui \<Rightarrow> bool" where
  "spinner_guarded m \<longleftrightarrow> well_nested (fst m) \<and> calls_in_spinner [] (fst m)"

definition no_rerun :: "'a ui \<Rightarrow> bool" where
  "no_rerun m \<longleftrightarrow> snd m \<noteq> Inl RerunRequest"

section \<open>Unfolding actions\<close>

lemma ui_bind_Inl [simp, ui_simps]: "ui_bind (es, Inl e) f = (es, Inl e)"
  by (simp add: ui_bind_def)

lemma ui_bind_Inr [simp, ui_simps]: "ui_bind (es, Inr x) f = (es @ fst (f x), snd (f x))"
  by (simp add: ui_bind_def)

lemma ui_try_Inr [simp, ui_simps]: "ui_try (es, Inr x) h = (es, Inr x)"
  by (simp add: ui_try_def)

lemma ui_try_Inl [simp, ui_simps]:
  "ui_try (es, Inl e) h = (if is_exception e then (es @ fst (h e), snd (h e)) else (es, Inl e))"
  by (simp add: ui_try_def)

lemmas ui_basic_defs [ui_simps] =
  ui_ret_def ui_lift_def ui_emit_def ui_render_def ui_seq_def ui_with_def ui_call_def

lemma ui_bind_assoc: "ui_bind (ui_bind m f) g = ui_bind m (\<lambda>x. ui_bind (f x) g)"
  by (cases m) (auto simp: ui_bind_def split: sum.splits)

lemma ui_bind_ret [simp]: "ui_bind (ui_ret x) f = f x"
  by (simp add: ui_ret_def)

lemma ui_ret_bind [simp]: "ui_bind m ui_ret = m"
  by (cases m) (auto simp: ui_bind_def ui_ret_def split: sum.splits)

section \<open>Observations of composed actions\<close>

lemma expanders_append [simp]: "expanders (xs @ ys) = expanders xs @ expanders ys"
  by (induction xs rule: expanders.induct) auto

lemma calls_append [simp]: "calls (xs @ ys) = calls xs @ calls ys"
  by (induction xs rule: calls.induct) auto

lemma alerts_append [simp]: "alerts (xs @ ys) = alerts xs @ alerts ys"
  by (induction xs rule: alerts.induct) auto

lemma nest_append: "nest st (xs @ ys) = Option.bind (nest st xs) (\<lambda>st'. nest st' ys)"
  by (induction st xs rule: nest.induct) (auto split: list.splits)

lemma nest_stack: "nest st xs = Some st' \<Longrightarrow> nest (st @ r) xs = Some (st' @ r)"
  by (induction st xs arbitrary: st' rule: nest.induct) (auto split: list.splits if_splits)

lemma well_nested_append [intro]:
  "well_nested xs \<Longrightarrow> well_nested ys \<Longrightarrow> well_nested (xs @ ys)"
  by (simp add: well_nested_def nest_append)

lemma well_nested_bracket:
  "well_nested xs \<Longrightarrow> well_nested (Begin c # xs @ [End c])"
  using nest_stack [of "[]" xs "[]" "[c]"] by (simp add: well_nested_def nest_append)

lemma calls_in_spinner_append:
  "nest st xs = Some st' \<Longrightarrow>
   calls_in_spinner st (xs @ ys) \<longleftrightarrow> calls_in_spinner st xs \<and> calls_in_spinner st' ys"
  by (induction st xs arbitrary: st' rule: nest.induct) (auto split: list.splits if_splits)

section \<open>Well-nested actions\<close>

lemma nested_ret [ui_intros]: "well_nested (fst (ui_ret x))"
  by (simp add: ui_ret_def well_nested_def)

lemma nested_lift [ui_intros]: "well_nested (fst (ui_lift r))"
  by (simp add: ui_lift_def well_nested_def)

lemma nested_render [ui_intros]: "well_nested (fst (ui_render e))"
  by (simp add: ui_render_def ui_emit_def well_nested_def)

lemma nested_emit [ui_intros]:
  "(\<And>c. ev \<noteq> Begin c \<and> ev \<noteq> End c) \<Longrightarrow> well_nested (fst (ui_emit ev))"
  by (cases ev) (auto simp: ui_emit_def well_nested_def)

lemma nested_call [ui_intros]: "well_nested (fst (ui_call b c))"
  by (simp add: ui_call_def well_nested_def)

lemma nested_bind [ui_intros]:
  "well_nested (fst m) \<Longrightarrow> (\<And>x. well_nested (fst (f x))) \<Longrightarrow> well_nested (fst (ui_bind m f))"
  by (auto simp: ui_bind_def split: sum.splits)

lemma nested_seq [ui_intros]:
  "well_nested (fst m) \<Longrightarrow> well_nested (fst n) \<Longrightarrow> well_nested (fst (ui_seq m n))"
  by (simp add: ui_seq_def nested_bind)

lemma nested_try [ui_intros]:
  "well_nested (fst m) \<Longrightarrow> (\<And>e. well_nested (fst (h e))) \<Longrightarrow> well_nested (fst (ui_try m h))"
  by (auto simp: ui_try_def split: sum.splits)

lemma nested_with [ui_intros]: "well_nested (fst m) \<Longrightarrow> well_nested (fst (ui_with c m))"
  by (simp add: ui_with_def well_nested_bracket)

lemma nested_if [ui_intros]:
  "well_nested (fst m) \<Longrightarrow> well_nested (fst n) \<Longrightarrow> well_nested (fst (if b then m else n))"
  by simp

lemma nested_for [ui_intros]:
  "(\<And>x. x \<in> set xs \<Longrightarrow> well_nested (fst (f x))) \<Longrightarrow> well_nested (fst (ui_for xs f))"
  by (induction xs) (auto intro: nested_ret nested_seq)

section \<open>Actions that do not request a rerun\<close>

lemma no_rerun_ret [ui_intros]: "no_rerun (ui_ret x)"
  by (simp add: no_rerun_def ui_ret_def)

lemma no_rerun_render [ui_intros]: "no_rerun (ui_render e)"
  by (simp add: no_rerun_def ui_render_def ui_emit_def)

lemma no_rerun_emit [ui_intros]: "no_rerun (ui_emit ev)"
  by (simp add: no_rerun_def ui_emit_def)

lemma no_rerun_call [ui_intros]: "no_rerun (ui_call b c)"
  by (simp add: no_rerun_def ui_call_def split: sum.splits)

lemma no_rerun_bind [ui_intros]:
  "no_rerun m \<Longrightarrow> (\<And>x. no_rerun (f x)) \<Longrightarrow> no_rerun (ui_bind m f)"
  by (auto simp: no_rerun_def ui_bind_def split: sum.splits)

lemma no_rerun_seq [ui_intros]:
  "no_rerun m \<Longrightarrow> no_rerun n \<Longrightarrow> no_rerun (ui_seq m n)"
  by (simp add: ui_seq_def no_rerun_bind)

lemma no_rerun_with [ui_intros]: "no_rerun m \<Longrightarrow> no_rerun (ui_with c m)"
  by (simp add: no_rerun_def ui_with_def)

lemma no_rerun_for [ui_intros]:
  "(\<And>x. x \<in> set xs \<Longrightarrow> no_rerun (f x)) \<Longrightarrow> no_rerun (ui_for xs f)"
  by (induction xs) (auto intro: no_rerun_ret no_rerun_seq)

lemma no_rerun_if [ui_intros]:
  "no_rerun m \<Longrightarrow> no_rerun n \<Longrightarrow> no_rerun (if b then m else n)"
  by simp

lemma ui_map_not_rerun:
  "(\<And>x. f x \<noteq> Inl RerunRequest) \<Longrightarrow> ui_map f xs \<noteq> Inl RerunRequest"
  by (induction xs) (auto split: sum.splits)

lemma no_rerun_lift [ui_intros]: "r \<noteq> Inl RerunRequest \<Longrightarrow> no_rerun (ui_lift r)"
  by (simp add: no_rerun_def ui_lift_def)

lemma no_rerun_when_key [ui_intros]:
  "(\<And>v. no_rerun (f v)) \<Longrightarrow> no_rerun (when_key r k f)"
  unfolding when_key_def
  by (cases r) (auto intro!: no_rerun_bind no_rerun_lift no_rerun_ret
                 simp: py_getitem_def split: option.splits)

lemma no_rerun_widgets [ui_intros]: "no_rerun (ui_widgets ws)"
  unfolding ui_widgets_def by (rule no_rerun_for) (rule no_rerun_emit)

lemma nested_when_key [ui_intros]:
  "(\<And>v. well_nested (fst (f v))) \<Longrightarrow> well_nested (fst (when_key r k f))"
  unfolding when_key_def by (auto intro!: nested_bind nested_lift nested_ret)

lemma nested_widgets [ui_intros]: "well_nested (fst (ui_widgets ws))"
  unfolding ui_widgets_def by (rule nested_for) (simp add: nested_emit)

lemma ui_widgets_eq [ui_simps]: "ui_widgets ws = (map Widget ws, Inr ())"
  by (induction ws) (simp_all add: ui_widgets_def ui_basic_defs)

lemma calls_map_Widget [simp]: "calls (map Widget ws) = []"
  by (induction ws) simp_all

lemma alerts_map_Widget [simp]: "alerts (map Widget ws) = []"
  by (induction ws) simp_all

text \<open>The failure-isolating boundary of a view: the body never requests a rerun and the
  handler returns normally, so the block returns normally whatever the body raised.\<close>

lemma ui_try_returns:
  assumes "no_rerun m" and "\<And>e. snd (h e) = Inr ()"
  shows "snd (ui_try m h) = Inr ()"
  using assms by (cases "snd m") (auto simp: ui_try_def no_rerun_def is_exception_def)

section \<open>Actions that call no service\<close>

lemma no_calls_ret [ui_intros]: "no_calls (ui_ret x)"
  by (simp add: no_calls_def ui_ret_def)

lemma no_calls_lift [ui_intros]: "no_calls (ui_lift r)"
  by (simp add: no_calls_def ui_lift_def)

lemma no_calls_render [ui_intros]: "no_calls (ui_render e)"
  by (simp add: no_calls_def ui_render_def ui_emit_def)

lemma no_calls_emit [ui_intros]: "(\<And>c. ev \<noteq> Call c) \<Longrightarrow> no_calls (ui_emit ev)"
  by (cases ev) (auto simp: no_calls_def ui_emit_def)

lemma no_calls_bind [ui_intros]:
  "no_calls m \<Longrightarrow> (\<And>x. no_calls (f x)) \<Longrightarrow> no_calls (ui_bind m f)"
  by (auto simp: no_calls_def ui_bind_def split: sum.splits)

lemma no_calls_seq [ui_intros]: "no_calls m \<Longrightarrow> no_calls n \<Longrightarrow> no_calls (ui_seq m n)"
  by (simp add: ui_seq_def no_calls_bind)

lemma no_calls_try [ui_intros]:
  "no_calls m \<Longrightarrow> (\<And>e. no_calls (h e)) \<Longrightarrow> no_calls (ui_try m h)"
  by (auto simp: no_calls_def ui_try_def split: sum.splits)

lemma no_calls_with [ui_intros]: "no_calls m \<Longrightarrow> no_calls (ui_with c m)"
  by (simp add: no_calls_def ui_with_def)

lemma no_calls_if [ui_intros]: "no_calls m \<Longrightarrow> no_calls n \<Longrightarrow> no_calls (if b then m else n)"
  by simp

lemma no_calls_for [ui_intros]:
  "(\<And>x. x \<in> set xs \<Longrightarrow> no_calls (f x)) \<Longrightarrow> no_calls (ui_for xs f)"
  by (induction xs) (auto intro: no_calls_ret no_calls_seq)

lemma no_calls_when_key [ui_intros]: "(\<And>v. no_calls (f v)) \<Longrightarrow> no_calls (when_key r k f)"
  unfolding when_key_def by (auto intro!: no_calls_bind no_calls_lift no_calls_ret)

lemma no_calls_widgets [ui_intros]: "no_calls (ui_widgets ws)"
  by (simp add: no_calls_def ui_widgets_eq)

lemma calls_call_then_quiet:
  "(\<And>x. no_calls (f x)) \<Longrightarrow> calls (fst (ui_bind (ui_call b c) f)) = [c]"
  by (auto simp: ui_bind_def ui_call_def no_calls_def split: sum.splits)

section \<open>The busy indicator\<close>

lemma calls_in_spinner_no_calls: "calls xs = [] \<Longrightarrow> calls_in_spinner st xs"
  by (induction st xs rule: calls_in_spinner.induct) auto

lemma calls_in_spinner_base:
  "nest st xs \<noteq> None \<Longrightarrow> list_ex (\<lambda>x. case x of Spinner _ \<Rightarrow> True | _ \<Rightarrow> False) base \<Longrightarrow>
   calls_in_spinner (st @ base) xs"
  by (induction st xs rule: nest.induct) (auto split: list.splits if_splits)

lemma guarded_spinner [ui_intros]: "well_nested (fst m) \<Longrightarrow> spinner_guarded (ui_with (Spinner t) m)"
proof -
  assume wn: "well_nested (fst m)"
  then have n: "nest [Spinner t] (fst m) = Some [Spinner t]"
    using nest_stack [of "[]" "fst m" "[]" "[Spinner t]"] by (simp add: well_nested_def)
  have "calls_in_spinner ([] @ [Spinner t]) (fst m)"
    by (rule calls_in_spinner_base) (use wn in \<open>simp_all add: well_nested_def\<close>)
  with n show ?thesis using wn
    by (simp add: spinner_guarded_def ui_with_def calls_in_spinner_append well_nested_bracket)
qed

lemma guarded_quiet [ui_intros]: "well_nested (fst m) \<Longrightarrow> no_calls m \<Longrightarrow> spinner_guarded m"
  by (simp add: spinner_guarded_def no_calls_def calls_in_spinner_no_calls)

lemma guarded_bind [ui_intros]:
  "spinner_guarded m \<Longrightarrow> (\<And>x. spinner_guarded (f x)) \<Longrightarrow> spinner_guarded (ui_bind m f)"
  by (auto simp: spinner_guarded_def ui_bind_def well_nested_def calls_in_spinner_append
                 nest_append split: sum.splits)

lemma guarded_seq [ui_intros]:
  "spinner_guarded m \<Longrightarrow> spinner_guarded n \<Longrightarrow> spinner_guarded (ui_seq m n)"
  by (simp add: ui_seq_def guarded_bind)

lemma guarded_if [ui_intros]:
  "spinner_guarded m \<Longrightarrow> spinner_guarded n \<Longrightarrow> spinner_guarded (if b then m else n)"
  by simp

text \<open>A bind whose first action returns a known value needs the continuation guarded only at
  that value.\<close>

lemma guarded_bind_ret:
  "spinner_guarded m \<Longrightarrow> snd m = Inr v \<Longrightarrow> spinner_guarded (f v) \<Longrightarrow> spinner_guarded (ui_bind m f)"
  by (auto simp: spinner_guarded_def ui_bind_def well_nested_def calls_in_spinner_append nest_append)

text \<open>An event that opens no block, closes none and calls nothing keeps a trace guarded.\<close>

lemma guarded_cons_quiet:
  "(\<And>c. ev \<noteq> Begin c) \<Longrightarrow> (\<And>c. ev \<noteq> End c) \<Longrightarrow> (\<And>c. ev \<noteq> Call c) \<Longrightarrow>
   spinner_guarded (es, r) \<Longrightarrow> spinner_guarded (ev # es, r')"
  by (cases ev) (auto simp: spinner_guarded_def well_nested_def)

section \<open>Events of composed actions\<close>

lemma all_ret [ui_intros]: "trace_all P (ui_ret x)"
  by (simp add: trace_all_def ui_ret_def)

lemma all_lift [ui_intros]: "trace_all P (ui_lift r)"
  by (simp add: trace_all_def ui_lift_def)

lemma all_render [ui_intros]: "P (Render e) \<Longrightarrow> trace_all P (ui_render e)"
  by (simp add: trace_all_def ui_render_def ui_emit_def)

lemma all_emit [ui_intros]: "P ev \<Longrightarrow> trace_all P (ui_emit ev)"
  by (simp add: trace_all_def ui_emit_def)

lemma all_bind [ui_intros]:
  "trace_all P m \<Longrightarrow> (\<And>x. trace_all P (f x)) \<Longrightarrow> trace_all P (ui_bind m f)"
  by (auto simp: trace_all_def ui_bind_def split: sum.splits)

lemma all_seq [ui_intros]: "trace_all P m \<Longrightarrow> trace_all P n \<Longrightarrow> trace_all P (ui_seq m n)"
  by (simp add: ui_seq_def all_bind)

lemma all_for [ui_intros]:
  "(\<And>x. x \<in> set xs \<Longrightarrow> trace_all P (f x)) \<Longrightarrow> trace_all P (ui_for xs f)"
  by (induction xs) (auto intro: all_ret all_seq)

lemma all_call [ui_intros]: "P (Call c) \<Longrightarrow> trace_all P (ui_call b c)"
  by (simp add: trace_all_def ui_call_def)

lemma all_try [ui_intros]:
  "trace_all P m \<Longrightarrow> (\<And>e. trace_all P (h e)) \<Longrightarrow> trace_all P (ui_try m h)"
  by (auto simp: trace_all_def ui_try_def split: sum.splits)

lemma all_with [ui_intros]:
  "P (Begin c) \<Longrightarrow> P (End c) \<Longrightarrow> trace_all P m \<Longrightarrow> trace_all P (ui_with c m)"
  by (simp add: trace_all_def ui_with_def)

lemma all_if [ui_intros]:
  "trace_all P m \<Longrightarrow> trace_all P n \<Longrightarrow> trace_all P (if b then m else n)"
  by simp

lemma all_when_key [ui_intros]:
  "(\<And>v. py_getitem r k = Inr v \<Longrightarrow> trace_all P (f v)) \<Longrightarrow> trace_all P (when_key r k f)"
  by (auto simp: when_key_def trace_all_def ui_lift_def ui_ret_def ui_bind_def split: sum.splits)

lemma all_widgets [ui_intros]: "list_all (\<lambda>w. P (Widget w)) ws \<Longrightarrow> trace_all P (ui_widgets ws)"
  by (simp add: trace_all_def ui_widgets_eq list_all_iff)

lemma all_alerts: "trace_all P m \<Longrightarrow> (\<And>s t. \<not> P (Render (Alert s t))) \<Longrightarrow> alerts (fst m) = []"
proof -
  assume a: "trace_all P m" and n: "\<And>s t. \<not> P (Render (Alert s t))"
  have "list_all P xs \<Longrightarrow> alerts xs = []" for xs
    by (induction xs rule: alerts.induct) (auto simp: n)
  with a show ?thesis by (simp add: trace_all_def)
qed

lemma all_expanders:
  "trace_all P m \<Longrightarrow> (\<And>t. \<not> P (Begin (Expander t))) \<Longrightarrow> expanders (fst m) = []"
proof -
  assume a: "trace_all P m" and n: "\<And>t. \<not> P (Begin (Expander t))"
  have "list_all P xs \<Longrightarrow> expanders xs = []" for xs
    by (induction xs rule: expanders.induct) (auto simp: n)
  with a show ?thesis by (simp add: trace_all_def)
qed

lemma all_not_in: "trace_all P m \<Longrightarrow> \<not> P ev \<Longrightarrow> ev \<notin> set (fst m)"
  by (auto simp: trace_all_def list_all_iff)

section \<open>Nested handlers\<close>

lemma no_rerun_try_ret: "(\<And>e. snd (h e) = Inr ()) \<Longrightarrow> no_rerun m \<Longrightarrow> no_rerun (ui_try m h)"
  using ui_try_returns by (simp add: no_rerun_def)

lemma calls_try_quiet_handler:
  "(\<And>e. no_calls (h e)) \<Longrightarrow> calls (fst (ui_try m h)) = calls (fst m)"
  by (auto simp: ui_try_def no_calls_def split: sum.splits)

lemma ui_try_keeps: "set (fst m) \<subseteq> set (fst (ui_try m h))"
  by (auto simp: ui_try_def split: sum.splits)

section \<open>Widgets\<close>

text \<open>A select box or radio with a default in range returns one of its options.\<close>

lemma st_selectbox_in: "d < length opts \<Longrightarrow> st_selectbox opts d sel \<in> set opts"
  by (auto simp: st_selectbox_def split: option.splits)

end
