(* ===== verification/Formatter.thy ===== *)
theory Formatter
  imports Ui_Trace "HOL-Library.Multiset"
begin

text \<open>
  The formatting decisions the views of \<^verbatim>\<open>src/streamlit_app.py\<close> take on service
  responses: the colour of the operation advice (lines 166--171), the progress bar of the
  sentiment score (176), the masking of sensitive configuration values (415--418) and the
  grouping of tasks by status (354--359) with the status badge (371--378). Each is a total
  function into \<open>exc + _\<close>: the exception is the one the Python expression raises on that
  value, and the view's \<open>try\<close> turns it into an error message.
\<close>

text \<open>The default \<open>'N/A'\<close> of the \<open>get\<close> calls of every page.\<close>

definition na :: pyval where
  "na = PStr (py ''N/A'')"

section \<open>Operation advice\<close>

text \<open>The buy and sell tokens of lines 166 and 168 (U+4E70 U+5165, U+5356 U+51FA).\<close>

definition buy_token :: pystr where
  "buy_token = [20080, 20837]"

definition sell_token :: pystr where
  "sell_token = [21334, 20986]"

text \<open>Lines 166--171: \<open>st.success\<close> if the advice contains the buy token, else
  \<open>st.error\<close> if it contains the sell token, else \<open>st.warning\<close>.\<close>

definition advice_status :: "pyval \<Rightarrow> exc + status" where
  "advice_status advice =
     (case py_in buy_token advice of
        Inl e \<Rightarrow> Inl e
      | Inr True \<Rightarrow> Inr Success
      | Inr False \<Rightarrow>
          (case py_in sell_token advice of
             Inl e \<Rightarrow> Inl e
           | Inr True \<Rightarrow> Inr Error
           | Inr False \<Rightarrow> Inr Warning))"

section \<open>Sentiment score\<close>

text \<open>The value check of \<open>st.progress\<close> (Streamlit's contract, not code of this
  repository): an int must lie in [0, 100], a float in [0.0, 1.0] and is shown as
  \<open>int(value * 100)\<close>; anything else raises \<open>StreamlitAPIException\<close>.\<close>

fun st_progress :: "pyval \<Rightarrow> exc + int" where
  "st_progress (PBool b) = Inr (if b then 1 else 0)"
| "st_progress (PInt i) = (if 0 \<le> i \<and> i \<le> 100 then Inr i else Inl StreamlitAPIException)"
| "st_progress (PFloat r) =
     (if 0 \<le> r \<and> r \<le> 1 then Inr (\<lfloor>r * 100\<rfloor>) else Inl StreamlitAPIException)"
| "st_progress _ = Inl StreamlitAPIException"

text \<open>Line 176: \<open>st.progress(score / 100)\<close>.\<close>

definition sentiment_progress :: "pyval \<Rightarrow> exc + int" where
  "sentiment_progress score =
     (case py_div100 score of Inl e \<Rightarrow> Inl e | Inr f \<Rightarrow> st_progress f)"

section \<open>Sensitive configuration values\<close>

text \<open>Line 415: a key is sensitive when its lower-case form contains \<open>api_key\<close>,
  \<open>token\<close> or \<open>password\<close>.\<close>

definition is_sensitive_key :: "pystr \<Rightarrow> bool" where
  "is_sensitive_key key \<longleftrightarrow>
     py_contains (py ''api_key'') (py_lower key) \<or>
     py_contains (py ''token'') (py_lower key) \<or>
     py_contains (py ''password'') (py_lower key)"

text \<open>Line 416: \<open>f"{value[:8]}..." if value and len(value) > 8 else "***"\<close>.\<close>

definition mask_value :: "pyval \<Rightarrow> exc + ptext" where
  "mask_value v =
     (if py_truthy v then
        (case py_len v of
           Inl e \<Rightarrow> Inl e
         | Inr n \<Rightarrow>
             (if 8 < n then
                (case py_slice8 v of Inl e \<Rightarrow> Inl e | Inr p \<Rightarrow> Inr [Val p, Lit ''...''])
              else Inr [Lit ''***'']))
      else Inr [Lit ''***''])"

text \<open>Lines 415--418: the value shown for a configuration key.\<close>

definition display_value :: "pystr \<Rightarrow> pyval \<Rightarrow> exc + ptext" where
  "display_value key v = (if is_sensitive_key key then mask_value v else Inr [Val v])"

section \<open>Tasks grouped by status\<close>

text \<open>Line 356: \<open>task.get("status", "unknown")\<close> and the dictionary key it is stored
  under in \<open>status_groups\<close>.\<close>

definition task_status :: "pyval \<Rightarrow> exc + pyval" where
  "task_status t = py_get t (py ''status'') (PStr (py ''unknown''))"

definition task_key :: "pyval \<Rightarrow> exc + pykey" where
  "task_key t = (case task_status t of Inl e \<Rightarrow> Inl e | Inr s \<Rightarrow> py_hash_key s)"

text \<open>Lines 357--359 on the insertion-ordered dict \<open>status_groups\<close>, held as a list of
  (key, first status value seen, tasks): a new status is appended at the end, a known one gets
  the task appended to its list.\<close>

fun add_to_group ::
  "(pykey \<times> pyval \<times> pyval list) list \<Rightarrow> pykey \<Rightarrow> pyval \<Rightarrow> pyval \<Rightarrow>
   (pykey \<times> pyval \<times> pyval list) list" where
  "add_to_group [] k s t = [(k, s, [t])]"
| "add_to_group ((k', s', ts) # gs) k s t =
     (if k' = k then (k', s', ts @ [t]) # gs else (k', s', ts) # add_to_group gs k s t)"

text \<open>Lines 355--359: the loop over the tasks.\<close>

fun group_tasks ::
  "(pykey \<times> pyval \<times> pyval list) list \<Rightarrow> pyval list \<Rightarrow>
   exc + (pykey \<times> pyval \<times> pyval list) list" where
  "group_tasks acc [] = Inr acc"
| "group_tasks acc (t # ts) =
     (case task_status t of
        Inl e \<Rightarrow> Inl e
      | Inr s \<Rightarrow>
          (case py_hash_key s of
             Inl e \<Rightarrow> Inl e
           | Inr k \<Rightarrow> group_tasks (add_to_group acc k s t) ts))"

text \<open>The grouping the loop computes, stated directly: one group per distinct key in order of
  first occurrence, holding the status value first seen and every task of that key in input
  order.\<close>

definition group_spec ::
  "(pyval \<Rightarrow> pykey) \<Rightarrow> (pyval \<Rightarrow> pyval) \<Rightarrow> pyval list \<Rightarrow> (pykey \<times> pyval \<times> pyval list) list" where
  "group_spec key st ts =
     map (\<lambda>k. (k, st (hd (filter (\<lambda>t. key t = k) ts)), filter (\<lambda>t. key t = k) ts))
         (rev (remdups (rev (map key ts))))"

text \<open>The tasks shown by a grouping, group after group.\<close>

definition grouped :: "(pykey \<times> pyval \<times> pyval list) list \<Rightarrow> pyval list" where
  "grouped gs = concat (map (\<lambda>g. snd (snd g)) gs)"

text \<open>The task status values of \<open>TaskStatus\<close> (in \<^verbatim>\<open>src/services/task_queue.py\<close>,
  outside the sources given here; a \<open>str\<close> enumeration compared with \<open>==\<close>).\<close>

definition status_running :: pyval where
  "status_running = PStr (py ''running'')"

definition status_completed :: pyval where
  "status_completed = PStr (py ''completed'')"

definition status_failed :: pyval where
  "status_failed = PStr (py ''failed'')"

text \<open>The default of line 378 (U+672A U+77E5, "unknown").\<close>

definition unknown_zh :: pystr where
  "unknown_zh = [26410, 30693]"

text \<open>Lines 371--378: the badge of one task.\<close>

definition task_badge :: "pyval \<Rightarrow> exc + status \<times> ptext" where
  "task_badge t =
     (case py_get t (py ''status'') PNone of
        Inl e \<Rightarrow> Inl e
      | Inr s \<Rightarrow>
          (if py_eq s status_running then Inr (Warning, [Lit ''Running''])
           else if py_eq s status_completed then Inr (Success, [Lit ''Completed''])
           else if py_eq s status_failed then Inr (Error, [Lit ''Failed''])
           else (case py_get t (py ''status'') (PStr unknown_zh) of
                   Inl e \<Rightarrow> Inl e
                 | Inr v \<Rightarrow> Inr (Info, [Val v]))))"

text \<open>A task record as \<open>TaskQueue.list_tasks\<close> returns it, for the witnesses.\<close>

definition demo_task :: "string \<Rightarrow> string \<Rightarrow> pyval" where
  "demo_task code st = PDict [(py ''stock_code'', PStr (py code)), (py ''status'', PStr (py st))]"

definition demo_tasks :: "pyval list" where
  "demo_tasks = [demo_task ''600519'' ''running'', demo_task ''00700'' ''completed'',
                 demo_task ''AAPL'' ''running'', demo_task ''TSLA'' ''failed'']"

section \<open>Properties\<close>

text \<open>On a string the advice colour is total and the buy token takes precedence: green
  (success) when the buy token occurs, whether or not the sell token does, red (error) when
  only the sell token occurs, yellow (warning) otherwise.\<close>

theorem advice_status_str:
  "advice_status (PStr s) =
     Inr (if sublist buy_token s then Success else if sublist sell_token s then Error else Warning)"
  by (simp add: advice_status_def py_contains_sublist)

lemma advice_status_not_container:
  "v = PNone \<or> v = PInt i \<or> v = PFloat r \<or> v = PBool b \<Longrightarrow> advice_status v = Inl TypeError"
  by (auto simp: advice_status_def)

text \<open>C20. An integer sentiment score makes \<open>st.progress\<close> raise exactly when it lies
  outside [0, 100] (the code does not clamp); inside the range the bar is drawn with a
  percentage in [0, 100]. The exact percentage is not claimed: floats are modelled as exact
  rationals, while CPython's binary division gives \<open>int(29 / 100 * 100) = 28\<close>. The range
  check itself is exact also for binary floats: division by 100 is correctly rounded, hence
  monotone, and maps 0 and 100 to exactly 0.0 and 1.0.\<close>

theorem sentiment_progress_int:
  "(case sentiment_progress (PInt i) of
      Inl e \<Rightarrow> e = StreamlitAPIException \<and> (i < 0 \<or> 100 < i)
    | Inr p \<Rightarrow> 0 \<le> i \<and> i \<le> 100 \<and> 0 \<le> p \<and> p \<le> 100)"
proof -
  have "(0 \<le> (of_int i / 100 :: rat)) = (0 \<le> i)" by simp
  moreover have "((of_int i / 100 :: rat) \<le> 1) = (i \<le> 100)" by simp
  moreover have "\<lfloor>(of_int i / 100 :: rat) * 100\<rfloor> = i" by simp
  ultimately show ?thesis by (auto simp: sentiment_progress_def)
qed

lemma mask_value_str:
  "mask_value (PStr s) = Inr (if 8 < length s then [Val (PStr (take 8 s)), Lit ''...''] else [Lit ''***''])"
  by (auto simp: mask_value_def)

lemma mask_value_list:
  "mask_value (PList xs) = Inr (if 8 < length xs then [Val (PList (take 8 xs)), Lit ''...''] else [Lit ''***''])"
  by (auto simp: mask_value_def)

lemma add_to_group_new: "k \<notin> fst ` set gs \<Longrightarrow> add_to_group gs k s t = gs @ [(k, s, [t])]"
  by (induction gs k s t rule: add_to_group.induct) auto

lemma add_to_group_old:
  "distinct (map fst gs) \<Longrightarrow> k \<in> fst ` set gs \<Longrightarrow>
   add_to_group gs k s t = map (\<lambda>(k', s', ts). (k', s', if k' = k then ts @ [t] else ts)) gs"
proof (induction gs k s t rule: add_to_group.induct)
  case (1 k s t)
  then show ?case by simp
next
  case (2 k' s' ts gs k s t)
  show ?case
  proof (cases "k' = k")
    case True
    with "2.prems" have "k \<notin> fst ` set gs" by auto
    then have "map (\<lambda>(k'', s'', ts). (k'', s'', if k'' = k then ts @ [t] else ts)) gs = gs"
      by (induction gs) auto
    with True show ?thesis by simp
  next
    case False
    with 2 show ?thesis by auto
  qed
qed

lemma map_fst_group_spec: "map fst (group_spec key st ts) = rev (remdups (rev (map key ts)))"
  by (simp add: group_spec_def comp_def)

lemma group_spec_snoc:
  "add_to_group (group_spec key st xs) (key x) (st x) x = group_spec key st (xs @ [x])"
proof (cases "key x \<in> key ` set xs")
  case True
  have d: "distinct (map fst (group_spec key st xs))" by (simp add: map_fst_group_spec)
  have k: "key x \<in> fst ` set (group_spec key st xs)"
    using True map_fst_group_spec [of key st xs] by (metis list.set_map set_remdups set_rev)
  have keys: "rev (remdups (rev (map key (xs @ [x])))) = rev (remdups (rev (map key xs)))"
    using True by auto
  have ne: "filter (\<lambda>t. key t = k) xs \<noteq> []" if "k \<in> set (rev (remdups (rev (map key xs))))" for k
    using that by (auto simp: filter_empty_conv)
  have "add_to_group (group_spec key st xs) (key x) (st x) x =
        map (\<lambda>(k', s', ts). (k', s', if k' = key x then ts @ [x] else ts)) (group_spec key st xs)"
    by (rule add_to_group_old [OF d k])
  also have "\<dots> = group_spec key st (xs @ [x])"
    unfolding group_spec_def keys by (auto simp: ne hd_append map_eq_conv)
  finally show ?thesis .
next
  case False
  then have k: "key x \<notin> fst ` set (group_spec key st xs)"
    using map_fst_group_spec [of key st xs] by (metis list.set_map set_remdups set_rev)
  have f: "filter (\<lambda>t. key t = key x) xs = []"
    using False by (auto simp: filter_empty_conv) (metis image_eqI)
  have "add_to_group (group_spec key st xs) (key x) (st x) x =
        group_spec key st xs @ [(key x, st x, [x])]"
    by (rule add_to_group_new [OF k])
  also have "\<dots> = group_spec key st (xs @ [x])"
    using False unfolding group_spec_def by (auto simp: f map_eq_conv)
  finally show ?thesis .
qed

lemma group_tasks_foldl:
  "\<forall>t \<in> set ts. task_status t = Inr (st t) \<and> py_hash_key (st t) = Inr (key t) \<Longrightarrow>
   group_tasks acc ts = Inr (foldl (\<lambda>gs t. add_to_group gs (key t) (st t) t) acc ts)"
  by (induction acc ts rule: group_tasks.induct) auto

lemma foldl_add_to_group:
  "foldl (\<lambda>gs t. add_to_group gs (key t) (st t) t) [] ts = group_spec key st ts"
proof (induction ts rule: rev_induct)
  case Nil
  then show ?case by (simp add: group_spec_def)
next
  case (snoc x xs)
  then show ?case by (simp add: group_spec_snoc)
qed

lemma group_tasks_eq_spec:
  "\<forall>t \<in> set ts. task_status t = Inr (st t) \<and> py_hash_key (st t) = Inr (key t) \<Longrightarrow>
   group_tasks [] ts = Inr (group_spec key st ts)"
  using group_tasks_foldl [of ts st key "[]"] by (simp only: foldl_add_to_group)

text \<open>C21. When every task is a dict whose status is hashable, the grouping loop of the
  task monitor computes exactly the direct grouping: one group per distinct status in order
  of first occurrence, each holding that status's tasks in input order.\<close>

theorem group_tasks_spec:
  "\<forall>t \<in> set ts. task_status t = Inr (st t) \<and> py_hash_key (st t) = Inr (key t) \<Longrightarrow>
   group_tasks [] ts = Inr (group_spec key st ts)"
  by (rule group_tasks_eq_spec)

lemma mset_add_to_group: "mset (grouped (add_to_group gs k s t)) = mset (grouped gs) + {#t#}"
  by (induction gs k s t rule: add_to_group.induct) (auto simp: grouped_def)

lemma keys_add_to_group: "fst ` set (add_to_group gs k s t) = insert k (fst ` set gs)"
  by (induction gs k s t rule: add_to_group.induct) auto

lemma distinct_add_to_group: "distinct (map fst gs) \<Longrightarrow> distinct (map fst (add_to_group gs k s t))"
  by (induction gs k s t rule: add_to_group.induct) (auto simp: keys_add_to_group)

text \<open>Whenever the grouping loop succeeds, the groups together hold exactly the
  tasks of the input (as a multiset, plus what the accumulator held): no task is lost or
  shown twice.\<close>

theorem group_tasks_mset:
  "group_tasks acc ts = Inr gs \<Longrightarrow> mset (grouped gs) = mset (grouped acc) + mset ts"
  by (induction acc ts rule: group_tasks.induct)
     (auto simp: mset_add_to_group split: sum.splits)

theorem group_tasks_distinct:
  "group_tasks acc ts = Inr gs \<Longrightarrow> distinct (map fst acc) \<Longrightarrow> distinct (map fst gs)"
  by (induction acc ts rule: group_tasks.induct)
     (auto simp: distinct_add_to_group split: sum.splits)

lemma formatter_not_rerun [simp]:
  "advice_status v \<noteq> Inl RerunRequest"
  "sentiment_progress v \<noteq> Inl RerunRequest"
  "mask_value v \<noteq> Inl RerunRequest"
  "display_value k v \<noteq> Inl RerunRequest"
  "task_badge v \<noteq> Inl RerunRequest"
proof -
  have sp: "st_progress f \<noteq> Inl RerunRequest" for f by (cases f) auto
  show "advice_status v \<noteq> Inl RerunRequest"
    by (auto simp: advice_status_def split: sum.splits bool.splits)
  show "sentiment_progress v \<noteq> Inl RerunRequest"
    by (auto simp: sentiment_progress_def sp split: sum.splits)
  show mv: "mask_value v \<noteq> Inl RerunRequest" for v
    by (auto simp: mask_value_def split: sum.splits)
  show "display_value k v \<noteq> Inl RerunRequest"
    by (simp add: display_value_def mv)
  show "task_badge v \<noteq> Inl RerunRequest"
    by (auto simp: task_badge_def split: sum.splits)
qed

text \<open>For a sensitive key with a string value, the page shows the first eight code
  points of the value followed by an ellipsis when the value is longer than eight, and the
  fixed mask otherwise: never more than eight code points of the secret.\<close>

theorem display_value_sensitive_str:
  "is_sensitive_key k \<Longrightarrow>
   display_value k (PStr s) =
     Inr (if 8 < length s then [Val (PStr (take 8 s)), Lit ''...''] else [Lit ''***''])"
  by (simp add: display_value_def mask_value_str)

text \<open>For a sensitive key whose value is a list of more than eight entries (the
  plural keys \<open>tavily_api_keys\<close>, \<open>serpapi_keys\<close>), the page shows the first eight
  entries whole: masking cuts the list, not the secrets in it.\<close>

theorem display_value_sensitive_list:
  "is_sensitive_key k \<Longrightarrow> 8 < length xs \<Longrightarrow>
   display_value k (PList xs) = Inr [Val (PList (take 8 xs)), Lit ''...'']"
  by (simp add: display_value_def mask_value_list)

section \<open>Witnesses\<close>

lemma advice_status_witness:
  "advice_status (PStr (buy_token @ sell_token)) = Inr Success \<and>
   advice_status (PStr sell_token) = Inr Error \<and> advice_status (PStr [25345]) = Inr Warning"
  using advice_status_str [of "buy_token @ sell_token"] advice_status_str [of sell_token]
        advice_status_str [of "[25345]"]
  by (simp add: buy_token_def sell_token_def sublist_code)

lemma display_value_sensitive_str_witness:
  "is_sensitive_key (py ''openai_api_key'') \<and>
   display_value (py ''openai_api_key'') (PStr (py ''sk-1234567890'')) =
     Inr [Val (PStr (py ''sk-12345'')), Lit ''...''] \<and>
   display_value (py ''openai_api_key'') (PStr []) = Inr [Lit ''***'']"
proof -
  have k: "is_sensitive_key (py ''openai_api_key'')"
    by (simp add: is_sensitive_key_def py_lower_def py_def sublist_code)
  show ?thesis
    using k display_value_sensitive_str [OF k, of "py ''sk-1234567890''"]
          display_value_sensitive_str [OF k, of "[]"]
    by (simp add: py_def)
qed

lemma display_value_sensitive_list_witness:
  "is_sensitive_key (py ''tavily_api_keys'') \<and> 8 < length (replicate 9 (PStr (py ''tvly-k''))) \<and>
   display_value (py ''tavily_api_keys'') (PList (replicate 9 (PStr (py ''tvly-k'')))) =
     Inr [Val (PList (replicate 8 (PStr (py ''tvly-k'')))), Lit ''...'']"
proof -
  have k: "is_sensitive_key (py ''tavily_api_keys'')"
    by (simp add: is_sensitive_key_def py_lower_def py_def sublist_code)
  show ?thesis
    using k display_value_sensitive_list [OF k, of "replicate 9 (PStr (py ''tvly-k''))"]
    by (simp add: numeral_eq_Suc)
qed

lemma sentiment_progress_witness:
  "(\<exists>p. sentiment_progress (PInt 75) = Inr p \<and> 0 \<le> p \<and> p \<le> 100) \<and>
   (\<exists>p. sentiment_progress (PInt 0) = Inr p \<and> 0 \<le> p \<and> p \<le> 100) \<and>
   sentiment_progress (PInt 120) = Inl StreamlitAPIException \<and>
   sentiment_progress (PInt (-1)) = Inl StreamlitAPIException"
  using sentiment_progress_int [of 75] sentiment_progress_int [of 0] sentiment_progress_int [of 120]
    sentiment_progress_int [of "-1"]
  by (auto split: sum.splits)

lemma group_tasks_spec_witness:
  "list_all (\<lambda>t.
      task_status t = Inr ((\<lambda>t. case task_status t of Inr s \<Rightarrow> s | Inl _ \<Rightarrow> PNone) t) \<and>
      py_hash_key ((\<lambda>t. case task_status t of Inr s \<Rightarrow> s | Inl _ \<Rightarrow> PNone) t) =
        Inr ((\<lambda>t. case task_key t of Inr k \<Rightarrow> k | Inl _ \<Rightarrow> KNone) t)) demo_tasks \<and>
   group_tasks [] demo_tasks =
     Inr (group_spec (\<lambda>t. case task_key t of Inr k \<Rightarrow> k | Inl _ \<Rightarrow> KNone)
                     (\<lambda>t. case task_status t of Inr s \<Rightarrow> s | Inl _ \<Rightarrow> PNone) demo_tasks) \<and>
   map fst (group_spec (\<lambda>t. case task_key t of Inr k \<Rightarrow> k | Inl _ \<Rightarrow> KNone)
                       (\<lambda>t. case task_status t of Inr s \<Rightarrow> s | Inl _ \<Rightarrow> PNone) demo_tasks) =
     [KStr (py ''running''), KStr (py ''completed''), KStr (py ''failed'')]"
proof -
  have h: "\<forall>t \<in> set demo_tasks.
      task_status t = Inr ((\<lambda>t. case task_status t of Inr s \<Rightarrow> s | Inl _ \<Rightarrow> PNone) t) \<and>
      py_hash_key ((\<lambda>t. case task_status t of Inr s \<Rightarrow> s | Inl _ \<Rightarrow> PNone) t) =
        Inr ((\<lambda>t. case task_key t of Inr k \<Rightarrow> k | Inl _ \<Rightarrow> KNone) t)"
    by (simp add: demo_tasks_def demo_task_def task_status_def task_key_def py_get_def py_def)
  have k: "map fst (group_spec (\<lambda>t. case task_key t of Inr k \<Rightarrow> k | Inl _ \<Rightarrow> KNone)
                       (\<lambda>t. case task_status t of Inr s \<Rightarrow> s | Inl _ \<Rightarrow> PNone) demo_tasks) =
     [KStr (py ''running''), KStr (py ''completed''), KStr (py ''failed'')]"
    by (simp add: group_spec_def demo_tasks_def demo_task_def task_status_def task_key_def
                  py_get_def py_def)
  show ?thesis using h k group_tasks_spec [OF h] by (simp add: list_all_iff)
qed

lemma group_tasks_mset_witness:
  "\<exists>gs. group_tasks [] demo_tasks = Inr gs \<and> mset (grouped gs) = mset (grouped []) + mset demo_tasks"
proof -
  obtain gs where g: "group_tasks [] demo_tasks = Inr gs"
    by (simp add: demo_tasks_def demo_task_def task_status_def py_get_def py_def)
  show ?thesis using g group_tasks_mset [OF g] by blast
qed

end
