(* ===== verification/Analysis_View.thy ===== *)
theory Analysis_View
  imports Formatter
begin

text \<open>
  The stock-analysis page, \<open>show_analysis_page\<close> (lines 104--199 of
  \<^verbatim>\<open>src/streamlit_app.py\<close>). The widget values of the run are an
  \<open>analysis_input\<close>; the query id is the \<open>uuid.uuid4().hex\<close> drawn in this run. The
  page draws its widgets, and only when the button was clicked in this run checks that the code
  is non-empty, shows a spinner and, inside \<open>try\<close>, calls
  \<open>AnalysisService.analyze_stock\<close> once and renders the result.
\<close>

record analysis_input =
  a_stock_code :: pystr
  a_report_type :: "nat option"
  a_force_refresh :: bool
  a_send_notification :: bool
  a_clicked :: bool

text \<open>Line 119: the report-type select box, \<open>["detailed", "simple"]\<close>, default index 0.\<close>

definition report_type_of :: "analysis_input \<Rightarrow> pystr" where
  "report_type_of inp = st_selectbox [py ''detailed'', py ''simple''] 0 (a_report_type inp)"

text \<open>Lines 159--186: a structured report, one section per key present.\<close>

definition render_report :: "pyval \<Rightarrow> unit ui" where
  "render_report r =
     ui_seq (when_key r (py ''summary'') (\<lambda>v.
       ui_seq (ui_render (Markdown [Lit ''### Summary'']))
              (ui_render (Alert Info [Val v]))))
    (ui_seq (when_key r (py ''operation_advice'') (\<lambda>advice.
       ui_seq (ui_render (Markdown [Lit ''### Operation advice'']))
              (ui_bind (ui_lift (advice_status advice)) (\<lambda>s.
                 ui_render (Alert s [Lit ''**'', Val advice, Lit ''**''])))))
    (ui_seq (when_key r (py ''sentiment_score'') (\<lambda>score.
       ui_seq (ui_render (Markdown [Lit ''### Sentiment score'']))
              (ui_bind (ui_lift (sentiment_progress score)) (\<lambda>p.
                 ui_seq (ui_render (Progress p))
                        (ui_render (Caption [Lit ''Score: '', Val score, Lit ''/100'']))))))
    (ui_seq (when_key r (py ''trend_prediction'') (\<lambda>v.
       ui_seq (ui_render (Markdown [Lit ''### Trend prediction'']))
              (ui_render (Alert Info [Val v]))))
            (when_key r (py ''full_report'') (\<lambda>v.
       ui_seq (ui_render (Markdown [Lit ''### Full report'']))
              (ui_render (Markdown [Val v])))))))"

text \<open>Lines 155--189: the report is rendered section by section when it is a dict, as
  markdown otherwise.\<close>

definition render_result_report :: "pyval \<Rightarrow> unit ui" where
  "render_result_report result =
     when_key result (py ''report'') (\<lambda>report.
       (case report of
          PDict _ \<Rightarrow> render_report report
        | _ \<Rightarrow> ui_render (Markdown [Val report])))"

text \<open>Lines 140--146: the request sent to \<open>analyze_stock\<close>.\<close>

definition analysis_request :: "analysis_input \<Rightarrow> pystr \<Rightarrow> call" where
  "analysis_request inp qid =
     AnalyzeStock (py_strip (a_stock_code inp)) (report_type_of inp) (a_force_refresh inp) qid
       (a_send_notification inp)"

text \<open>Lines 139--195: the body of the \<open>try\<close>.\<close>

definition analysis_body :: "backend \<Rightarrow> analysis_input \<Rightarrow> pystr \<Rightarrow> unit ui" where
  "analysis_body b inp qid =
     ui_bind (ui_call b (analysis_request inp qid)) (\<lambda>result.
       if py_truthy result then
         ui_seq (ui_render (Alert Success [Lit ''Analysis complete!'']))
        (ui_seq (ui_render (Markdown [Lit ''---'']))
        (ui_bind (ui_lift (py_get result (py ''stock_name'') na)) (\<lambda>name.
         ui_bind (ui_lift (py_get result (py ''stock_code'') na)) (\<lambda>code.
         ui_seq (ui_render (Subheader [Lit ''(chart) '', Val name, Lit '' ('', Val code, Lit '')'']))
        (ui_seq (render_result_report result)
                (ui_render (Caption [Lit ''Query ID: '', Str qid])))))))
       else ui_render (Alert Error [Lit ''Analysis failed, check the stock code or the logs'']))"

text \<open>Lines 197--199: the handler of \<open>except Exception as e\<close>.\<close>

definition analysis_handler :: "exc \<Rightarrow> unit ui" where
  "analysis_handler e =
     ui_seq (ui_render (Alert Error [Lit ''Error during analysis: '', Msg e]))
            (ui_emit (LogException ''Analysis error''))"

text \<open>A run with the button clicked, the default report type, no forced refresh and
  notification on, used by the witnesses below.\<close>

definition demo_input :: "pystr \<Rightarrow> analysis_input" where
  "demo_input code = \<lparr>a_stock_code = code, a_report_type = None, a_force_refresh = False,
                      a_send_notification = True, a_clicked = True\<rparr>"

text \<open>Lines 104--199.\<close>

definition show_analysis_page :: "backend \<Rightarrow> analysis_input \<Rightarrow> pystr \<Rightarrow> unit ui" where
  "show_analysis_page b inp qid =
     ui_seq (ui_render (Title [Lit ''Stock analysis'']))
    (ui_seq (ui_render (Markdown [Lit ''Trigger AI analysis and get decision advice'']))
    (ui_seq (ui_widgets [''Stock code'', ''Report type'', ''Force refresh'', ''Send notification'',
                         ''Start analysis''])
      (if \<not> a_clicked inp then ui_ret ()
       else if a_stock_code inp = [] then
         ui_render (Alert Error [Lit ''Please enter a stock code''])
       else
         ui_with (Spinner [Lit ''Analysing '', Str (a_stock_code inp), Lit ''...''])
           (ui_try (analysis_body b inp qid) analysis_handler))))"

section \<open>Properties\<close>

lemma report_quiet [ui_intros]:
  "no_calls (render_report r)" "no_calls (render_result_report r)"
  "no_rerun (render_report r)" "no_rerun (render_result_report r)"
  "well_nested (fst (render_report r))" "well_nested (fst (render_result_report r))"
  unfolding render_report_def render_result_report_def
  by (intro ui_intros; simp split: pyval.split add: ui_intros)+

lemma analysis_body_calls: "calls (fst (analysis_body b inp qid)) = [analysis_request inp qid]"
  unfolding analysis_body_def by (rule calls_call_then_quiet) (intro ui_intros)

lemma analysis_body_props [ui_intros]:
  "no_rerun (analysis_body b inp qid)" "well_nested (fst (analysis_body b inp qid))"
  unfolding analysis_body_def by (intro ui_intros; simp)+

lemma analysis_handler_props [ui_intros]:
  "no_calls (analysis_handler e)" "well_nested (fst (analysis_handler e))"
  "snd (analysis_handler e) = Inr ()"
  unfolding analysis_handler_def by (intro ui_intros; simp)+ (simp add: ui_simps)

text \<open>C2. When the button is clicked with an empty code, the page shows the
  "please enter a stock code" error and makes no service call.\<close>

theorem analysis_empty_code:
  "a_clicked inp \<Longrightarrow> a_stock_code inp = [] \<Longrightarrow>
   calls (fst (show_analysis_page b inp qid)) = [] \<and>
   alerts (fst (show_analysis_page b inp qid)) = [(Error, [Lit ''Please enter a stock code''])]"
  by (simp add: show_analysis_page_def ui_simps)

text \<open>C3. When the button is clicked with a non-empty code, the page makes exactly one
  service call, \<open>analyze_stock\<close> with the request built from the widgets.\<close>

theorem analysis_one_call:
  "a_clicked inp \<Longrightarrow> a_stock_code inp \<noteq> [] \<Longrightarrow>
   calls (fst (show_analysis_page b inp qid)) = [analysis_request inp qid]"
  using analysis_handler_props(1) [unfolded no_calls_def]
  by (auto simp: show_analysis_page_def ui_simps analysis_body_calls ui_try_def split: sum.splits)

text \<open>C1. Whatever the widgets hold and whatever the service returns or raises, the page
  returns normally: no exception escapes the view.\<close>

theorem analysis_returns: "snd (show_analysis_page b inp qid) = Inr ()"
  by (simp add: show_analysis_page_def ui_simps ui_try_returns analysis_body_props analysis_handler_props)

text \<open>C9. The analysis call is made while the spinner is shown, and the spinner is closed
  on every path, the exception path included.\<close>

theorem analysis_spinner: "spinner_guarded (show_analysis_page b inp qid)"
  unfolding show_analysis_page_def by (intro ui_intros; simp)

text \<open>C4. When the service raises, the page shows exactly one alert, the error with the
  exception message, and logs the exception.\<close>

theorem analysis_service_failure:
  "a_clicked inp \<Longrightarrow> a_stock_code inp \<noteq> [] \<Longrightarrow> b (analysis_request inp qid) = Inl msg \<Longrightarrow>
   alerts (fst (show_analysis_page b inp qid)) =
     [(Error, [Lit ''Error during analysis: '', Msg (ServiceError msg)])] \<and>
   LogException ''Analysis error'' \<in> set (fst (show_analysis_page b inp qid))"
  by (simp add: show_analysis_page_def analysis_body_def analysis_handler_def ui_simps
                is_exception_def)

text \<open>C19. When the service returns an empty result (None or an empty dict), the page
  shows the "analysis failed" error: the code has no separate no-data state here.\<close>

theorem analysis_falsy_result:
  "a_clicked inp \<Longrightarrow> a_stock_code inp \<noteq> [] \<Longrightarrow> b (analysis_request inp qid) = Inr v \<Longrightarrow>
   \<not> py_truthy v \<Longrightarrow>
   alerts (fst (show_analysis_page b inp qid)) =
     [(Error, [Lit ''Analysis failed, check the stock code or the logs''])]"
  by (simp add: show_analysis_page_def analysis_body_def ui_simps)


text \<open>C10. The code sent to the service is the input with leading and trailing white space
  removed: it neither starts nor ends with white space and occurs in the input.\<close>

theorem analysis_request_trimmed:
  "analysis_request inp qid = AnalyzeStock c rt fr q sn \<Longrightarrow>
   (c = [] \<or> \<not> is_space (hd c) \<and> \<not> is_space (last c)) \<and> sublist c (a_stock_code inp)"
proof -
  assume req: "analysis_request inp qid = AnalyzeStock c rt fr q sn"
  then have c: "c = py_strip (a_stock_code inp)" by (simp add: analysis_request_def)
  have "c = [] \<or> \<not> is_space (hd c) \<and> \<not> is_space (last c)"
  proof (cases c)
    case (Cons x r)
    with c have "\<not> is_space x" using py_strip_hd by metis
    moreover have "\<not> is_space (last c)"
      using c Cons py_strip_last [of "a_stock_code inp"] by (metis list.distinct(1))
    ultimately show ?thesis using Cons by simp
  qed simp
  with c show ?thesis using py_strip_sublist by simp
qed

text \<open>C18. A code of white space only passes the page's check (\<open>if not stock_code\<close>
  tests emptiness, not blankness) and the service is called with the empty code.\<close>

theorem analysis_blank_code_called:
  "a_clicked inp \<Longrightarrow> a_stock_code inp \<noteq> [] \<Longrightarrow> \<forall>x \<in> set (a_stock_code inp). is_space x \<Longrightarrow>
   calls (fst (show_analysis_page b inp qid)) =
     [AnalyzeStock [] (report_type_of inp) (a_force_refresh inp) qid (a_send_notification inp)]"
  using analysis_handler_props(1) [unfolded no_calls_def]
  by (auto simp: show_analysis_page_def ui_simps analysis_body_calls ui_try_def analysis_request_def
                 py_strip_Nil_iff split: sum.splits)

section \<open>Witnesses\<close>

lemma analysis_empty_code_witness:
  "a_clicked (demo_input []) \<and> a_stock_code (demo_input []) = [] \<and>
   calls (fst (show_analysis_page (\<lambda>_. Inr PNone) (demo_input []) (py ''q1''))) = []"
  using analysis_empty_code [of "demo_input []" "\<lambda>_. Inr PNone" "py ''q1''"]
  by (simp add: demo_input_def)

lemma analysis_one_call_witness:
  "a_clicked (demo_input (py ''600519'')) \<and> a_stock_code (demo_input (py ''600519'')) \<noteq> [] \<and>
   calls (fst (show_analysis_page (\<lambda>_. Inr PNone) (demo_input (py ''600519'')) (py ''q1''))) =
     [AnalyzeStock (py ''600519'') (py ''detailed'') False (py ''q1'') True]"
  using analysis_one_call [of "demo_input (py ''600519'')" "\<lambda>_. Inr PNone" "py ''q1''"]
  by (simp add: demo_input_def analysis_request_def report_type_of_def st_selectbox_def py_def
                py_strip_def py_lstrip_def py_rstrip_def is_space_def)

lemma analysis_service_failure_witness:
  "a_clicked (demo_input (py ''AAPL'')) \<and> a_stock_code (demo_input (py ''AAPL'')) \<noteq> [] \<and>
   alerts (fst (show_analysis_page (\<lambda>_. Inl (py ''timeout'')) (demo_input (py ''AAPL'')) (py ''q2''))) =
     [(Error, [Lit ''Error during analysis: '', Msg (ServiceError (py ''timeout''))])]"
  using analysis_service_failure [of "demo_input (py ''AAPL'')" "\<lambda>_. Inl (py ''timeout'')" "py ''q2''"]
  by (simp add: demo_input_def py_def)

lemma analysis_falsy_result_witness:
  "a_clicked (demo_input (py ''AAPL'')) \<and> a_stock_code (demo_input (py ''AAPL'')) \<noteq> [] \<and>
   \<not> py_truthy (PDict []) \<and>
   alerts (fst (show_analysis_page (\<lambda>_. Inr (PDict [])) (demo_input (py ''AAPL'')) (py ''q3''))) =
     [(Error, [Lit ''Analysis failed, check the stock code or the logs''])]"
  using analysis_falsy_result [of "demo_input (py ''AAPL'')" "\<lambda>_. Inr (PDict [])" "py ''q3''"]
  by (simp add: demo_input_def py_def)

lemma analysis_request_trimmed_witness:
  "analysis_request (demo_input [32, 65, 32]) (py ''q'') =
     AnalyzeStock [65] (py ''detailed'') False (py ''q'') True \<and>
   sublist [65] (a_stock_code (demo_input [32, 65, 32]))"
proof -
  have r: "analysis_request (demo_input [32, 65, 32]) (py ''q'') =
           AnalyzeStock [65] (py ''detailed'') False (py ''q'') True"
    by (simp add: demo_input_def analysis_request_def report_type_of_def st_selectbox_def py_def
                  py_strip_def py_lstrip_def py_rstrip_def is_space_def)
  show ?thesis using r analysis_request_trimmed [OF r] by simp
qed

lemma analysis_blank_code_called_witness:
  "a_clicked (demo_input [32, 12288]) \<and> a_stock_code (demo_input [32, 12288]) \<noteq> [] \<and>
   list_all is_space (a_stock_code (demo_input [32, 12288])) \<and>
   calls (fst (show_analysis_page (\<lambda>_. Inr PNone) (demo_input [32, 12288]) (py ''q4''))) =
     [AnalyzeStock [] (py ''detailed'') False (py ''q4'') True]"
proof -
  have h: "\<forall>x \<in> set (a_stock_code (demo_input [32, 12288])). is_space x"
    by (simp add: demo_input_def is_space_def)
  show ?thesis
    using h analysis_blank_code_called [of "demo_input [32, 12288]" "\<lambda>_. Inr PNone" "py ''q4''"]
    by (simp add: demo_input_def is_space_def report_type_of_def st_selectbox_def py_def)
qed

lemma analysis_returns_witness:
  "snd (show_analysis_page (\<lambda>_. Inl (py ''boom'')) (demo_input (py ''600519'')) (py ''q5'')) = Inr ()"
  by (rule analysis_returns)

lemma analysis_spinner_witness:
  "spinner_guarded (show_analysis_page (\<lambda>_. Inr (PDict [])) (demo_input (py ''600519'')) (py ''q6''))"
  by (rule analysis_spinner)

end
