(* ===== verification/History_View.thy ===== *)
theory History_View
  imports Formatter
begin

text \<open>
  The history page, \<open>show_history_page\<close> (lines 202--266 of
  \<^verbatim>\<open>src/streamlit_app.py\<close>). The widget values of the run are a
  \<open>history_input\<close>; \<open>today\<close> is the local date of \<open>datetime.now()\<close> as a day
  number. Subtracting whole days keeps the time of day, so the date printed by
  \<open>strftime("%Y-%m-%d")\<close> is \<open>today - days_back\<close>; a day number stands for that date
  string (the printing is injective). When the button was clicked in this run, the page calls
  \<open>HistoryService.get_history_list\<close> once under a spinner and shows the items as a table,
  then a select box over the items and the report of the selected one.
\<close>

record history_input =
  h_code_filter :: pystr
  h_days_back :: "nat option"
  h_page_size :: "nat option"
  h_clicked :: bool
  h_selected :: "nat option"

text \<open>Line 213: \<open>st.selectbox("...", [7, 30, 90, 180, 365], index=1)\<close>.\<close>

definition days_back_of :: "history_input \<Rightarrow> nat" where
  "days_back_of inp = st_selectbox [7, 30, 90, 180, 365] 1 (h_days_back inp)"

text \<open>Line 217: \<open>st.selectbox("...", [10, 20, 50, 100], index=1)\<close>.\<close>

definition page_size_of :: "history_input \<Rightarrow> nat" where
  "page_size_of inp = st_selectbox [10, 20, 50, 100] 1 (h_page_size inp)"

text \<open>Line 214: \<open>(datetime.now() - timedelta(days=days_back)).strftime("%Y-%m-%d")\<close>.\<close>

definition start_date :: "day \<Rightarrow> history_input \<Rightarrow> day" where
  "start_date today inp = today - int (days_back_of inp)"

text \<open>Lines 222--227: the request; the filter is \<open>None\<close> only for the empty string.\<close>

definition history_request :: "day \<Rightarrow> history_input \<Rightarrow> call" where
  "history_request today inp =
     GetHistoryList
       (if h_code_filter inp = [] then None else Some (py_strip (h_code_filter inp)))
       (start_date today inp) 1 (page_size_of inp)"

text \<open>Line 229: \<open>result and "items" in result and result["items"]\<close>.\<close>

definition history_has_items :: "pyval \<Rightarrow> exc + bool" where
  "history_has_items result =
     (if \<not> py_truthy result then Inr False
      else py_then (py_in (py ''items'') result) (\<lambda>found.
             if \<not> found then Inr False
             else py_then (py_getitem result (py ''items'')) (\<lambda>items. Inr (py_truthy items))))"

text \<open>Lines 235--242: one row of the table.\<close>

definition history_row :: "pyval \<Rightarrow> exc + pyval list" where
  "history_row item =
     py_then (py_get item (py ''meta'') (PDict [])) (\<lambda>meta.
       ui_map (\<lambda>k. py_get meta k na)
         [py ''stock_code'', py ''stock_name'', py ''created_at'', py ''operation_advice'',
          py ''sentiment_score''])"

text \<open>Line 254: the label \<open>format_func\<close> gives option \<open>x\<close> of the record select box.\<close>

definition record_label :: "pyval \<Rightarrow> nat \<Rightarrow> exc + pyval \<times> pyval" where
  "record_label items x =
     py_then (py_index items x) (\<lambda>it.
     py_then (py_getitem it (py ''meta'')) (\<lambda>meta.
     py_then (py_get meta (py ''stock_name'') na) (\<lambda>name.
     py_then (py_get meta (py ''created_at'') na) (\<lambda>created. Inr (name, created)))))"

text \<open>Lines 249--260: the record select box (Streamlit formats every option to draw it) and
  the report of the selected record.\<close>

definition history_details :: "pyval \<Rightarrow> history_input \<Rightarrow> unit ui" where
  "history_details items inp =
     ui_seq (ui_render (Markdown [Lit ''---'']))
    (ui_seq (ui_render (Subheader [Lit ''View detailed report'']))
    (ui_bind (ui_lift (py_len items)) (\<lambda>n.
     ui_bind (ui_lift (ui_map (record_label items) [0..<n])) (\<lambda>labels.
     ui_seq (ui_emit (Widget ''Select record''))
    (ui_bind (ui_lift (py_index items (st_selectbox [0..<n] 0 (h_selected inp)))) (\<lambda>item.
     when_key item (py ''report'') (\<lambda>r. ui_render (Markdown [Val r]))))))))"

text \<open>Lines 222--262: the body of the \<open>try\<close>.\<close>

definition history_body :: "backend \<Rightarrow> day \<Rightarrow> history_input \<Rightarrow> unit ui" where
  "history_body b today inp =
     ui_bind (ui_call b (history_request today inp)) (\<lambda>result.
     ui_bind (ui_lift (history_has_items result)) (\<lambda>ok.
       if ok then
         ui_bind (ui_lift (py_get result (py ''total'') (PInt 0))) (\<lambda>total.
         ui_seq (ui_render (Alert Success [Lit ''Found '', Val total, Lit '' records'']))
        (ui_bind (ui_lift (py_getitem result (py ''items''))) (\<lambda>items.
         ui_bind (ui_lift (py_iter items)) (\<lambda>its.
         ui_bind (ui_lift (ui_map history_row its)) (\<lambda>rows.
           if rows = [] then ui_ret ()
           else ui_seq (ui_render (DataFrame rows)) (history_details items inp))))))
       else ui_render (Alert Info [Lit ''No history records''])))"

text \<open>Lines 264--266.\<close>

definition history_handler :: "exc \<Rightarrow> unit ui" where
  "history_handler e =
     ui_seq (ui_render (Alert Error [Lit ''Query failed: '', Msg e]))
            (ui_emit (LogException ''History query error''))"

text \<open>Lines 202--266.\<close>

definition show_history_page :: "backend \<Rightarrow> day \<Rightarrow> history_input \<Rightarrow> unit ui" where
  "show_history_page b today inp =
     ui_seq (ui_render (Title [Lit ''History'']))
    (ui_seq (ui_render (Markdown [Lit ''View past analysis records'']))
    (ui_seq (ui_widgets [''Stock code filter'', ''Time range'', ''Page size'', ''Query''])
      (if \<not> h_clicked inp then ui_ret ()
       else ui_with (Spinner [Lit ''Loading history...''])
              (ui_try (history_body b today inp) history_handler))))"

text \<open>Inputs for the witnesses: a clicked query with the default time range and page
  size, and a service result whose one item has no \<open>meta\<close>.\<close>

definition no_meta_result :: pyval where
  "no_meta_result = PDict [(py ''total'', PInt 1),
                           (py ''items'', PList [PDict [(py ''report'', PStr (py ''text''))]])]"

definition demo_history_input :: "pystr \<Rightarrow> history_input" where
  "demo_history_input f = \<lparr>h_code_filter = f, h_days_back = None, h_page_size = None,
                            h_clicked = True, h_selected = None\<rparr>"

section \<open>Properties\<close>

lemma history_exprs_not_rerun [simp]:
  "history_has_items r \<noteq> Inl RerunRequest"
  "history_row it \<noteq> Inl RerunRequest"
  "record_label items x \<noteq> Inl RerunRequest"
  "ui_map history_row its \<noteq> Inl RerunRequest"
  "ui_map (record_label items) ns \<noteq> Inl RerunRequest"
proof -
  show hr: "history_row it \<noteq> Inl RerunRequest" for it
    unfolding history_row_def by (intro py_then_not_rerun ui_map_not_rerun) simp_all
  show rl: "record_label items x \<noteq> Inl RerunRequest" for x
    unfolding record_label_def by (intro py_then_not_rerun) simp_all
  show "history_has_items r \<noteq> Inl RerunRequest"
    unfolding history_has_items_def by (auto simp: py_then_def split: sum.splits)
  show "ui_map history_row its \<noteq> Inl RerunRequest" by (rule ui_map_not_rerun) (rule hr)
  show "ui_map (record_label items) ns \<noteq> Inl RerunRequest" by (rule ui_map_not_rerun) (rule rl)
qed

lemma history_details_props [ui_intros]:
  "no_calls (history_details items inp)" "no_rerun (history_details items inp)"
  "well_nested (fst (history_details items inp))"
  unfolding history_details_def by (intro ui_intros; simp)+

lemma history_body_calls: "calls (fst (history_body b today inp)) = [history_request today inp]"
  unfolding history_body_def by (rule calls_call_then_quiet) (intro ui_intros)

lemma history_body_props [ui_intros]:
  "no_rerun (history_body b today inp)" "well_nested (fst (history_body b today inp))"
  unfolding history_body_def by (intro ui_intros; simp)+

lemma history_handler_props [ui_intros]:
  "no_calls (history_handler e)" "well_nested (fst (history_handler e))"
  "snd (history_handler e) = Inr ()"
  unfolding history_handler_def by (intro ui_intros; simp)+ (simp add: ui_simps)

text \<open>The history page returns normally for every widget state and every service behaviour.\<close>

theorem history_returns: "snd (show_history_page b today inp) = Inr ()"
  by (simp add: show_history_page_def ui_simps ui_try_returns history_body_props history_handler_props)

text \<open>C22. The history page calls get_history_list exactly once, with the request built from the widgets and today's date, when the query button was clicked in this run, and calls nothing otherwise.\<close>

theorem history_calls:
  "calls (fst (show_history_page b today inp)) = (if h_clicked inp then [history_request today inp] else [])"
  using history_handler_props(1) [unfolded no_calls_def]
  by (auto simp: show_history_page_def ui_simps history_body_calls ui_try_def split: sum.splits)

text \<open>The history call runs under the spinner, and every block of the page is closed in order on every path.\<close>

theorem history_spinner: "spinner_guarded (show_history_page b today inp)"
  unfolding show_history_page_def by (intro ui_intros; simp)

text \<open>C23. The history request always asks for page 1, with a page size from the fixed set {10, 20, 50, 100}, a start date 7, 30, 90, 180 or 365 days before today, and no code filter exactly when the filter box is empty.\<close>

theorem history_request_bounds:
  "history_request today inp = GetHistoryList f sd p l \<Longrightarrow>
   p = 1 \<and> l \<in> {10, 20, 50, 100} \<and> today - sd \<in> {7, 30, 90, 180, 365} \<and>
   (f = None \<longleftrightarrow> h_code_filter inp = [])"
  by (auto simp: history_request_def start_date_def days_back_of_def page_size_of_def
                 st_selectbox_def less_Suc_eq numeral_eq_Suc split: option.splits if_splits)

lemma history_has_items_items:
  "py_getitem r (py ''items'') = Inr items \<Longrightarrow> history_has_items r = Inr (py_truthy items)"
  by (cases r) (auto simp: py_getitem_def history_has_items_def list_ex_map_of split: option.splits)

lemma history_row_no_meta:
  "py ''meta'' \<notin> fst ` set d \<Longrightarrow> history_row (PDict d) = Inr [na, na, na, na, na]"
  by (simp add: history_row_def py_get_def map_of_eq_None_iff [symmetric])

lemma ui_map_history_rows:
  "\<forall>it \<in> set its. \<exists>d. it = PDict d \<and> py ''meta'' \<notin> fst ` set d \<Longrightarrow>
   ui_map history_row its = Inr (replicate (length its) [na, na, na, na, na])"
  by (induction its) (auto simp: history_row_no_meta)

lemma ui_map_upt_first: "0 < n \<Longrightarrow> f 0 = Inl e \<Longrightarrow> ui_map f [0..<n] = Inl e"
  by (simp add: upt_conv_Cons)

lemma record_labels_no_meta:
  "its \<noteq> [] \<Longrightarrow> hd its = PDict d \<Longrightarrow> py ''meta'' \<notin> fst ` set d \<Longrightarrow>
   ui_map (record_label (PList its)) [0..<length its] = Inl KeyError"
  by (rule ui_map_upt_first)
     (auto simp: record_label_def py_getitem_def hd_conv_nth map_of_eq_None_iff [symmetric])

text \<open>C24. When the service returns a non-empty list of items none of which has a meta entry, the table is drawn with every cell N/A (the table reads meta with a default), but formatting the record select box indexes meta and raises KeyError before the box is drawn: the page ends with the query-failed error.\<close>

theorem history_missing_meta:
  assumes "h_clicked inp" and "b (history_request today inp) = Inr r"
    and "py_getitem r (py ''items'') = Inr (PList its)" and "its \<noteq> []"
    and "\<forall>it \<in> set its. \<exists>d. it = PDict d \<and> py ''meta'' \<notin> fst ` set d"
  shows "Render (DataFrame (replicate (length its) [na, na, na, na, na])) \<in> set (fst (show_history_page b today inp)) \<and>
         Widget ''Select record'' \<notin> set (fst (show_history_page b today inp)) \<and>
         last (alerts (fst (show_history_page b today inp))) = (Error, [Lit ''Query failed: '', Msg KeyError])"
proof -
  obtain d0 where h: "hd its = PDict d0" "py ''meta'' \<notin> fst ` set d0"
    using assms(4,5) by (cases its) auto
  obtain d where r: "r = PDict d"
    using assms(3) by (cases r) (auto simp: py_getitem_def)
  have "py_truthy (PList its)" using assms(4) by simp
  then show ?thesis
    using assms h r
    by (simp add: show_history_page_def history_body_def history_details_def history_handler_def
                  ui_simps history_has_items_items ui_map_history_rows record_labels_no_meta
                  is_exception_def py_get_def)
qed

text \<open>When the service returns an empty result, the page shows the no-records information, not an error.\<close>

theorem history_no_data:
  "h_clicked inp \<Longrightarrow> b (history_request today inp) = Inr r \<Longrightarrow> \<not> py_truthy r \<Longrightarrow>
   alerts (fst (show_history_page b today inp)) = [(Info, [Lit ''No history records''])]"
  by (simp add: show_history_page_def history_body_def history_has_items_def ui_simps)

text \<open>When get_history_list raises, the page shows exactly one alert, the query-failed error with the message, and logs the exception.\<close>

theorem history_service_failure:
  "h_clicked inp \<Longrightarrow> b (history_request today inp) = Inl msg \<Longrightarrow>
   alerts (fst (show_history_page b today inp)) = [(Error, [Lit ''Query failed: '', Msg (ServiceError msg)])] \<and>
   LogException ''History query error'' \<in> set (fst (show_history_page b today inp))"
  by (simp add: show_history_page_def history_body_def history_handler_def ui_simps is_exception_def)

text \<open>C25. A code filter of white space only is sent as the empty string, not as None.\<close>

theorem history_blank_filter:
  "h_code_filter inp \<noteq> [] \<Longrightarrow> \<forall>c \<in> set (h_code_filter inp). is_space c \<Longrightarrow>
   history_request today inp = GetHistoryList (Some []) (start_date today inp) 1 (page_size_of inp)"
  by (simp add: history_request_def py_strip_Nil_iff)

section \<open>Witnesses\<close>

lemma history_returns_witness:
  "snd (show_history_page (\<lambda>_. Inl (py ''db down'')) 739000 (demo_history_input [])) = Inr ()"
  by (rule history_returns)

lemma history_calls_witness:
  "calls (fst (show_history_page (\<lambda>_. Inr PNone) 739000 (demo_history_input (py ''600519'')))) =
     [GetHistoryList (Some (py ''600519'')) 738970 1 20]"
  using history_calls [of "\<lambda>_. Inr PNone" 739000 "demo_history_input (py ''600519'')"]
  by (simp add: demo_history_input_def history_request_def start_date_def days_back_of_def
                page_size_of_def st_selectbox_def py_def py_strip_def py_lstrip_def py_rstrip_def
                is_space_def)

lemma history_spinner_witness:
  "spinner_guarded (show_history_page (\<lambda>_. Inr PNone) 739000 (demo_history_input []))"
  by (rule history_spinner)

lemma history_request_bounds_witness:
  "history_request 739000 (demo_history_input []) = GetHistoryList None 738970 1 20 \<and>
   (20::nat) \<in> {10, 20, 50, 100}"
proof -
  have r: "history_request 739000 (demo_history_input []) = GetHistoryList None 738970 1 20"
    by (simp add: demo_history_input_def history_request_def start_date_def days_back_of_def
                  page_size_of_def st_selectbox_def)
  show ?thesis using r history_request_bounds [OF r] by simp
qed

lemma history_missing_meta_witness:
  "h_clicked (demo_history_input []) \<and>
   py_getitem no_meta_result (py ''items'') = Inr (PList [PDict [(py ''report'', PStr (py ''text''))]]) \<and>
   list_all (\<lambda>it. \<exists>d. it = PDict d \<and> py ''meta'' \<notin> fst ` set d)
     [PDict [(py ''report'', PStr (py ''text''))]] \<and>
   Render (DataFrame [[na, na, na, na, na]]) \<in> set (fst (show_history_page (\<lambda>_. Inr no_meta_result) 739000 (demo_history_input []))) \<and>
   Widget ''Select record'' \<notin> set (fst (show_history_page (\<lambda>_. Inr no_meta_result) 739000 (demo_history_input []))) \<and>
   last (alerts (fst (show_history_page (\<lambda>_. Inr no_meta_result) 739000 (demo_history_input [])))) =
     (Error, [Lit ''Query failed: '', Msg KeyError])"
proof -
  have i: "py_getitem no_meta_result (py ''items'') =
           Inr (PList [PDict [(py ''report'', PStr (py ''text''))]])"
    by (simp add: no_meta_result_def py_getitem_def py_def)
  have m: "\<forall>it \<in> set [PDict [(py ''report'', PStr (py ''text''))]].
             \<exists>d. it = PDict d \<and> py ''meta'' \<notin> fst ` set d"
    by (simp add: py_def)
  show ?thesis
    using i m history_missing_meta [of "demo_history_input []" "\<lambda>_. Inr no_meta_result" 739000
                                      no_meta_result "[PDict [(py ''report'', PStr (py ''text''))]]"]
    by (simp add: demo_history_input_def)
qed

lemma history_no_data_witness:
  "h_clicked (demo_history_input []) \<and> \<not> py_truthy PNone \<and>
   alerts (fst (show_history_page (\<lambda>_. Inr PNone) 739000 (demo_history_input []))) =
     [(Info, [Lit ''No history records''])]"
  using history_no_data [of "demo_history_input []" "\<lambda>_. Inr PNone" 739000 PNone]
  by (simp add: demo_history_input_def)

lemma history_service_failure_witness:
  "h_clicked (demo_history_input []) \<and>
   alerts (fst (show_history_page (\<lambda>_. Inl (py ''db down'')) 739000 (demo_history_input []))) =
     [(Error, [Lit ''Query failed: '', Msg (ServiceError (py ''db down''))])]"
  using history_service_failure [of "demo_history_input []" "\<lambda>_. Inl (py ''db down'')" 739000]
  by (simp add: demo_history_input_def)

lemma history_blank_filter_witness:
  "h_code_filter (demo_history_input [32, 9]) \<noteq> [] \<and>
   list_all is_space (h_code_filter (demo_history_input [32, 9])) \<and>
   history_request 739000 (demo_history_input [32, 9]) = GetHistoryList (Some []) 738970 1 20"
proof -
  have h: "\<forall>c \<in> set (h_code_filter (demo_history_input [32, 9])). is_space c"
    by (simp add: demo_history_input_def is_space_def)
  show ?thesis
    using h history_blank_filter [of "demo_history_input [32, 9]" 739000]
    by (simp add: demo_history_input_def is_space_def start_date_def days_back_of_def
                  page_size_of_def st_selectbox_def)
qed

end
