(* ===== verification/Quote_View.thy ===== *)
theory Quote_View
  imports Formatter
begin

text \<open>
  The quote page, \<open>show_stock_quote_page\<close> (lines 269--335 of
  \<^verbatim>\<open>src/streamlit_app.py\<close>). When the button was clicked in this run with a non-empty
  code, the page calls \<open>StockService.get_realtime_quote\<close> under a spinner inside
  \<open>try\<close>, shows the quote as metrics and text, and, when the history check box is ticked,
  calls \<open>get_history_data\<close> inside a second \<open>try\<close> whose failures become a warning.
  The chart is drawn by pandas: \<open>pd.DataFrame(rows).set_index("date")["close"]\<close> needs a
  \<open>date\<close> and a \<open>close\<close> column (the union of the keys of the dict rows) and raises
  \<open>KeyError\<close> otherwise.
\<close>

record quote_input =
  q_stock_code :: pystr
  q_clicked :: bool
  q_show_history :: bool

text \<open>Lines 296--315: the quote as metrics and text.\<close>

definition render_quote :: "pyval \<Rightarrow> unit ui" where
  "render_quote quote =
     ui_bind (ui_lift (py_get quote (py ''current_price'') na)) (\<lambda>price.
     ui_seq (ui_render (Metric ''Current price'' [Val price] None))
    (ui_bind (ui_lift (py_get quote (py ''change'') (PInt 0))) (\<lambda>change.
     ui_bind (ui_lift (py_get quote (py ''change_percent'') (PInt 0))) (\<lambda>change_pct.
     ui_bind (ui_lift (py_format_f2 change)) (\<lambda>c.
     ui_bind (ui_lift (py_format_f2 change_pct)) (\<lambda>cp.
     ui_seq (ui_render (Metric ''Change'' [F2 c] (Some [F2 cp, Lit ''%''])))
    (ui_bind (ui_lift (py_get quote (py ''open'') na)) (\<lambda>opn.
     ui_seq (ui_render (Metric ''Open today'' [Val opn] None))
    (ui_bind (ui_lift (py_get quote (py ''prev_close'') na)) (\<lambda>prev.
     ui_seq (ui_render (Metric ''Previous close'' [Val prev] None))
    (ui_seq (ui_render (Markdown [Lit ''---'']))
    (ui_for [(''High'', py ''high''), (''Low'', py ''low''), (''Volume'', py ''volume''),
             (''Amount'', py ''amount''), (''Turnover rate'', py ''turnover_rate'')]
       (\<lambda>(l, k). ui_bind (ui_lift (py_get quote k na)) (\<lambda>v.
                    ui_render (Markdown [Lit ''**'', Lit l, Lit ''**: '', Val v])))))))))))))))"

text \<open>The columns of \<open>pd.DataFrame(rows)\<close> built from dict rows.\<close>

definition has_column :: "pystr \<Rightarrow> pyval list \<Rightarrow> bool" where
  "has_column k rows =
     list_ex (\<lambda>r. case r of PDict d \<Rightarrow> list_ex (\<lambda>p. fst p = k) d | _ \<Rightarrow> False) rows"

text \<open>Line 327: \<open>st.line_chart(pd.DataFrame(data).set_index("date")["close"])\<close>.\<close>

definition chart_of :: "pyval \<Rightarrow> exc + elem" where
  "chart_of data =
     py_then (py_iter data) (\<lambda>rows.
       if has_column (py ''date'') rows \<and> has_column (py ''close'') rows then Inr (LineChart data)
       else Inl KeyError)"

text \<open>Lines 319--327: the K-line history.\<close>

definition history_chart :: "backend \<Rightarrow> pystr \<Rightarrow> unit ui" where
  "history_chart b code =
     ui_bind (ui_call b (GetHistoryData (py_strip code) (py ''daily'') 30)) (\<lambda>history.
       if \<not> py_truthy history then ui_ret ()
       else ui_bind (ui_lift (py_in (py ''data'') history)) (\<lambda>found.
         if \<not> found then ui_ret ()
         else ui_bind (ui_lift (py_getitem history (py ''data''))) (\<lambda>data.
           if \<not> py_truthy data then ui_ret ()
           else ui_bind (ui_lift (chart_of data)) ui_render)))"

text \<open>Lines 328--329: the inner handler.\<close>

definition chart_handler :: "exc \<Rightarrow> unit ui" where
  "chart_handler e = ui_render (Alert Warning [Lit ''Failed to get history data: '', Msg e])"

text \<open>Lines 286--331: the body of the outer \<open>try\<close>.\<close>

definition quote_body :: "backend \<Rightarrow> quote_input \<Rightarrow> unit ui" where
  "quote_body b inp =
     ui_bind (ui_call b (GetRealtimeQuote (py_strip (q_stock_code inp)))) (\<lambda>quote.
       if py_truthy quote then
         ui_seq (ui_render (Alert Success [Lit ''Quote fetched'']))
        (ui_seq (render_quote quote)
        (ui_seq (ui_emit (Widget ''Show K-line history''))
          (if q_show_history inp
           then ui_try (history_chart b (q_stock_code inp)) chart_handler
           else ui_ret ())))
       else ui_render (Alert Error [Lit ''Failed to get quote data'']))"

text \<open>Lines 333--335.\<close>

definition quote_handler :: "exc \<Rightarrow> unit ui" where
  "quote_handler e =
     ui_seq (ui_render (Alert Error [Lit ''Query failed: '', Msg e]))
            (ui_emit (LogException ''Stock quote error''))"

text \<open>Lines 269--335.\<close>

definition show_stock_quote_page :: "backend \<Rightarrow> quote_input \<Rightarrow> unit ui" where
  "show_stock_quote_page b inp =
     ui_seq (ui_render (Title [Lit ''Stock quotes'']))
    (ui_seq (ui_render (Markdown [Lit ''View real-time quote data'']))
    (ui_seq (ui_widgets [''Stock code'', ''Query quote''])
      (if \<not> q_clicked inp then ui_ret ()
       else if q_stock_code inp = [] then
         ui_render (Alert Error [Lit ''Please enter a stock code''])
       else
         ui_with (Spinner [Lit ''Fetching quote of '', Str (q_stock_code inp), Lit ''...''])
           (ui_try (quote_body b inp) quote_handler))))"

text \<open>Inputs for the witnesses: a service that answers the real-time quote and fails
  every other call.\<close>

definition demo_quote_input :: "pystr \<Rightarrow> bool \<Rightarrow> quote_input" where
  "demo_quote_input code h = \<lparr>q_stock_code = code, q_clicked = True, q_show_history = h\<rparr>"

definition demo_quote :: pyval where
  "demo_quote = PDict [(py ''current_price'', PFloat 1500), (py ''change'', PFloat 12),
                       (py ''change_percent'', PFloat (8 / 10))]"

definition demo_quote_backend :: backend where
  "demo_quote_backend c = (case c of GetRealtimeQuote _ \<Rightarrow> Inr demo_quote | _ \<Rightarrow> Inl (py ''timeout''))"

section \<open>Properties\<close>

lemma quote_exprs_not_rerun [simp]: "chart_of v \<noteq> Inl RerunRequest"
  unfolding chart_of_def by (intro py_then_not_rerun) simp_all

lemma render_quote_props [ui_intros]:
  "no_calls (render_quote q)" "no_rerun (render_quote q)" "well_nested (fst (render_quote q))"
  unfolding render_quote_def by (intro ui_intros; auto intro!: ui_intros split: prod.split)+

lemma history_chart_calls:
  "calls (fst (history_chart b code)) = [GetHistoryData (py_strip code) (py ''daily'') 30]"
  unfolding history_chart_def by (rule calls_call_then_quiet) (intro ui_intros)

lemma history_chart_props [ui_intros]:
  "no_rerun (history_chart b code)" "well_nested (fst (history_chart b code))"
  unfolding history_chart_def by (intro ui_intros; simp)+

lemma chart_handler_props [ui_intros]:
  "no_calls (chart_handler e)" "well_nested (fst (chart_handler e))" "snd (chart_handler e) = Inr ()"
  "no_rerun (chart_handler e)"
  unfolding chart_handler_def
  by (simp_all add: ui_simps no_calls_def no_rerun_def well_nested_def)

lemma quote_handler_props [ui_intros]:
  "no_calls (quote_handler e)" "well_nested (fst (quote_handler e))" "snd (quote_handler e) = Inr ()"
  unfolding quote_handler_def by (intro ui_intros; simp)+ (simp add: ui_simps)

lemma quote_body_props [ui_intros]:
  "no_rerun (quote_body b inp)" "well_nested (fst (quote_body b inp))"
  unfolding quote_body_def
  by (intro ui_intros no_rerun_try_ret nested_try; simp add: ui_intros chart_handler_props)+

lemma quote_body_calls:
  "calls (fst (quote_body b inp)) \<in>
     {[GetRealtimeQuote (py_strip (q_stock_code inp))],
      [GetRealtimeQuote (py_strip (q_stock_code inp)), GetHistoryData (py_strip (q_stock_code inp)) (py ''daily'') 30]}"
proof -
  have rq: "calls (fst (render_quote q)) = []" for q using render_quote_props(1) by (simp add: no_calls_def)
  have tr: "calls (fst (ui_try (history_chart b c) chart_handler)) = [GetHistoryData (py_strip c) (py ''daily'') 30]" for c
    by (simp add: calls_try_quiet_handler chart_handler_props history_chart_calls)
  show ?thesis
    unfolding quote_body_def
    by (auto simp: ui_call_def ui_bind_def ui_seq_def ui_emit_def ui_ret_def ui_render_def rq tr
             split: sum.splits)
qed

text \<open>The quote page returns normally for every widget state and every service behaviour.\<close>

theorem quote_returns: "snd (show_stock_quote_page b inp) = Inr ()"
  by (simp add: show_stock_quote_page_def ui_simps ui_try_returns quote_body_props quote_handler_props)

text \<open>C26. The quote page makes no call, the real-time quote call alone, or the real-time quote call followed by the 30-day daily history call, both with the stripped code: at most two service calls per run.\<close>

theorem quote_calls_bound:
  "calls (fst (show_stock_quote_page b inp)) \<in>
     {[], [GetRealtimeQuote (py_strip (q_stock_code inp))],
      [GetRealtimeQuote (py_strip (q_stock_code inp)), GetHistoryData (py_strip (q_stock_code inp)) (py ''daily'') 30]}"
  using quote_body_calls [of b inp]
  by (auto simp: show_stock_quote_page_def ui_simps calls_try_quiet_handler quote_handler_props)

text \<open>Both quote calls run under the spinner, and every block of the page is closed in order on every path.\<close>

theorem quote_spinner: "spinner_guarded (show_stock_quote_page b inp)"
  unfolding show_stock_quote_page_def by (intro ui_intros; simp)

lemma render_quote_plain: "trace_all plain_render (render_quote q)"
  unfolding render_quote_def by (intro ui_intros; auto intro!: ui_intros split: prod.split)

lemma alerts_render_quote: "alerts (fst (render_quote q)) = []"
  by (rule all_alerts [OF render_quote_plain]) simp

text \<open>C27. A quote whose change field is present but None makes the .2f formatting raise TypeError: the page ends with the query-failed error instead of showing N/A.\<close>

theorem quote_null_change:
  assumes "q_clicked inp" and "q_stock_code inp \<noteq> []"
    and "b (GetRealtimeQuote (py_strip (q_stock_code inp))) = Inr (PDict d)" and "d \<noteq> []"
    and "map_of d (py ''change'') = Some PNone"
  shows "last (alerts (fst (show_stock_quote_page b inp))) = (Error, [Lit ''Query failed: '', Msg TypeError])"
  using assms
  by (simp add: show_stock_quote_page_def quote_body_def render_quote_def quote_handler_def
                ui_simps py_get_def is_exception_def)

text \<open>When the quote renders and the K-line history call raises, the failure is contained by the inner try: the page shows the success message and one warning, and no error.\<close>

theorem quote_history_failure_contained:
  assumes "q_clicked inp" and "q_stock_code inp \<noteq> []" and "q_show_history inp"
    and "b (GetRealtimeQuote (py_strip (q_stock_code inp))) = Inr q" and "py_truthy q"
    and "snd (render_quote q) = Inr ()"
    and "b (GetHistoryData (py_strip (q_stock_code inp)) (py ''daily'') 30) = Inl msg"
  shows "alerts (fst (show_stock_quote_page b inp)) =
           [(Success, [Lit ''Quote fetched'']),
            (Warning, [Lit ''Failed to get history data: '', Msg (ServiceError msg)])]"
proof -
  obtain R where rq: "render_quote q = (R, Inr ())" using assms(6) by (metis prod.collapse)
  have ar: "alerts R = []" using alerts_render_quote [of q] rq by simp
  show ?thesis
    using assms
    by (simp add: show_stock_quote_page_def quote_body_def ui_simps history_chart_def
        chart_handler_def is_exception_def ar rq)
qed

section \<open>Witnesses\<close>

lemma quote_returns_witness:
  "snd (show_stock_quote_page (\<lambda>_. Inl (py ''down'')) (demo_quote_input (py ''AAPL'') True)) = Inr ()"
  by (rule quote_returns)

lemma quote_calls_bound_witness:
  "calls (fst (show_stock_quote_page (\<lambda>_. Inr PNone) (demo_quote_input (py ''AAPL'') True))) \<in>
     {[], [GetRealtimeQuote (py ''AAPL'')],
      [GetRealtimeQuote (py ''AAPL''), GetHistoryData (py ''AAPL'') (py ''daily'') 30]}"
  using quote_calls_bound [of "\<lambda>_. Inr PNone" "demo_quote_input (py ''AAPL'') True"]
  by (simp add: demo_quote_input_def py_def py_strip_def py_lstrip_def py_rstrip_def is_space_def)

lemma quote_spinner_witness:
  "spinner_guarded (show_stock_quote_page (\<lambda>_. Inr demo_quote) (demo_quote_input (py ''AAPL'') True))"
  by (rule quote_spinner)

lemma quote_null_change_witness:
  "q_clicked (demo_quote_input (py ''600519'') False) \<and>
   q_stock_code (demo_quote_input (py ''600519'') False) \<noteq> [] \<and>
   map_of [(py ''change'', PNone)] (py ''change'') = Some PNone \<and>
   last (alerts (fst (show_stock_quote_page (\<lambda>_. Inr (PDict [(py ''change'', PNone)]))
                        (demo_quote_input (py ''600519'') False)))) =
     (Error, [Lit ''Query failed: '', Msg TypeError])"
  using quote_null_change [of "demo_quote_input (py ''600519'') False"
                              "\<lambda>_. Inr (PDict [(py ''change'', PNone)])" "[(py ''change'', PNone)]"]
  by (simp add: demo_quote_input_def py_def)

lemma quote_history_failure_contained_witness:
  "q_show_history (demo_quote_input (py ''600519'') True) \<and> py_truthy demo_quote \<and>
   snd (render_quote demo_quote) = Inr () \<and>
   alerts (fst (show_stock_quote_page
                  demo_quote_backend
                  (demo_quote_input (py ''600519'') True))) =
     [(Success, [Lit ''Quote fetched'']),
      (Warning, [Lit ''Failed to get history data: '', Msg (ServiceError (py ''timeout''))])]"
proof -
  have r: "snd (render_quote demo_quote) = Inr ()"
    by (simp add: render_quote_def demo_quote_def ui_simps py_get_def py_def)
  have t: "py_truthy demo_quote" by (simp add: demo_quote_def)
  show ?thesis
    using r t quote_history_failure_contained
            [of "demo_quote_input (py ''600519'') True"
                demo_quote_backend
                demo_quote "py ''timeout''"]
    by (simp add: demo_quote_input_def demo_quote_backend_def py_def)
qed

end
