(* ===== verification/Task_View.thy ===== *)
theory Task_View
  imports Formatter
begin

text \<open>
  The task-monitor page, \<open>show_task_monitor_page\<close> (lines 338--384 of
  \<^verbatim>\<open>src/streamlit_app.py\<close>). Its refresh button calls \<open>st.rerun()\<close>, which raises
  Streamlit's rerun request: the run stops there and the script starts again. Otherwise the
  page, on every run and without a spinner, gets the task queue and lists at most 50 tasks
  inside \<open>try\<close>, groups them by status (\<open>group_tasks\<close>) and shows one expander per
  status with a line per task and its status badge.
\<close>

text \<open>Lines 365--378: one task.\<close>

definition render_task :: "pyval \<Rightarrow> unit ui" where
  "render_task t =
     ui_bind (ui_lift (py_get t (py ''stock_code'') na)) (\<lambda>code.
     ui_seq (ui_render (PlainText [Lit ''Stock: '', Val code]))
    (ui_bind (ui_lift (py_get t (py ''created_at'') na)) (\<lambda>created.
     ui_seq (ui_render (PlainText [Lit ''Created at: '', Val created]))
    (ui_bind (ui_lift (task_badge t)) (\<lambda>badge. ui_render (Alert (fst badge) (snd badge)))))))"

text \<open>Lines 362--364: the expander of one status group.\<close>

definition render_group :: "pykey \<times> pyval \<times> pyval list \<Rightarrow> unit ui" where
  "render_group g =
     (case g of (k, s, ts) \<Rightarrow>
        ui_with (Expander [Val s, Lit '' ('', Cnt (length ts), Lit '')'']) (ui_for ts render_task))"

text \<open>Lines 347--380: the body of the \<open>try\<close>.\<close>

definition task_body :: "backend \<Rightarrow> unit ui" where
  "task_body b =
     ui_bind (ui_call b GetTaskQueue) (\<lambda>queue.
     ui_bind (ui_call b (ListTasks 50)) (\<lambda>tasks.
       if py_truthy tasks then
         ui_bind (ui_lift (py_len tasks)) (\<lambda>n.
         ui_seq (ui_render (Alert Success [Lit ''Currently '', Cnt n, Lit '' tasks'']))
        (ui_bind (ui_lift (py_iter tasks)) (\<lambda>ts.
         ui_bind (ui_lift (group_tasks [] ts)) (\<lambda>groups.
         ui_for groups render_group))))
       else ui_render (Alert Info [Lit ''No tasks''])))"

text \<open>Lines 382--384.\<close>

definition task_handler :: "exc \<Rightarrow> unit ui" where
  "task_handler e =
     ui_seq (ui_render (Alert Error [Lit ''Failed to get the task list: '', Msg e]))
            (ui_emit (LogException ''Task monitor error''))"

text \<open>Lines 338--384; \<open>refresh\<close> is the value of the refresh button in this run.\<close>

definition show_task_monitor_page :: "backend \<Rightarrow> bool \<Rightarrow> unit ui" where
  "show_task_monitor_page b refresh =
     ui_seq (ui_render (Title [Lit ''Task monitor'']))
    (ui_seq (ui_render (Markdown [Lit ''Monitor analysis task status'']))
    (ui_seq (ui_widgets [''Refresh task list''])
    (ui_seq (if refresh then ui_lift (Inl RerunRequest) else ui_ret ())
            (ui_try (task_body b) task_handler))))"

text \<open>A task queue that answers with the tasks of \<open>Formatter.demo_tasks\<close>.\<close>

definition demo_task_backend :: backend where
  "demo_task_backend c = (case c of ListTasks _ \<Rightarrow> Inr (PList demo_tasks) | _ \<Rightarrow> Inr PNone)"

section \<open>Properties\<close>

subsection \<open>Helper lemmas\<close>

lemma render_task_props [ui_intros]:
  "no_calls (render_task t)" "no_rerun (render_task t)" "well_nested (fst (render_task t))"
  "trace_all (\<lambda>ev. \<forall>c. ev \<noteq> Begin c) (render_task t)"
  unfolding render_task_def by (intro ui_intros; simp)+

lemma render_task_dict: "snd (render_task (PDict d)) = Inr ()"
  by (simp add: render_task_def ui_simps py_get_def task_badge_def split: if_splits)

lemma render_group_props [ui_intros]:
  "no_calls (render_group g)" "no_rerun (render_group g)" "well_nested (fst (render_group g))"
  unfolding render_group_def by (cases g; simp; intro ui_intros; simp add: ui_intros)+

lemma render_tasks_dicts:
  "\<forall>t \<in> set ts. \<exists>d. t = PDict d \<Longrightarrow>
   expanders (fst (ui_for ts render_task)) = [] \<and> snd (ui_for ts render_task) = Inr ()"
proof (induction ts)
  case Nil
  then show ?case by (simp add: ui_simps)
next
  case (Cons t ts)
  then obtain d where t: "t = PDict d" by auto
  obtain R where r: "render_task t = (R, Inr ())"
    using render_task_dict [of d] t by (metis prod.collapse)
  have "expanders R = []"
    using all_expanders [OF render_task_props(4) [of t]] r by simp
  with Cons r show ?case by (simp add: ui_simps)
qed

lemma render_groups_expanders:
  "\<forall>g \<in> set gs. \<forall>t \<in> set (snd (snd g)). \<exists>d. t = PDict d \<Longrightarrow>
   expanders (fst (ui_for gs render_group)) =
     map (\<lambda>(k, s, ts). [Val s, Lit '' ('', Cnt (length ts), Lit '')'']) gs \<and>
   snd (ui_for gs render_group) = Inr ()"
proof (induction gs)
  case Nil
  then show ?case by (simp add: ui_simps)
next
  case (Cons g gs)
  obtain k s ts where g: "g = (k, s, ts)" by (cases g) auto
  with Cons.prems have "\<forall>t \<in> set ts. \<exists>d. t = PDict d" by auto
  then have rt: "expanders (fst (ui_for ts render_task)) = [] \<and> snd (ui_for ts render_task) = Inr ()"
    by (rule render_tasks_dicts)
  obtain R where r: "ui_for ts render_task = (R, Inr ())" using rt by (metis prod.collapse)
  from Cons g r rt show ?case by (simp add: render_group_def ui_simps)
qed

lemma group_tasks_not_rerun [simp]: "group_tasks acc ts \<noteq> Inl RerunRequest"
  by (induction acc ts rule: group_tasks.induct) (auto simp: task_status_def split: sum.splits)

lemma group_spec_members:
  "g \<in> set (group_spec key st ts) \<Longrightarrow> set (snd (snd g)) \<subseteq> set ts"
  by (auto simp: group_spec_def)

lemma two_calls_then_quiet:
  "(\<And>x y. no_calls (f x y)) \<Longrightarrow>
   calls (fst (ui_bind (ui_call b c1) (\<lambda>x. ui_bind (ui_call b c2) (f x)))) \<in> {[c1], [c1, c2]}"
  by (auto simp: ui_bind_def ui_call_def no_calls_def split: sum.splits)

lemma task_body_calls:
  "calls (fst (task_body b)) \<in> {[GetTaskQueue], [GetTaskQueue, ListTasks 50]}"
  unfolding task_body_def by (rule two_calls_then_quiet) (intro ui_intros)

lemma task_body_first_call: "\<exists>es. fst (task_body b) = Call GetTaskQueue # es"
  by (simp add: task_body_def ui_bind_def ui_call_def split: sum.splits)

lemma task_body_props [ui_intros]:
  "no_rerun (task_body b)" "well_nested (fst (task_body b))"
  unfolding task_body_def by (intro ui_intros; simp)+

lemma task_handler_props [ui_intros]:
  "no_calls (task_handler e)" "well_nested (fst (task_handler e))" "snd (task_handler e) = Inr ()"
  unfolding task_handler_def by (intro ui_intros; simp)+ (simp add: ui_simps)

text \<open>Without a click on the refresh button the task monitor page returns normally on every back-end behaviour: a failure of the task queue or of listing the tasks, or a malformed task list, is caught; it asks for the task queue once and lists at most 50 tasks.\<close>

theorem task_monitor_returns:
  "snd (show_task_monitor_page b False) = Inr () \<and>
   calls (fst (show_task_monitor_page b False)) \<in> {[GetTaskQueue], [GetTaskQueue, ListTasks 50]}"
  using task_body_calls [of b]
  by (simp add: show_task_monitor_page_def ui_simps ui_try_returns task_body_props task_handler_props
                calls_try_quiet_handler)

text \<open>A click on the refresh button raises Streamlit's rerun request before any service is called: the page is rerun from the top rather than refreshed in place.\<close>

theorem task_refresh_reruns:
  "snd (show_task_monitor_page b True) = Inl RerunRequest \<and> calls (fst (show_task_monitor_page b True)) = []"
  by (simp add: show_task_monitor_page_def ui_simps)

text \<open>C29. Unlike the analysis, history and quote pages, the task monitor opens no spinner at all, so each of its service calls (it makes at least one) runs with no busy indicator.\<close>

theorem task_calls_without_spinner:
  "calls (fst (show_task_monitor_page b False)) \<noteq> [] \<and>
   trace_all (\<lambda>ev. \<not> opens_spinner ev) (show_task_monitor_page b False)"
proof
  obtain es where "fst (task_body b) = Call GetTaskQueue # es"
    using task_body_first_call by blast
  then show "calls (fst (show_task_monitor_page b False)) \<noteq> []"
    by (cases "snd (task_body b)") (simp_all add: show_task_monitor_page_def ui_simps ui_try_def split: sum.splits)
  show "trace_all (\<lambda>ev. \<not> opens_spinner ev) (show_task_monitor_page b False)"
    unfolding show_task_monitor_page_def task_body_def task_handler_def render_group_def render_task_def
    by (intro ui_intros conjI impI allI | simp split: pyval.splits prod.splits)+
qed

text \<open>C28. When the queue lists a non-empty list of dict tasks with hashable statuses, the page returns normally and shows one expander per distinct status, in order of first occurrence, each titled with the status and the number of tasks that have it.\<close>

theorem task_groups_shown:
  assumes q: "b GetTaskQueue = Inr q" and l: "b (ListTasks 50) = Inr (PList ts)"
    and ne: "ts \<noteq> []"
    and ok: "\<forall>t \<in> set ts. (\<exists>d. t = PDict d) \<and> task_status t = Inr (st t) \<and>
                            py_hash_key (st t) = Inr (key t)"
  shows "snd (show_task_monitor_page b False) = Inr () \<and>
         expanders (fst (show_task_monitor_page b False)) =
           map (\<lambda>(k, s, g). [Val s, Lit '' ('', Cnt (length g), Lit '')''])
               (group_spec key st ts)"
proof -
  have gt: "group_tasks [] ts = Inr (group_spec key st ts)"
    using ok by (intro group_tasks_eq_spec) auto
  have dicts: "\<forall>g \<in> set (group_spec key st ts). \<forall>t \<in> set (snd (snd g)). \<exists>d. t = PDict d"
    using ok group_spec_members by blast
  obtain R where r: "ui_for (group_spec key st ts) render_group = (R, Inr ())"
    and er: "expanders R = map (\<lambda>(k, s, g). [Val s, Lit '' ('', Cnt (length g), Lit '')''])
                               (group_spec key st ts)"
    using render_groups_expanders [OF dicts] by (metis prod.collapse)
  show ?thesis
    using ne by (simp add: show_task_monitor_page_def task_body_def ui_simps q l gt r er
                           py_len.simps py_iter.simps py_truthy.simps)
qed

lemma task_groups_shown_witness:
  "snd (show_task_monitor_page demo_task_backend False) = Inr () \<and>
   expanders (fst (show_task_monitor_page demo_task_backend False)) =
     [[Val (PStr (py ''running'')), Lit '' ('', Cnt 2, Lit '')''],
      [Val (PStr (py ''completed'')), Lit '' ('', Cnt 1, Lit '')''],
      [Val (PStr (py ''failed'')), Lit '' ('', Cnt 1, Lit '')'']]"
proof -
  have h: "\<forall>t \<in> set demo_tasks. (\<exists>d. t = PDict d) \<and>
      task_status t = Inr ((\<lambda>t. case task_status t of Inr s \<Rightarrow> s | Inl _ \<Rightarrow> PNone) t) \<and>
      py_hash_key ((\<lambda>t. case task_status t of Inr s \<Rightarrow> s | Inl _ \<Rightarrow> PNone) t) =
        Inr ((\<lambda>t. case task_key t of Inr k \<Rightarrow> k | Inl _ \<Rightarrow> KNone) t)"
    by (simp add: demo_tasks_def demo_task_def task_status_def task_key_def py_get_def py_def)
  have g: "map (\<lambda>(k, s, g). [Val s, Lit '' ('', Cnt (length g), Lit '')''])
      (group_spec (\<lambda>t. case task_key t of Inr k \<Rightarrow> k | Inl _ \<Rightarrow> KNone)
                  (\<lambda>t. case task_status t of Inr s \<Rightarrow> s | Inl _ \<Rightarrow> PNone) demo_tasks) =
     [[Val (PStr (py ''running'')), Lit '' ('', Cnt 2, Lit '')''],
      [Val (PStr (py ''completed'')), Lit '' ('', Cnt 1, Lit '')''],
      [Val (PStr (py ''failed'')), Lit '' ('', Cnt 1, Lit '')'']]"
    by (simp add: group_spec_def demo_tasks_def demo_task_def task_status_def task_key_def
                  py_get_def py_def)
  have "demo_task_backend (ListTasks 50) = Inr (PList demo_tasks)" "demo_task_backend GetTaskQueue = Inr PNone"
    "demo_tasks \<noteq> []"
    by (simp_all add: demo_task_backend_def demo_tasks_def)
  from task_groups_shown [OF this(2) this(1) this(3) h] g show ?thesis by simp
qed

end
