(* ===== verification/Config_View.thy ===== *)
theory Config_View
  imports Formatter
begin

text \<open>The system configuration page, \<open>show_config_page\<close> (lines 387--427 of
  \<^verbatim>\<open>src/streamlit_app.py\<close>): one call of the configuration service, then one
  expander per section of a fixed table of keys, and in it a disabled text field for each key
  the configuration holds, its value masked by \<open>Formatter.display_value\<close>. The theory
  proves that the page always returns, makes its one call with no spinner, shows exactly the
  fields of an abstract specification of the page, and which keys that specification masks.\<close>

section \<open>The page\<close>

text \<open>Lines 402--407: the section table, in the insertion order Python iterates it.\<close>

definition config_sections :: "(string \<times> string list) list" where
  "config_sections =
     [(''AI config'', [''gemini_api_key'', ''openai_api_key'', ''openai_base_url'', ''openai_model'']),
      (''Notification config'', [''wechat_webhook_url'', ''feishu_webhook_url'', ''telegram_bot_token'']),
      (''Data source config'', [''tushare_token'', ''tavily_api_keys'', ''serpapi_keys'']),
      (''Stock config'', [''stock_list''])]"

text \<open>Line 396: \<open>config_data and "config" in config_data\<close>, evaluated left to right
  with short-circuit.\<close>

definition config_loaded :: "pyval \<Rightarrow> exc + bool" where
  "config_loaded d = (if \<not> py_truthy d then Inr False else py_in (py ''config'') d)"

text \<open>Lines 411--419: one key of a section.\<close>

definition render_config_key :: "pyval \<Rightarrow> string \<Rightarrow> unit ui" where
  "render_config_key cfg key =
     when_key cfg (py key) (\<lambda>value.
       ui_bind (ui_lift (display_value (py key) value)) (\<lambda>shown.
       ui_render (TextField (py key) shown)))"

text \<open>Lines 409--419: the expander of one section.\<close>

definition render_config_section :: "pyval \<Rightarrow> string \<times> string list \<Rightarrow> unit ui" where
  "render_config_section cfg sec =
     (case sec of (name, keys) \<Rightarrow>
        ui_with (Expander [Lit name]) (ui_for keys (render_config_key cfg)))"

text \<open>Lines 393--423: the body of the \<open>try\<close>.\<close>

definition config_body :: "backend \<Rightarrow> unit ui" where
  "config_body b =
     ui_bind (ui_call b (GetConfig True)) (\<lambda>data.
     ui_bind (ui_lift (config_loaded data)) (\<lambda>loaded.
       if loaded then
         ui_bind (ui_lift (py_getitem data (py ''config''))) (\<lambda>cfg.
         ui_seq (ui_render (Markdown [Lit ''### Current configuration'']))
        (ui_seq (ui_for config_sections (render_config_section cfg))
                (ui_render (Alert Info [Lit ''Configuration changes are made in the .env file and need a restart'']))))
       else ui_render (Alert Warning [Lit ''Cannot load the configuration''])))"

text \<open>Lines 425--427.\<close>

definition config_handler :: "exc \<Rightarrow> unit ui" where
  "config_handler e =
     ui_seq (ui_render (Alert Error [Lit ''Failed to load configuration: '', Msg e]))
            (ui_emit (LogException ''Config page error''))"

text \<open>Lines 387--427.\<close>

definition show_config_page :: "backend \<Rightarrow> unit ui" where
  "show_config_page b =
     ui_seq (ui_render (Title [Lit ''System configuration'']))
    (ui_seq (ui_render (Markdown [Lit ''View and manage the system configuration'']))
            (ui_try (config_body b) config_handler))"

section \<open>Specification of the page\<close>

text \<open>The text fields of a trace, with their labels.\<close>

fun text_fields :: "event list \<Rightarrow> (pystr \<times> ptext) list" where
  "text_fields [] = []"
| "text_fields (Render (TextField k t) # es) = (k, t) # text_fields es"
| "text_fields (e # es) = text_fields es"

text \<open>What a field should show for a string value: a sensitive value longer than eight code
  points as its first eight and an ellipsis, a shorter one as the fixed mask, any other value
  as itself.\<close>

definition shown_value :: "pystr \<Rightarrow> pystr \<Rightarrow> ptext" where
  "shown_value k s =
     (if is_sensitive_key k then
        (if 8 < length s then [Val (PStr (take 8 s)), Lit ''...''] else [Lit ''***''])
      else [Val (PStr s)])"

text \<open>The fields the page should show for a configuration of string values and a list of
  keys: the keys in list order, each one the configuration holds, with its shown value.\<close>

definition key_fields :: "(pystr \<times> pystr) list \<Rightarrow> string list \<Rightarrow> (pystr \<times> ptext) list" where
  "key_fields c ks =
     concat (map (\<lambda>k. case map_of c (py k) of None \<Rightarrow> [] | Some s \<Rightarrow> [(py k, shown_value (py k) s)]) ks)"

text \<open>An event is safely masked when it is not a text field of a sensitive key, or shows the
  fixed mask, or a prefix of at most eight elements followed by an ellipsis.\<close>

fun masked_field :: "event \<Rightarrow> bool" where
  "masked_field (Render (TextField k t)) =
     (\<not> is_sensitive_key k \<or> t = [Lit ''***''] \<or>
      (case t of
         [Val p, Lit l] \<Rightarrow> l = ''...'' \<and> (case py_len p of Inr n \<Rightarrow> n \<le> 8 | Inl _ \<Rightarrow> False)
       | _ \<Rightarrow> False))"
| "masked_field _ = True"

text \<open>A configuration service whose configuration holds string values.\<close>

definition str_config :: "(pystr \<times> pystr) list \<Rightarrow> pyval" where
  "str_config c = PDict (map (\<lambda>(k, s). (k, PStr s)) c)"

definition demo_config :: "(pystr \<times> pystr) list" where
  "demo_config =
     [(py ''gemini_api_key'', py ''AIzaSyA-0123456789''),
      (py ''wechat_webhook_url'', py ''https://qyapi.weixin.qq.com/send?key=secret''),
      (py ''serpapi_keys'', py ''0123456789abcdef''),
      (py ''stock_list'', py ''600519,00700'')]"

definition demo_config_backend :: backend where
  "demo_config_backend c =
     (case c of GetConfig _ \<Rightarrow> Inr (PDict [(py ''config'', str_config demo_config)]) | _ \<Rightarrow> Inr PNone)"

section \<open>Properties\<close>

subsection \<open>Helper lemmas\<close>

lemma all_bind_lift:
  "(\<And>x. r = Inr x \<Longrightarrow> trace_all P (f x)) \<Longrightarrow> trace_all P (ui_bind (ui_lift r) f)"
  by (cases r) (auto simp: trace_all_def ui_bind_def ui_lift_def)

lemma config_loaded_not_rerun [simp]: "config_loaded d \<noteq> Inl RerunRequest"
  by (simp add: config_loaded_def)

lemma render_config_key_props [ui_intros]:
  "no_calls (render_config_key cfg k)" "no_rerun (render_config_key cfg k)"
  "well_nested (fst (render_config_key cfg k))"
  unfolding render_config_key_def by (intro ui_intros; simp)+

lemma render_config_section_props [ui_intros]:
  "no_calls (render_config_section cfg s)" "no_rerun (render_config_section cfg s)"
  "well_nested (fst (render_config_section cfg s))"
  unfolding render_config_section_def by (cases s; simp; intro ui_intros; simp add: ui_intros)+

lemma config_body_props [ui_intros]:
  "no_rerun (config_body b)" "well_nested (fst (config_body b))"
  unfolding config_body_def by (intro ui_intros; simp)+

lemma config_body_calls: "calls (fst (config_body b)) = [GetConfig True]"
  unfolding config_body_def by (rule calls_call_then_quiet) (intro ui_intros)

lemma config_handler_props [ui_intros]:
  "no_calls (config_handler e)" "well_nested (fst (config_handler e))" "snd (config_handler e) = Inr ()"
  unfolding config_handler_def by (intro ui_intros; simp)+ (simp add: ui_simps)

lemma config_body_first_call: "\<exists>es. fst (config_body b) = Call (GetConfig True) # es"
  by (simp add: config_body_def ui_bind_def ui_call_def split: sum.splits)

lemma display_value_masked: "display_value k v = Inr t \<Longrightarrow> masked_field (Render (TextField k t))"
  by (cases v) (auto simp: display_value_def mask_value_def split: if_splits sum.splits)

lemma render_config_key_masked [ui_intros]: "trace_all masked_field (render_config_key cfg k)"
  unfolding render_config_key_def
  by (intro all_when_key all_bind_lift all_render) (rule display_value_masked)

lemma render_config_section_masked [ui_intros]: "trace_all masked_field (render_config_section cfg s)"
  unfolding render_config_section_def by (cases s) (simp; intro ui_intros; simp)

lemma text_fields_append [simp]: "text_fields (xs @ ys) = text_fields xs @ text_fields ys"
  by (induction xs rule: text_fields.induct) auto

lemma render_config_key_str:
  "render_config_key (str_config c) k =
     (case map_of c (py k) of
        None \<Rightarrow> ([], Inr ())
      | Some s \<Rightarrow> ([Render (TextField (py k) (shown_value (py k) s))], Inr ()))"
  by (cases "map_of c (py k)")
     (auto simp: render_config_key_def when_key_def str_config_def ui_simps py_getitem_def
        list_ex_fst_map_of map_of_map display_value_def mask_value_def shown_value_def
        split: if_splits)

lemma render_config_keys_str:
  "snd (ui_for ks (render_config_key (str_config c))) = Inr () \<and>
   text_fields (fst (ui_for ks (render_config_key (str_config c)))) = key_fields c ks \<and>
   alerts (fst (ui_for ks (render_config_key (str_config c)))) = []"
  by (induction ks) (auto simp: ui_simps key_fields_def render_config_key_str split: option.splits)

lemma render_config_sections_str:
  "snd (ui_for ss (render_config_section (str_config c))) = Inr () \<and>
   text_fields (fst (ui_for ss (render_config_section (str_config c)))) =
     key_fields c (concat (map snd ss)) \<and>
   alerts (fst (ui_for ss (render_config_section (str_config c)))) = []"
proof (induction ss)
  case Nil
  then show ?case by (simp add: ui_simps key_fields_def)
next
  case (Cons s ss)
  obtain n ks where s: "s = (n, ks)" by (cases s)
  obtain R where r: "ui_for ks (render_config_key (str_config c)) = (R, Inr ())"
    using render_config_keys_str [of ks c] by (metis prod.collapse)
  have "text_fields R = key_fields c ks" "alerts R = []"
    using render_config_keys_str [of ks c] r by simp_all
  with Cons s r show ?case by (simp add: render_config_section_def ui_simps key_fields_def)
qed

lemma gemini_api_key_sensitive: "is_sensitive_key (py ''gemini_api_key'')"
  by (simp add: is_sensitive_key_def py_def py_lower_def)

text \<open>C30. The configuration page returns normally on every back-end behaviour, closes every block it opens, and calls the configuration service exactly once, with the schema requested; that call runs with no spinner open.\<close>

theorem config_returns:
  "snd (show_config_page b) = Inr () \<and> calls (fst (show_config_page b)) = [GetConfig True] \<and>
   well_nested (fst (show_config_page b)) \<and> \<not> calls_in_spinner [] (fst (show_config_page b))"
proof -
  obtain es r where r: "config_body b = (Call (GetConfig True) # es, r)"
    using config_body_first_call by (metis prod.collapse)
  have "snd (show_config_page b) = Inr ()"
    by (simp add: show_config_page_def ui_simps ui_try_returns config_body_props config_handler_props)
  moreover have "calls (fst (show_config_page b)) = [GetConfig True]"
    using config_body_calls [of b]
    by (simp add: show_config_page_def ui_simps calls_try_quiet_handler config_handler_props)
  moreover have "well_nested (fst (show_config_page b))"
    unfolding show_config_page_def by (intro ui_intros)
  moreover have "\<not> calls_in_spinner [] (fst (show_config_page b))"
    by (cases r) (simp_all add: show_config_page_def ui_simps r split: sum.splits)
  ultimately show ?thesis by blast
qed

text \<open>C31. When the service returns a dict whose config entry holds string values, the page returns normally, shows exactly the fields of the specification: the keys of the section table in table order that the configuration holds, each with its masked or plain value; and its only alert is the restart notice.\<close>

theorem config_fields_shown:
  assumes "b (GetConfig True) = Inr (PDict d)" and "map_of d (py ''config'') = Some (str_config c)"
  shows "snd (show_config_page b) = Inr () \<and>
         text_fields (fst (show_config_page b)) = key_fields c (concat (map snd config_sections)) \<and>
         alerts (fst (show_config_page b)) =
           [(Info, [Lit ''Configuration changes are made in the .env file and need a restart''])]"
proof -
  obtain R where r: "ui_for config_sections (render_config_section (str_config c)) = (R, Inr ())"
    using render_config_sections_str [of config_sections c] by (metis prod.collapse)
  have "text_fields R = key_fields c (concat (map snd config_sections))" "alerts R = []"
    using render_config_sections_str [of config_sections c] r by simp_all
  moreover have "d \<noteq> []" using assms(2) by auto
  ultimately show ?thesis
    using assms r
    by (simp add: show_config_page_def config_body_def ui_simps config_loaded_def py_getitem_def
                  list_ex_map_of)
qed

text \<open>C32. On every back-end behaviour, every text field the page shows for a sensitive key shows the fixed mask or at most eight elements of the value followed by an ellipsis.\<close>

theorem config_page_masks: "trace_all masked_field (show_config_page b)"
  unfolding show_config_page_def config_body_def config_handler_def
  by (intro ui_intros; simp)

text \<open>Of the keys of the section table exactly six are sensitive and masked; the two webhook URLs, the OpenAI base URL, the model and the stock list are shown in clear.\<close>

lemma config_masked_keys:
  "filter (\<lambda>k. is_sensitive_key (py k)) (concat (map snd config_sections)) =
     [''gemini_api_key'', ''openai_api_key'', ''telegram_bot_token'', ''tushare_token'',
      ''tavily_api_keys'', ''serpapi_keys'']"
  by (simp add: config_sections_def is_sensitive_key_def py_def py_lower_def)

text \<open>C33. A sensitive value that is a non-zero integer has no length, so masking it raises TypeError: the page draws no field and ends with the configuration error.\<close>

theorem config_int_secret:
  assumes "b (GetConfig True) = Inr (PDict d)" and "map_of d (py ''config'') = Some (PDict c)"
    and "map_of c (py ''gemini_api_key'') = Some (PInt i)" and "i \<noteq> 0"
  shows "snd (show_config_page b) = Inr () \<and> text_fields (fst (show_config_page b)) = [] \<and>
         alerts (fst (show_config_page b)) = [(Error, [Lit ''Failed to load configuration: '', Msg TypeError])]"
proof -
  have "d \<noteq> []" using assms(2) by auto
  then show ?thesis
    using assms
    by (simp add: show_config_page_def config_body_def config_handler_def ui_simps config_loaded_def
                  py_getitem_def list_ex_map_of config_sections_def render_config_section_def
                  render_config_key_def when_key_def display_value_def gemini_api_key_sensitive
                  mask_value_def is_exception_def)
qed

lemma config_fields_shown_witness:
  "snd (show_config_page demo_config_backend) = Inr () \<and>
   text_fields (fst (show_config_page demo_config_backend)) =
     [(py ''gemini_api_key'', [Val (PStr (py ''AIzaSyA-'')), Lit ''...'']),
      (py ''wechat_webhook_url'', [Val (PStr (py ''https://qyapi.weixin.qq.com/send?key=secret''))]),
      (py ''serpapi_keys'', [Val (PStr (py ''01234567'')), Lit ''...'']),
      (py ''stock_list'', [Val (PStr (py ''600519,00700''))])]"
proof -
  have k: "key_fields demo_config (concat (map snd config_sections)) =
     [(py ''gemini_api_key'', [Val (PStr (py ''AIzaSyA-'')), Lit ''...'']),
      (py ''wechat_webhook_url'', [Val (PStr (py ''https://qyapi.weixin.qq.com/send?key=secret''))]),
      (py ''serpapi_keys'', [Val (PStr (py ''01234567'')), Lit ''...'']),
      (py ''stock_list'', [Val (PStr (py ''600519,00700''))])]"
    by code_simp
  have "demo_config_backend (GetConfig True) = Inr (PDict [(py ''config'', str_config demo_config)])"
    "map_of [(py ''config'', str_config demo_config)] (py ''config'') = Some (str_config demo_config)"
    by (simp_all add: demo_config_backend_def)
  from config_fields_shown [of demo_config_backend, OF this] k show ?thesis by simp
qed

lemma config_int_secret_witness:
  "alerts (fst (show_config_page (\<lambda>c. Inr (PDict [(py ''config'', PDict [(py ''gemini_api_key'', PInt 42)])])))) =
     [(Error, [Lit ''Failed to load configuration: '', Msg TypeError])]"
  using config_int_secret [of "\<lambda>c. Inr (PDict [(py ''config'', PDict [(py ''gemini_api_key'', PInt 42)])])"
                              "[(py ''config'', PDict [(py ''gemini_api_key'', PInt 42)])]"
                              "[(py ''gemini_api_key'', PInt 42)]" 42]
  by simp

lemma config_page_masks_witness:
  "trace_all masked_field (show_config_page demo_config_backend) \<and>
   masked_field (Render (TextField (py ''gemini_api_key'') [Val (PStr (py ''AIzaSyA-'')), Lit ''...''])) \<and>
   \<not> masked_field (Render (TextField (py ''gemini_api_key'') [Val (PStr (py ''AIzaSyA-0123456789''))]))"
  using config_page_masks [of demo_config_backend] gemini_api_key_sensitive
  by (simp add: py_def)

end
