(* ===== verification/Session.thy ===== *)
theory Session
  imports Analysis_View History_View Quote_View Task_View Config_View
begin

text \<open>The module-level code and \<open>main()\<close> of \<^verbatim>\<open>src/streamlit_app.py\<close> after the proxy
  setup (\<open>Env_Proxy\<close>): the page configuration (lines 55--61), the per-session state
  created on the first run (63--70), the sidebar and the router over the five pages (73--101), and Streamlit's
  serving loop, which reruns the script while it raises its rerun request. The state of a
  browser session is a record of the session-state attributes; the objects the script
  constructs are numbered by a counter, so that "constructed once" is a statement about
  the counter.\<close>

section \<open>Session state\<close>

text \<open>The attributes of \<open>st.session_state\<close> the script sets; a service or the
  configuration is held as the number of the object that was constructed for it.\<close>

record session =
  ss_initialized :: bool
  ss_config :: "nat option"
  ss_analysis_service :: "nat option"
  ss_history_service :: "nat option"
  ss_stock_service :: "nat option"
  ss_system_config_service :: "nat option"

text \<open>A session and the number of objects constructed for it so far.\<close>

record world =
  w_session :: session
  w_made :: nat

definition fresh_world :: world where
  "fresh_world =
     \<lparr>w_session = \<lparr>ss_initialized = False, ss_config = None, ss_analysis_service = None,
                    ss_history_service = None, ss_stock_service = None,
                    ss_system_config_service = None\<rparr>,
      w_made = 0\<rparr>"

text \<open>The constructors the first run calls, in order; whether each succeeds in a run is a
  parameter \<open>ok\<close> (a constructor may raise, e.g. on a missing configuration).\<close>

datatype ctor = GetConfigC | AnalysisServiceC | HistoryServiceC | StockServiceC | SystemConfigServiceC

definition ctor_name :: "ctor \<Rightarrow> pystr" where
  "ctor_name c = py (case c of GetConfigC \<Rightarrow> ''get_config'' | AnalysisServiceC \<Rightarrow> ''AnalysisService''
     | HistoryServiceC \<Rightarrow> ''HistoryService'' | StockServiceC \<Rightarrow> ''StockService''
     | SystemConfigServiceC \<Rightarrow> ''SystemConfigService'')"

text \<open>The attribute each constructor's result is stored in.\<close>

fun store :: "ctor \<Rightarrow> nat \<Rightarrow> session \<Rightarrow> session" where
  "store GetConfigC h s = s\<lparr>ss_config := Some h\<rparr>"
| "store AnalysisServiceC h s = s\<lparr>ss_analysis_service := Some h\<rparr>"
| "store HistoryServiceC h s = s\<lparr>ss_history_service := Some h\<rparr>"
| "store StockServiceC h s = s\<lparr>ss_stock_service := Some h\<rparr>"
| "store SystemConfigServiceC h s = s\<lparr>ss_system_config_service := Some h\<rparr>"

definition session_ctors :: "ctor list" where
  "session_ctors = [GetConfigC, AnalysisServiceC, HistoryServiceC, StockServiceC, SystemConfigServiceC]"

text \<open>Lines 66--70: \<open>st.session_state.x = X()\<close> in order; a constructor that raises
  stops the sequence and leaves the attributes set so far.\<close>

fun init_attrs :: "(ctor \<Rightarrow> bool) \<Rightarrow> ctor list \<Rightarrow> world \<Rightarrow> world \<times> (exc + unit)" where
  "init_attrs ok [] w = (w, Inr ())"
| "init_attrs ok (c # cs) w =
     (if ok c then
        init_attrs ok cs (w\<lparr>w_session := store c (w_made w) (w_session w), w_made := Suc (w_made w)\<rparr>)
      else (w, Inl (ServiceError (ctor_name c))))"

text \<open>Lines 64--70: the flag is set first, then the attributes.\<close>

definition init_session :: "(ctor \<Rightarrow> bool) \<Rightarrow> world \<Rightarrow> world \<times> (exc + unit)" where
  "init_session ok w =
     (if ss_initialized (w_session w) then (w, Inr ())
      else init_attrs ok session_ctors (w\<lparr>w_session := (w_session w)\<lparr>ss_initialized := True\<rparr>\<rparr>))"

text \<open>The services a page reaches through \<open>st.session_state\<close>: a call whose service
  attribute is missing raises \<open>AttributeError\<close> inside the page's \<open>try\<close>, which
  the page shows like any failure of the service. The task queue is a module function.\<close>

fun call_ready :: "session \<Rightarrow> call \<Rightarrow> bool" where
  "call_ready s (AnalyzeStock _ _ _ _ _) = (ss_analysis_service s \<noteq> None)"
| "call_ready s (GetHistoryList _ _ _ _) = (ss_history_service s \<noteq> None)"
| "call_ready s (GetRealtimeQuote _) = (ss_stock_service s \<noteq> None)"
| "call_ready s (GetHistoryData _ _ _) = (ss_stock_service s \<noteq> None)"
| "call_ready s GetTaskQueue = True"
| "call_ready s (ListTasks _) = True"
| "call_ready s (GetConfig _) = (ss_system_config_service s \<noteq> None)"

definition session_backend :: "session \<Rightarrow> backend \<Rightarrow> backend" where
  "session_backend s b c =
     (if call_ready s c then b c else Inl (py ''st.session_state has no attribute''))"

section \<open>Navigation and one run of the script\<close>

text \<open>Line 82: the labels of the navigation radio, as code points.\<close>

definition nav_labels :: "pystr list" where
  "nav_labels =
     [[32929, 31080, 20998, 26512], [21382, 21490, 35760, 24405], [32929, 31080, 34892, 24773],
      [20219, 21153, 30417, 25511], [31995, 32479, 37197, 32622]]"

datatype page = AnalysisPage | HistoryPage | QuotePage | TaskPage | ConfigPage

text \<open>Lines 92--101: the \<open>if/elif\<close> chain on the selected label; a label that matches
  none of the branches draws no page.\<close>

definition route :: "pystr \<Rightarrow> page option" where
  "route p =
     (if p = nav_labels ! 0 then Some AnalysisPage
      else if p = nav_labels ! 1 then Some HistoryPage
      else if p = nav_labels ! 2 then Some QuotePage
      else if p = nav_labels ! 3 then Some TaskPage
      else if p = nav_labels ! 4 then Some ConfigPage
      else None)"

text \<open>The widget values of one run: the radio selection, the widgets of every page, the
  query id \<open>uuid.uuid4().hex\<close> the analysis page draws in this run, and today's date.\<close>

record run_input =
  r_nav :: "nat option"
  r_analysis :: analysis_input
  r_qid :: pystr
  r_today :: day
  r_history :: history_input
  r_quote :: quote_input
  r_refresh :: bool

definition show_page :: "backend \<Rightarrow> run_input \<Rightarrow> page \<Rightarrow> unit ui" where
  "show_page b inp p =
     (case p of
        AnalysisPage \<Rightarrow> show_analysis_page b (r_analysis inp) (r_qid inp)
      | HistoryPage \<Rightarrow> show_history_page b (r_today inp) (r_history inp)
      | QuotePage \<Rightarrow> show_stock_quote_page b (r_quote inp)
      | TaskPage \<Rightarrow> show_task_monitor_page b (r_refresh inp)
      | ConfigPage \<Rightarrow> show_config_page b)"

text \<open>Lines 73--101: the sidebar (the radio keeps its selection, or the first option, as
  \<open>st_selectbox\<close> does), the read of \<open>st.session_state.config\<close> (outside any
  \<open>try\<close>: a missing attribute ends the run), and the dispatch.\<close>

definition main :: "session \<Rightarrow> backend \<Rightarrow> run_input \<Rightarrow> unit ui" where
  "main s b inp =
     ui_seq (ui_emit (SideRender (Title [Lit ''Stock analysis system''])))
    (ui_seq (ui_emit (SideRender (Markdown [Lit ''---''])))
    (ui_bind (ui_seq (ui_widgets [''Navigation'']) (ui_ret (st_selectbox nav_labels 0 (r_nav inp)))) (\<lambda>label.
     ui_seq (ui_emit (SideRender (Markdown [Lit ''---''])))
    (ui_seq (ui_emit (SideRender (Markdown [Lit ''### System info''])))
    (ui_seq (ui_lift (case ss_config s of Some _ \<Rightarrow> Inr () | None \<Rightarrow> Inl AttributeError))
    (ui_seq (ui_emit (SideRender (Alert Info [Lit ''Run mode: Streamlit Web UI''])))
            (case route label of
               Some p \<Rightarrow> show_page (session_backend s b) inp p
             | None \<Rightarrow> ui_ret ())))))))"

text \<open>Lines 55--61: \<open>st.set_page_config\<close> with the page title and the wide layout
  (the icon and the sidebar state are not observed).\<close>

definition page_config :: "unit ui" where
  "page_config = ui_emit (PageConfig ''Stock analysis system'' ''wide'')"

text \<open>One run of the script for a session: the page configuration, the initialisation (an
  exception there ends the run after the configuration, before anything is drawn), then
  \<open>main()\<close> (lines 430--431). The session state is written only by the initialisation.\<close>

definition script_run :: "(ctor \<Rightarrow> bool) \<Rightarrow> backend \<Rightarrow> run_input \<Rightarrow> world \<Rightarrow> world \<times> unit ui" where
  "script_run ok b inp w =
     (case init_session ok w of
        (w', Inl e) \<Rightarrow> (w', ui_seq page_config ([], Inl e))
      | (w', Inr _) \<Rightarrow> (w', ui_seq page_config (main (w_session w') b inp)))"

section \<open>Streamlit's serving loop\<close>

text \<open>A button is true only in the run that follows its click: the rerun that
  \<open>st.rerun()\<close> requests sees every button false, the other widgets unchanged.\<close>

definition clear_buttons :: "run_input \<Rightarrow> run_input" where
  "clear_buttons inp =
     inp\<lparr>r_analysis := (r_analysis inp)\<lparr>a_clicked := False\<rparr>,
         r_history := (r_history inp)\<lparr>h_clicked := False\<rparr>,
         r_quote := (r_quote inp)\<lparr>q_clicked := False\<rparr>,
         r_refresh := False\<rparr>"

text \<open>Streamlit runs the script and, while the run ends with the rerun request, runs it
  again; the page shown is the last run's. A loop that may not end: \<open>None\<close> is
  divergence.\<close>

partial_function (option) serve ::
  "(ctor \<Rightarrow> bool) \<Rightarrow> backend \<Rightarrow> run_input \<Rightarrow> world \<Rightarrow> (world \<times> event list \<times> (exc + unit)) option"
where
  "serve ok b inp w =
     (case script_run ok b inp w of
        (w', es, r) \<Rightarrow>
          if r = Inl RerunRequest then serve ok b (clear_buttons inp) w' else Some (w', es, r))"

text \<open>The worlds a session can reach: a fresh session, and whatever a run leaves, for any
  constructor outcomes, back end and widget values.\<close>

inductive reachable :: "world \<Rightarrow> bool" where
  fresh: "reachable fresh_world"
| run: "reachable w \<Longrightarrow> reachable (fst (script_run ok b inp w))"

text \<open>Inputs for the witnesses: the task monitor selected, nothing typed, and the refresh
  button as given; a session whose attributes are all set.\<close>

definition demo_run :: "bool \<Rightarrow> run_input" where
  "demo_run refresh =
     \<lparr>r_nav = Some 3, r_analysis = demo_input [], r_qid = [], r_today = 0,
      r_history = demo_history_input [], r_quote = demo_quote_input [] False, r_refresh = refresh\<rparr>"

definition demo_session :: session where
  "demo_session =
     \<lparr>ss_initialized = True, ss_config = Some 0, ss_analysis_service = Some 1,
      ss_history_service = Some 2, ss_stock_service = Some 3, ss_system_config_service = Some 4\<rparr>"


text \<open>The event of \<open>st.set_page_config\<close>.\<close>

fun is_page_config :: "event \<Rightarrow> bool" where
  "is_page_config (PageConfig _ _) = True"
| "is_page_config _ = False"

section \<open>Properties\<close>

subsection \<open>Helper lemmas\<close>

lemma store_initialized [simp]: "ss_initialized (store c h s) = ss_initialized s"
  by (cases c) simp_all

lemma init_attrs_made:
  "init_attrs ok cs w = (w', r) \<Longrightarrow>
   w_made w \<le> w_made w' \<and> w_made w' \<le> w_made w + length cs \<and>
   ss_initialized (w_session w') = ss_initialized (w_session w)"
  by (induction ok cs w arbitrary: w' rule: init_attrs.induct) (fastforce split: if_splits)+

lemma init_attrs_not_rerun: "init_attrs ok cs w \<noteq> (w', Inl RerunRequest)"
  by (induction ok cs w rule: init_attrs.induct) auto

lemma script_run_world: "fst (script_run ok b inp w) = fst (init_session ok w)"
  by (simp add: script_run_def split: prod.splits sum.splits)

lemma page_config_seq [simp]:
  "ui_seq page_config m = (PageConfig ''Stock analysis system'' ''wide'' # fst m, snd m)"
  by (simp add: page_config_def ui_simps)

lemma script_run_initialized:
  "ss_initialized (w_session w) \<Longrightarrow>
   script_run ok b inp w = (w, PageConfig ''Stock analysis system'' ''wide'' # fst (main (w_session w) b inp),
                            snd (main (w_session w) b inp))"
  by (simp add: script_run_def init_session_def)

lemma init_session_fresh:
  "fst (init_session ok fresh_world) = w' \<Longrightarrow> ss_initialized (w_session w') \<and> w_made w' \<le> 5"
  using init_attrs_made [of ok session_ctors "fresh_world\<lparr>w_session := (w_session fresh_world)\<lparr>ss_initialized := True\<rparr>\<rparr>"]
  by (cases "init_attrs ok session_ctors (fresh_world\<lparr>w_session := (w_session fresh_world)\<lparr>ss_initialized := True\<rparr>\<rparr>)")
     (simp add: init_session_def fresh_world_def session_ctors_def)

lemma reachable_inv:
  "reachable w \<Longrightarrow> w_made w \<le> 5 \<and> (\<not> ss_initialized (w_session w) \<longrightarrow> w = fresh_world)"
proof (induction rule: reachable.induct)
  case fresh
  then show ?case by (simp add: fresh_world_def)
next
  case (run w ok b inp)
  show ?case
  proof (cases "ss_initialized (w_session w)")
    case True
    then show ?thesis using run.IH by (simp add: script_run_initialized)
  next
    case False
    with run.IH have "w = fresh_world" by simp
    then show ?thesis using init_session_fresh [of ok] by (simp add: script_run_world)
  qed
qed

lemma pages_no_rerun:
  "no_rerun (show_analysis_page b a q)" "no_rerun (show_history_page b d h)"
  "no_rerun (show_stock_quote_page b qi)" "no_rerun (show_task_monitor_page b False)"
  "no_rerun (show_config_page b)"
  unfolding show_analysis_page_def show_history_page_def show_stock_quote_page_def
    show_task_monitor_page_def show_config_page_def
  by ((simp only: if_False)?; intro ui_intros no_rerun_try_ret; simp add: ui_intros)+

lemma main_no_rerun: "\<not> r_refresh inp \<Longrightarrow> no_rerun (main s b inp)"
  unfolding main_def
  by (intro ui_intros) (auto simp: show_page_def pages_no_rerun intro: ui_intros split: option.splits page.splits)

lemma script_run_no_rerun:
  "\<not> r_refresh inp \<Longrightarrow> snd (snd (script_run ok b inp w)) \<noteq> Inl RerunRequest"
  using main_no_rerun [of inp] init_attrs_not_rerun
  by (auto simp: script_run_def init_session_def no_rerun_def split: prod.splits sum.splits if_splits)

lemma serve_unfold:
  "serve ok b inp w =
     (case script_run ok b inp w of
        (w', es, r) \<Rightarrow>
          if r = Inl RerunRequest then serve ok b (clear_buttons inp) w' else Some (w', es, r))"
  by (rule serve.simps)

lemma route_nav_labels:
  "i < length nav_labels \<Longrightarrow>
   route (nav_labels ! i) = Some ([AnalysisPage, HistoryPage, QuotePage, TaskPage, ConfigPage] ! i)"
proof -
  assume "i < length nav_labels"
  then have "i = 0 \<or> i = 1 \<or> i = 2 \<or> i = 3 \<or> i = 4" by (auto simp: nav_labels_def)
  then show ?thesis by (elim disjE) (simp_all add: route_def nav_labels_def)
qed

lemma main_route_eq:
  "ss_config s \<noteq> None \<Longrightarrow> route (st_selectbox nav_labels 0 (r_nav inp)) = Some p \<Longrightarrow>
   main s b inp =
     ([SideRender (Title [Lit ''Stock analysis system'']), SideRender (Markdown [Lit ''---'']),
       Widget ''Navigation'', SideRender (Markdown [Lit ''---'']),
       SideRender (Markdown [Lit ''### System info'']),
       SideRender (Alert Info [Lit ''Run mode: Streamlit Web UI''])] @
      fst (show_page (session_backend s b) inp p),
      snd (show_page (session_backend s b) inp p))"
  by (auto simp: main_def ui_simps)

lemma route_task_page: "r_nav inp = Some 3 \<Longrightarrow> route (st_selectbox nav_labels 0 (r_nav inp)) = Some TaskPage"
  using route_nav_labels [of 3] by (simp add: st_selectbox_def nav_labels_def)

lemma task_page_lists_tasks:
  "b GetTaskQueue = Inr q \<Longrightarrow>
   snd (show_task_monitor_page b False) = Inr () \<and>
   Call (ListTasks 50) \<in> set (fst (show_task_monitor_page b False))"
proof -
  assume q: "b GetTaskQueue = Inr q"
  have "Call (ListTasks 50) \<in> set (fst (task_body b))"
    using q by (simp add: task_body_def ui_bind_def ui_call_def split: sum.splits)
  then have "Call (ListTasks 50) \<in> set (fst (ui_try (task_body b) task_handler))"
    using ui_try_keeps by blast
  then show ?thesis
    by (simp add: show_task_monitor_page_def ui_simps ui_try_returns task_body_props task_handler_props)
qed

text \<open>No page and no part of \<open>main()\<close> configures the page: \<open>st.set_page_config\<close> is
  module code.\<close>

lemma pages_no_page_config:
  "trace_all (\<lambda>ev. \<not> is_page_config ev) (show_page b inp p)"
proof -
  have "trace_all (\<lambda>ev. \<not> is_page_config ev) (show_analysis_page b a q)" for a q
    unfolding show_analysis_page_def analysis_body_def analysis_handler_def render_result_report_def
      render_report_def
    by (intro ui_intros conjI impI allI | simp split: pyval.splits prod.splits)+
  moreover have "trace_all (\<lambda>ev. \<not> is_page_config ev) (show_history_page b d h)" for d h
    unfolding show_history_page_def history_body_def history_handler_def history_details_def
    by (intro ui_intros conjI impI allI | simp split: pyval.splits prod.splits)+
  moreover have "trace_all (\<lambda>ev. \<not> is_page_config ev) (show_stock_quote_page b qi)" for qi
    unfolding show_stock_quote_page_def quote_body_def quote_handler_def history_chart_def
      chart_handler_def render_quote_def
    by (intro ui_intros conjI impI allI | simp split: pyval.splits prod.splits)+
  moreover have "trace_all (\<lambda>ev. \<not> is_page_config ev) (show_task_monitor_page b r)" for r
    unfolding show_task_monitor_page_def task_body_def task_handler_def render_group_def render_task_def
    by (intro ui_intros conjI impI allI | simp split: pyval.splits prod.splits)+
  moreover have "trace_all (\<lambda>ev. \<not> is_page_config ev) (show_config_page b)"
    unfolding show_config_page_def config_body_def config_handler_def render_config_section_def
      render_config_key_def
    by (intro ui_intros conjI impI allI | simp split: pyval.splits prod.splits)+
  ultimately show ?thesis by (cases p) (simp_all add: show_page_def)
qed

lemma main_no_page_config: "trace_all (\<lambda>ev. \<not> is_page_config ev) (main s b inp)"
  unfolding main_def
  by (intro ui_intros conjI impI allI | simp add: pages_no_page_config split: option.splits)+

text \<open>C5. In every session a run can reach, at most five objects (the configuration and the four services) have been constructed, and once the session is initialised a run leaves its state unchanged: the session state is written by the first run only and the services are constructed once.\<close>

theorem session_initialised_once:
  "reachable w \<Longrightarrow>
   w_made w \<le> length session_ctors \<and>
   (ss_initialized (w_session w) \<longrightarrow> fst (script_run ok b inp w) = w)"
  using reachable_inv [of w] by (simp add: session_ctors_def script_run_initialized)

text \<open>C6. Streamlit's rerun loop ends on every input, for every back end and session: the rerun that the refresh button requests sees every button released and cannot request another, so the loop ends within two runs with a result other than the rerun request.\<close>

theorem serve_settles:
  "\<exists>w' es r. serve ok b inp w = Some (w', es, r) \<and> r \<noteq> Inl RerunRequest"
proof -
  have second: "\<exists>w'' es r. serve ok b (clear_buttons inp) w' = Some (w'', es, r) \<and> r \<noteq> Inl RerunRequest" for w'
    using script_run_no_rerun [of "clear_buttons inp" ok b w']
    by (subst serve_unfold) (auto simp: clear_buttons_def split: prod.splits)
  show ?thesis
    by (subst serve_unfold) (auto simp: second split: prod.splits)
qed

text \<open>C7. When the configuration is in the session, selecting the i-th navigation label draws the sidebar and then exactly the i-th page, with the session's services as its back end.\<close>

theorem main_routes:
  assumes "ss_config s \<noteq> None" and "i < length nav_labels" and "r_nav inp = Some i"
  shows "main s b inp =
           ([SideRender (Title [Lit ''Stock analysis system'']), SideRender (Markdown [Lit ''---'']),
             Widget ''Navigation'', SideRender (Markdown [Lit ''---'']),
             SideRender (Markdown [Lit ''### System info'']),
             SideRender (Alert Info [Lit ''Run mode: Streamlit Web UI''])] @
            fst (show_page (session_backend s b) inp
                   ([AnalysisPage, HistoryPage, QuotePage, TaskPage, ConfigPage] ! i)),
            snd (show_page (session_backend s b) inp
                   ([AnalysisPage, HistoryPage, QuotePage, TaskPage, ConfigPage] ! i)))"
  using assms route_nav_labels [OF assms(2)]
  by (auto simp: main_def ui_simps st_selectbox_def)

text \<open>C8. The initialisation sets the initialized flag before constructing anything; when get_config raises in the first run, that run fails, and every later run of the session, whatever the constructors, the back end and the widgets, leaves the session unchanged and fails reading st.session_state.config with AttributeError.\<close>

theorem session_stuck_without_config:
  assumes "\<not> ok GetConfigC"
  shows "snd (snd (script_run ok b inp fresh_world)) = Inl (ServiceError (py ''get_config'')) \<and>
         (\<forall>ok' b' inp'.
            fst (script_run ok' b' inp' (fst (script_run ok b inp fresh_world))) =
              fst (script_run ok b inp fresh_world) \<and>
            snd (snd (script_run ok' b' inp' (fst (script_run ok b inp fresh_world)))) = Inl AttributeError)"
  using assms
  by (simp add: script_run_def init_session_def fresh_world_def session_ctors_def ctor_name_def
                main_def ui_simps page_config_def)

text \<open>Every run of the script, whatever the session, the constructors, the back end and
  the widgets, starts with \<open>st.set_page_config\<close>, before the initialisation and anything
  drawn, and configures the page only once, as Streamlit requires of that command.\<close>

theorem page_config_first:
  "\<exists>es. fst (snd (script_run ok b inp w)) = PageConfig ''Stock analysis system'' ''wide'' # es \<and>
        \<not> list_ex is_page_config es"
  using main_no_page_config [of "w_session (fst (init_session ok w))" b inp]
  by (auto simp: script_run_def trace_all_def list_all_iff list_ex_iff split: prod.splits sum.splits)

text \<open>C34. The manual refresh re-fetches the task list: on an initialised session with the task
  monitor selected, a click on refresh makes Streamlit rerun the script, and the run it
  settles on lists the tasks again and returns normally, leaving the session unchanged, as
  long as the task queue can be obtained.\<close>

theorem refresh_refetches_tasks:
  assumes "ss_initialized (w_session w)" and "ss_config (w_session w) \<noteq> None"
    and "r_nav inp = Some 3" and "r_refresh inp" and "b GetTaskQueue = Inr q"
  shows "\<exists>es. serve ok b inp w = Some (w, es, Inr ()) \<and> Call (ListTasks 50) \<in> set es"
proof -
  have sb: "session_backend (w_session w) b GetTaskQueue = Inr q"
    using assms(5) by (simp add: session_backend_def)
  have first: "snd (snd (script_run ok b inp w)) = Inl RerunRequest" "fst (script_run ok b inp w) = w"
    using assms(1-4) route_task_page [of inp]
    by (simp_all add: script_run_initialized main_route_eq show_page_def show_task_monitor_page_def ui_simps)
  have cl: "r_nav (clear_buttons inp) = Some 3" "\<not> r_refresh (clear_buttons inp)"
    using assms(3) by (simp_all add: clear_buttons_def)
  obtain es where second: "script_run ok b (clear_buttons inp) w = (w, es, Inr ())"
    and lt: "Call (ListTasks 50) \<in> set es"
    using assms(1,2) cl route_task_page [of "clear_buttons inp"]
      task_page_lists_tasks [of "session_backend (w_session w) b", OF sb]
    by (simp add: script_run_initialized main_route_eq show_page_def)
  have "serve ok b (clear_buttons inp) w = Some (w, es, Inr ())"
    by (subst serve_unfold) (simp add: second)
  then have "serve ok b inp w = Some (w, es, Inr ())"
    using first by (subst serve_unfold) (auto split: prod.splits)
  with lt show ?thesis by blast
qed

lemma session_initialised_once_witness:
  "w_made (fst (script_run (\<lambda>_. True) demo_task_backend (demo_run False) fresh_world)) \<le> length session_ctors \<and>
   fst (script_run (\<lambda>_. False) demo_task_backend (demo_run True)
          (fst (script_run (\<lambda>_. True) demo_task_backend (demo_run False) fresh_world))) =
   fst (script_run (\<lambda>_. True) demo_task_backend (demo_run False) fresh_world)"
proof -
  have r: "reachable (fst (script_run (\<lambda>_. True) demo_task_backend (demo_run False) fresh_world))"
    by (rule reachable.run [OF reachable.fresh])
  have i: "ss_initialized (w_session (fst (script_run (\<lambda>_. True) demo_task_backend (demo_run False) fresh_world)))"
    by (simp add: script_run_world init_session_def fresh_world_def session_ctors_def)
  from session_initialised_once [OF r, of "\<lambda>_. False" demo_task_backend "demo_run True"] i show ?thesis
    by simp
qed

lemma main_routes_witness:
  "snd (main demo_session demo_task_backend (demo_run True)) = Inl RerunRequest"
  using main_routes [of demo_session 3 "demo_run True" demo_task_backend]
  by (simp add: demo_session_def demo_run_def nav_labels_def show_page_def show_task_monitor_page_def ui_simps)

lemma session_stuck_without_config_witness:
  "snd (snd (script_run (\<lambda>c. c \<noteq> GetConfigC) demo_task_backend (demo_run False)
       (fst (script_run (\<lambda>c. c \<noteq> GetConfigC) demo_task_backend (demo_run False) fresh_world)))) =
   Inl AttributeError"
  using session_stuck_without_config [of "\<lambda>c. c \<noteq> GetConfigC" demo_task_backend "demo_run False"]
  by simp

lemma refresh_refetches_tasks_witness:
  "\<exists>es. serve (\<lambda>_. True) demo_task_backend (demo_run True) (fst (script_run (\<lambda>_. True) demo_task_backend (demo_run False) fresh_world)) =
          Some (fst (script_run (\<lambda>_. True) demo_task_backend (demo_run False) fresh_world), es, Inr ()) \<and>
        Call (ListTasks 50) \<in> set es"
proof -
  let ?w = "fst (script_run (\<lambda>_. True) demo_task_backend (demo_run False) fresh_world)"
  have "ss_initialized (w_session ?w)" "ss_config (w_session ?w) \<noteq> None"
    by (simp_all add: script_run_world init_session_def fresh_world_def session_ctors_def)
  moreover have "r_nav (demo_run True) = Some 3" "r_refresh (demo_run True)"
    "demo_task_backend GetTaskQueue = Inr PNone"
    by (simp_all add: demo_run_def demo_task_backend_def)
  ultimately show ?thesis by (rule refresh_refetches_tasks)
qed


end
