(* ===== verification/Interaction.thy ===== *)
theory Interaction
  imports Session
begin

text \<open>A browser session as a sequence of user actions, each served by Streamlit. Streamlit keeps
  the value of every widget between runs, with two exceptions this theory models from
  Streamlit's documented widget life cycle: a button is true only in the run its click
  triggers, and a widget that a run does not draw loses its state, so that it is drawn with its
  default the next time. A user can act only on a widget the last run drew. Each run draws a
  fresh query id for the analysis page from a supply \<open>q\<close> (\<open>uuid.uuid4().hex\<close>, line
  139), indexed by the number of the run. The properties: the invariant of every reachable
  state (\<open>ui_inv\<close>, by rule induction on \<open>ui_reach\<close>), its consequences for the K-line
  check box, the record select box and the query ids, and that an analysis can always be
  requested from any reachable state.\<close>

section \<open>Widget defaults\<close>

text \<open>Lines 112--131: an empty code, report type index 0, no forced refresh, notification on.\<close>

definition analysis_defaults :: analysis_input where
  "analysis_defaults =
     \<lparr>a_stock_code = [], a_report_type = None, a_force_refresh = False, a_send_notification = True,
      a_clicked = False\<rparr>"

text \<open>Lines 209--218: an empty filter, the second time range and page size (\<open>index=1\<close>),
  and line 251: the first record.\<close>

definition history_defaults :: history_input where
  "history_defaults =
     \<lparr>h_code_filter = [], h_days_back = None, h_page_size = None, h_clicked = False,
      h_selected = None\<rparr>"

text \<open>Lines 274--280 and 318: an empty code and the K-line check box off.\<close>

definition quote_defaults :: quote_input where
  "quote_defaults = \<lparr>q_stock_code = [], q_clicked = False, q_show_history = False\<rparr>"

text \<open>The widget values of a fresh session on day \<open>d\<close>: the first navigation entry
  (line 80) and every page's defaults.\<close>

definition default_input :: "day \<Rightarrow> run_input" where
  "default_input d =
     \<lparr>r_nav = None, r_analysis = analysis_defaults, r_qid = [], r_today = d,
      r_history = history_defaults, r_quote = quote_defaults, r_refresh = False\<rparr>"

section \<open>The widget life cycle\<close>

definition drawn :: "string \<Rightarrow> event list \<Rightarrow> bool" where
  "drawn w es \<longleftrightarrow> Widget w \<in> set es"

text \<open>After a run, the widgets the run did not draw are reset to their defaults. The widgets a
  page draws together at its top are identified by the button drawn with them; the record
  select box and the K-line check box, drawn only inside a button's branch, by their own
  labels.\<close>

definition widget_gc :: "event list \<Rightarrow> run_input \<Rightarrow> run_input" where
  "widget_gc es inp =
     inp\<lparr>r_nav := (if drawn ''Navigation'' es then r_nav inp else None),
         r_analysis := (if drawn ''Start analysis'' es then r_analysis inp else analysis_defaults),
         r_history := (let h = (if drawn ''Query'' es then r_history inp else history_defaults)
                       in if drawn ''Select record'' es then h else h\<lparr>h_selected := None\<rparr>),
         r_quote := (let v = (if drawn ''Query quote'' es then r_quote inp else quote_defaults)
                     in if drawn ''Show K-line history'' es then v else v\<lparr>q_show_history := False\<rparr>)\<rparr>"

section \<open>User actions\<close>

datatype action =
    Navigate nat
  | TypeAnalysisCode pystr | ChooseReportType nat | ToggleForceRefresh bool | ToggleNotify bool
  | ClickAnalyze
  | TypeHistoryFilter pystr | ChooseDaysBack nat | ChoosePageSize nat | ClickHistoryQuery
  | ChooseRecord nat
  | TypeQuoteCode pystr | ClickQuote | ToggleKline bool
  | ClickRefresh
  | Rerun

text \<open>The widget an action acts on, by the label that identifies its group. \<open>Rerun\<close> is
  the Rerun command of Streamlit's app menu (key R): it reruns the script with the widget
  values as they are and needs no widget, so it is available also after a run that raised.\<close>

fun action_widget :: "action \<Rightarrow> string option" where
  "action_widget (Navigate _) = Some ''Navigation''"
| "action_widget (TypeAnalysisCode _) = Some ''Start analysis''"
| "action_widget (ChooseReportType _) = Some ''Start analysis''"
| "action_widget (ToggleForceRefresh _) = Some ''Start analysis''"
| "action_widget (ToggleNotify _) = Some ''Start analysis''"
| "action_widget ClickAnalyze = Some ''Start analysis''"
| "action_widget (TypeHistoryFilter _) = Some ''Query''"
| "action_widget (ChooseDaysBack _) = Some ''Query''"
| "action_widget (ChoosePageSize _) = Some ''Query''"
| "action_widget ClickHistoryQuery = Some ''Query''"
| "action_widget (ChooseRecord _) = Some ''Select record''"
| "action_widget (TypeQuoteCode _) = Some ''Query quote''"
| "action_widget ClickQuote = Some ''Query quote''"
| "action_widget (ToggleKline _) = Some ''Show K-line history''"
| "action_widget ClickRefresh = Some ''Refresh task list''"
| "action_widget Rerun = None"

text \<open>Whether the user can take an action after a run that drew the given events.\<close>

definition enabled :: "action \<Rightarrow> event list \<Rightarrow> bool" where
  "enabled a es = (case action_widget a of None \<Rightarrow> True | Some w \<Rightarrow> drawn w es)"

text \<open>The widget values of the run an action triggers.\<close>

fun apply_action :: "action \<Rightarrow> run_input \<Rightarrow> run_input" where
  "apply_action (Navigate i) inp = inp\<lparr>r_nav := Some i\<rparr>"
| "apply_action (TypeAnalysisCode s) inp = inp\<lparr>r_analysis := (r_analysis inp)\<lparr>a_stock_code := s\<rparr>\<rparr>"
| "apply_action (ChooseReportType i) inp = inp\<lparr>r_analysis := (r_analysis inp)\<lparr>a_report_type := Some i\<rparr>\<rparr>"
| "apply_action (ToggleForceRefresh v) inp = inp\<lparr>r_analysis := (r_analysis inp)\<lparr>a_force_refresh := v\<rparr>\<rparr>"
| "apply_action (ToggleNotify v) inp = inp\<lparr>r_analysis := (r_analysis inp)\<lparr>a_send_notification := v\<rparr>\<rparr>"
| "apply_action ClickAnalyze inp = inp\<lparr>r_analysis := (r_analysis inp)\<lparr>a_clicked := True\<rparr>\<rparr>"
| "apply_action (TypeHistoryFilter s) inp = inp\<lparr>r_history := (r_history inp)\<lparr>h_code_filter := s\<rparr>\<rparr>"
| "apply_action (ChooseDaysBack i) inp = inp\<lparr>r_history := (r_history inp)\<lparr>h_days_back := Some i\<rparr>\<rparr>"
| "apply_action (ChoosePageSize i) inp = inp\<lparr>r_history := (r_history inp)\<lparr>h_page_size := Some i\<rparr>\<rparr>"
| "apply_action ClickHistoryQuery inp = inp\<lparr>r_history := (r_history inp)\<lparr>h_clicked := True\<rparr>\<rparr>"
| "apply_action (ChooseRecord i) inp = inp\<lparr>r_history := (r_history inp)\<lparr>h_selected := Some i\<rparr>\<rparr>"
| "apply_action (TypeQuoteCode s) inp = inp\<lparr>r_quote := (r_quote inp)\<lparr>q_stock_code := s\<rparr>\<rparr>"
| "apply_action ClickQuote inp = inp\<lparr>r_quote := (r_quote inp)\<lparr>q_clicked := True\<rparr>\<rparr>"
| "apply_action (ToggleKline v) inp = inp\<lparr>r_quote := (r_quote inp)\<lparr>q_show_history := v\<rparr>\<rparr>"
| "apply_action ClickRefresh inp = inp\<lparr>r_refresh := True\<rparr>"
| "apply_action Rerun inp = inp"

section \<open>A session of user actions\<close>

text \<open>The state of a browser session: the session's world, the widget values, the events the
  last run drew, the number of runs, and every service call made, with the number of its run.\<close>

record ui_state =
  u_world :: world
  u_input :: run_input
  u_shown :: "event list"
  u_runs :: nat
  u_log :: "(nat \<times> call) list"

text \<open>One interaction: Streamlit serves the script with the new widget values and the next
  query id; afterwards the buttons are released and the widgets not drawn forgotten.\<close>

definition run_once ::
  "(ctor \<Rightarrow> bool) \<Rightarrow> backend \<Rightarrow> (nat \<Rightarrow> pystr) \<Rightarrow> run_input \<Rightarrow> ui_state \<Rightarrow> ui_state option" where
  "run_once ok b q inp s =
     (case serve ok b (inp\<lparr>r_qid := q (u_runs s)\<rparr>) (u_world s) of
        None \<Rightarrow> None
      | Some (w', es, r) \<Rightarrow>
          Some \<lparr>u_world = w', u_input = widget_gc es (clear_buttons inp), u_shown = es,
                u_runs = Suc (u_runs s), u_log = u_log s @ map (Pair (u_runs s)) (calls es)\<rparr>)"

definition ui_start :: "(ctor \<Rightarrow> bool) \<Rightarrow> backend \<Rightarrow> (nat \<Rightarrow> pystr) \<Rightarrow> day \<Rightarrow> ui_state option" where
  "ui_start ok b q d =
     run_once ok b q (default_input d)
       \<lparr>u_world = fresh_world, u_input = default_input d, u_shown = [], u_runs = 0, u_log = []\<rparr>"

text \<open>An action on a widget the last run did not draw does nothing.\<close>

definition user_step ::
  "(ctor \<Rightarrow> bool) \<Rightarrow> backend \<Rightarrow> (nat \<Rightarrow> pystr) \<Rightarrow> action \<Rightarrow> ui_state \<Rightarrow> ui_state option" where
  "user_step ok b q a s =
     (if enabled a (u_shown s) then run_once ok b q (apply_action a (u_input s)) s
      else Some s)"

inductive ui_reach :: "(ctor \<Rightarrow> bool) \<Rightarrow> backend \<Rightarrow> (nat \<Rightarrow> pystr) \<Rightarrow> day \<Rightarrow> ui_state \<Rightarrow> bool"
  for ok b q d where
  start: "ui_start ok b q d = Some s \<Longrightarrow> ui_reach ok b q d s"
| step: "ui_reach ok b q d s \<Longrightarrow> user_step ok b q a s = Some s' \<Longrightarrow> ui_reach ok b q d s'"

text \<open>The query id of an analysis request.\<close>

fun analysis_qid :: "call \<Rightarrow> pystr option" where
  "analysis_qid (AnalyzeStock _ _ _ x _) = Some x"
| "analysis_qid _ = None"

text \<open>A call event that requests the K-line history, and a call event whose query id, if it
  is an analysis request, is the given one.\<close>

fun kline_call :: "event \<Rightarrow> bool" where
  "kline_call (Call (GetHistoryData _ _ _)) = True"
| "kline_call _ = False"

fun qid_ok :: "pystr \<Rightarrow> event \<Rightarrow> bool" where
  "qid_ok x (Call c) = (analysis_qid c = None \<or> analysis_qid c = Some x)"
| "qid_ok x _ = True"

text \<open>What holds between interactions: every button is released, the record select box and
  the K-line check box hold their defaults, and every call logged was made in an earlier run,
  requests no K-line history, and carries the query id of its run if it is an analysis.\<close>

definition ui_inv :: "(nat \<Rightarrow> pystr) \<Rightarrow> ui_state \<Rightarrow> bool" where
  "ui_inv q s \<longleftrightarrow>
     \<not> a_clicked (r_analysis (u_input s)) \<and> \<not> h_clicked (r_history (u_input s)) \<and>
     \<not> q_clicked (r_quote (u_input s)) \<and> \<not> r_refresh (u_input s) \<and>
     h_selected (r_history (u_input s)) = None \<and> \<not> q_show_history (r_quote (u_input s)) \<and>
     list_all (\<lambda>(n, c). n < u_runs s \<and> \<not> kline_call (Call c) \<and> qid_ok (q n) (Call c)) (u_log s)"

text \<open>Inputs for the witnesses: a query id supply with a different id in every run, and a
  history service that answers every call with one record.\<close>

definition demo_qids :: "nat \<Rightarrow> pystr" where
  "demo_qids n = replicate n 113"

definition demo_record_backend :: backend where
  "demo_record_backend c =
     Inr (PDict [(py ''total'', PInt 1),
                 (py ''items'', PList [PDict [(py ''meta'', PDict []), (py ''report'', PStr (py ''text''))]])])"

section \<open>Properties\<close>

subsection \<open>Helper lemmas\<close>

lemma serve_cases:
  "serve ok b inp w = Some (w', es, r) \<Longrightarrow>
   \<exists>inp' w0. (inp' = inp \<or> inp' = clear_buttons inp) \<and> script_run ok b inp' w0 = (w', es, r)"
proof -
  assume s: "serve ok b inp w = Some (w', es, r)"
  obtain w1 es1 r1 where r1: "script_run ok b inp w = (w1, es1, r1)" by (cases "script_run ok b inp w") auto
  show ?thesis
  proof (cases "r1 = Inl RerunRequest")
    case False
    with s r1 show ?thesis by (subst (asm) serve_unfold) auto
  next
    case True
    obtain w2 es2 r2 where r2: "script_run ok b (clear_buttons inp) w1 = (w2, es2, r2)"
      by (cases "script_run ok b (clear_buttons inp) w1") auto
    have "r2 \<noteq> Inl RerunRequest"
      using script_run_no_rerun [of "clear_buttons inp" ok b w1] r2 by (simp add: clear_buttons_def)
    with s r1 r2 True show ?thesis
      by (subst (asm) serve_unfold, subst (asm) serve_unfold) auto
  qed
qed

lemma run_trace_all:
  assumes "\<And>b' p. trace_all P (show_page b' inp p)" and "P (Widget ''Navigation'')"
    and "\<And>e. P (SideRender e)" and "\<And>t l. P (PageConfig t l)"
  shows "trace_all P (snd (script_run ok b inp w))"
proof -
  have "trace_all P (main s b inp)" for s
    unfolding main_def
    by (intro ui_intros conjI impI allI | simp add: assms split: option.splits)+
  then show ?thesis
    using assms(4) by (auto simp: script_run_def page_config_def ui_simps trace_all_def split: prod.splits sum.splits)
qed

lemmas page_defs = show_page_def show_analysis_page_def analysis_body_def analysis_handler_def
    render_result_report_def render_report_def show_history_page_def show_stock_quote_page_def
    quote_body_def quote_handler_def history_chart_def chart_handler_def render_quote_def
    show_task_monitor_page_def task_body_def task_handler_def render_group_def render_task_def
    show_config_page_def config_body_def config_handler_def render_config_section_def
    render_config_key_def history_body_def history_handler_def history_details_def
    analysis_request_def history_request_def

text \<open>What the pages draw and call, whatever the back end: the record select box only after a
  history query click, the K-line check box only after a quote click, the K-line request only
  with that click and the box ticked, and an analysis request only with the run's query id.\<close>

lemma pages_interaction:
  "\<not> h_clicked (r_history inp) \<Longrightarrow> trace_all (\<lambda>ev. ev \<noteq> Widget ''Select record'') (show_page b inp p)"
  "\<not> q_clicked (r_quote inp) \<Longrightarrow> trace_all (\<lambda>ev. ev \<noteq> Widget ''Show K-line history'') (show_page b inp p)"
  "\<not> (q_clicked (r_quote inp) \<and> q_show_history (r_quote inp)) \<Longrightarrow>
   trace_all (\<lambda>ev. \<not> kline_call ev) (show_page b inp p)"
  "trace_all (qid_ok (r_qid inp)) (show_page b inp p)"
  unfolding page_defs
  by (cases p; simp; (intro ui_intros conjI impI allI | simp split: pyval.splits prod.splits)+)+

lemma calls_trace_all: "trace_all P m \<Longrightarrow> c \<in> set (calls (fst m)) \<Longrightarrow> P (Call c)"
proof -
  have "list_all P es \<Longrightarrow> c \<in> set (calls es) \<Longrightarrow> P (Call c)" for es
    by (induction es rule: calls.induct) auto
  then show "trace_all P m \<Longrightarrow> c \<in> set (calls (fst m)) \<Longrightarrow> P (Call c)"
    by (simp add: trace_all_def)
qed

lemma not_drawn_trace_all: "trace_all (\<lambda>ev. ev \<noteq> Widget w) m \<Longrightarrow> \<not> drawn w (fst m)"
  by (auto simp: trace_all_def drawn_def list_all_iff)

lemma widget_gc_buttons [simp]:
  "a_clicked (r_analysis (widget_gc es (clear_buttons i))) = False"
  "h_clicked (r_history (widget_gc es (clear_buttons i))) = False"
  "q_clicked (r_quote (widget_gc es (clear_buttons i))) = False"
  "r_refresh (widget_gc es (clear_buttons i)) = False"
  by (simp_all add: widget_gc_def clear_buttons_def analysis_defaults_def history_defaults_def
                    quote_defaults_def Let_def)

lemma run_once_inv:
  assumes inv: "list_all (\<lambda>(n, c). n < u_runs s \<and> \<not> kline_call (Call c) \<and> qid_ok (q n) (Call c)) (u_log s)"
    and hs: "h_clicked (r_history inp) \<longrightarrow> h_selected (r_history inp) = None"
    and qs: "q_clicked (r_quote inp) \<longrightarrow> \<not> q_show_history (r_quote inp)"
    and run: "run_once ok b q inp s = Some s'"
  shows "ui_inv q s'"
proof -
  let ?i = "inp\<lparr>r_qid := q (u_runs s)\<rparr>"
  obtain w' es r where sv: "serve ok b ?i (u_world s) = Some (w', es, r)"
    and s': "s' = \<lparr>u_world = w', u_input = widget_gc es (clear_buttons inp), u_shown = es,
                   u_runs = Suc (u_runs s), u_log = u_log s @ map (Pair (u_runs s)) (calls es)\<rparr>"
    using run by (auto simp: run_once_def split: option.splits)
  obtain i' w0 where i': "i' = ?i \<or> i' = clear_buttons ?i" and sr: "script_run ok b i' w0 = (w', es, r)"
    using serve_cases [OF sv] by blast
  have es: "es = fst (snd (script_run ok b i' w0))" using sr by simp
  have same: "h_selected (r_history i') = h_selected (r_history inp)"
    "q_show_history (r_quote i') = q_show_history (r_quote inp)" "r_qid i' = q (u_runs s)"
    using i' by (auto simp: clear_buttons_def)
  have sel: "h_selected (r_history (widget_gc es (clear_buttons inp))) = None"
  proof (cases "h_clicked (r_history i')")
    case True
    with i' hs have "h_selected (r_history inp) = None" by (auto simp: clear_buttons_def)
    then show ?thesis by (simp add: widget_gc_def clear_buttons_def history_defaults_def Let_def)
  next
    case False
    then have "\<not> drawn ''Select record'' es"
      unfolding es by (intro not_drawn_trace_all run_trace_all pages_interaction(1)) simp_all
    then show ?thesis by (simp add: widget_gc_def Let_def)
  qed
  have kl: "\<not> q_show_history (r_quote (widget_gc es (clear_buttons inp)))"
  proof (cases "q_clicked (r_quote i')")
    case True
    with i' qs have "\<not> q_show_history (r_quote inp)" by (auto simp: clear_buttons_def)
    then show ?thesis by (simp add: widget_gc_def clear_buttons_def quote_defaults_def Let_def)
  next
    case False
    then have "\<not> drawn ''Show K-line history'' es"
      unfolding es by (intro not_drawn_trace_all run_trace_all pages_interaction(2)) simp_all
    then show ?thesis by (simp add: widget_gc_def Let_def)
  qed
  have nk: "\<not> (q_clicked (r_quote i') \<and> q_show_history (r_quote i'))"
    using i' qs by (auto simp: clear_buttons_def)
  have "trace_all (\<lambda>ev. \<not> kline_call ev) (snd (script_run ok b i' w0))"
    by (intro run_trace_all pages_interaction(3) nk) simp_all
  moreover have "trace_all (qid_ok (r_qid i')) (snd (script_run ok b i' w0))"
    by (intro run_trace_all pages_interaction(4)) simp_all
  ultimately have new: "list_all (\<lambda>(n, c). n < Suc (u_runs s) \<and> \<not> kline_call (Call c) \<and> qid_ok (q n) (Call c))
                          (map (Pair (u_runs s)) (calls es))"
    unfolding es using same(3) by (auto simp: list_all_iff dest: calls_trace_all)
  have old: "list_all (\<lambda>(n, c). n < Suc (u_runs s) \<and> \<not> kline_call (Call c) \<and> qid_ok (q n) (Call c)) (u_log s)"
    using inv by (auto simp: list_all_iff)
  show ?thesis using sel kl new old by (simp add: s' ui_inv_def)
qed

lemma serve_some: "\<exists>w' es r. serve ok b inp w = Some (w', es, r)"
proof -
  have second: "\<exists>w'' es r. serve ok b (clear_buttons inp) w' = Some (w'', es, r)" for w'
    using script_run_no_rerun [of "clear_buttons inp" ok b w']
    by (subst serve_unfold) (auto simp: clear_buttons_def split: prod.splits)
  show ?thesis
    by (subst serve_unfold) (auto simp: second split: prod.splits)
qed

lemma run_once_some: "\<exists>s'. run_once ok b q inp s = Some s'"
  using serve_some [of ok b "inp\<lparr>r_qid := q (u_runs s)\<rparr>" "u_world s"]
  by (auto simp: run_once_def)

lemma user_step_some: "\<exists>s'. user_step ok b q a s = Some s'"
  using run_once_some by (simp add: user_step_def enabled_def)

lemma apply_action_guards:
  "\<not> h_clicked (r_history i) \<Longrightarrow> h_selected (r_history i) = None \<Longrightarrow>
   \<not> q_clicked (r_quote i) \<Longrightarrow> \<not> q_show_history (r_quote i) \<Longrightarrow>
   (h_clicked (r_history (apply_action a i)) \<longrightarrow> h_selected (r_history (apply_action a i)) = None) \<and>
   (q_clicked (r_quote (apply_action a i)) \<longrightarrow> \<not> q_show_history (r_quote (apply_action a i)))"
  by (cases a) simp_all

lemma ui_reach_inv: "ui_reach ok b q d s \<Longrightarrow> ui_inv q s"
proof (induction rule: ui_reach.induct)
  case (start s)
  then show ?case
    by (intro run_once_inv [where inp = "default_input d"])
       (simp_all add: ui_start_def default_input_def history_defaults_def quote_defaults_def)
next
  case (step s a s')
  show ?case
  proof (cases "enabled a (u_shown s)")
    case True
    with step have r: "run_once ok b q (apply_action a (u_input s)) s = Some s'" by (simp add: user_step_def enabled_def)
    from step.IH have g: "(h_clicked (r_history (apply_action a (u_input s))) \<longrightarrow>
                           h_selected (r_history (apply_action a (u_input s))) = None) \<and>
                          (q_clicked (r_quote (apply_action a (u_input s))) \<longrightarrow>
                           \<not> q_show_history (r_quote (apply_action a (u_input s))))"
      by (intro apply_action_guards) (simp_all add: ui_inv_def)
    from step.IH g r show ?thesis by (intro run_once_inv) (auto simp: ui_inv_def)
  next
    case False
    with step show ?thesis by (simp add: user_step_def enabled_def)
  qed
qed

lemmas page_eval = main_route_eq st_selectbox_def route_def nav_labels_def show_page_def ui_simps drawn_def
  show_analysis_page_def analysis_defaults_def analysis_body_def analysis_handler_def analysis_request_def
  show_history_page_def history_defaults_def history_body_def history_handler_def history_details_def
  session_backend_def history_request_def start_date_def days_back_of_def page_size_of_def when_key_def

lemma run_once_quiet:
  assumes "ss_initialized (w_session (u_world s))" and "\<not> r_refresh inp"
  shows "run_once ok b q inp s =
           Some (let es = PageConfig ''Stock analysis system'' ''wide'' #
                          fst (main (w_session (u_world s)) b (inp\<lparr>r_qid := q (u_runs s)\<rparr>))
                 in \<lparr>u_world = u_world s, u_input = widget_gc es (clear_buttons inp), u_shown = es,
                     u_runs = Suc (u_runs s), u_log = u_log s @ map (Pair (u_runs s)) (calls es)\<rparr>)"
proof -
  let ?i = "inp\<lparr>r_qid := q (u_runs s)\<rparr>"
  have "snd (snd (script_run ok b ?i (u_world s))) \<noteq> Inl RerunRequest"
    using assms(2) by (intro script_run_no_rerun) simp
  with assms(1) show ?thesis
    by (simp add: run_once_def serve_unfold [of ok b ?i] script_run_initialized Let_def)
qed

lemmas step_eval = user_step_def enabled_def run_once_quiet widget_gc_def clear_buttons_def default_input_def

lemma start_init:
  "init_session (\<lambda>_. True) fresh_world = (\<lparr>w_session = demo_session, w_made = 5\<rparr>, Inr ())"
  by (simp add: init_session_def fresh_world_def session_ctors_def demo_session_def)

lemma start_eval:
  "ui_start (\<lambda>_. True) b q d =
     Some (let es = PageConfig ''Stock analysis system'' ''wide'' #
                    fst (main demo_session b ((default_input d)\<lparr>r_qid := q 0\<rparr>))
           in \<lparr>u_world = \<lparr>w_session = demo_session, w_made = 5\<rparr>,
               u_input = widget_gc es (clear_buttons (default_input d)), u_shown = es,
               u_runs = 1, u_log = map (Pair 0) (calls es)\<rparr>)"
  using main_no_rerun [of "(default_input d)\<lparr>r_qid := q 0\<rparr>" demo_session b]
  unfolding ui_start_def run_once_def
  by (subst serve_unfold) (simp add: script_run_def start_init no_rerun_def default_input_def Let_def)

lemma demo_analysis_log:
  "ui_start (\<lambda>_. True) (\<lambda>_. Inr PNone) demo_qids 0 = Some s0 \<Longrightarrow>
  user_step (\<lambda>_. True) (\<lambda>_. Inr PNone) demo_qids (TypeAnalysisCode [54]) s0 = Some s1 \<Longrightarrow>
  user_step (\<lambda>_. True) (\<lambda>_. Inr PNone) demo_qids ClickAnalyze s1 = Some s2 \<Longrightarrow>
  (\<exists>c. (2, c) \<in> set (u_log s2) \<and> analysis_qid c = Some (demo_qids 2))"
  by (clarsimp simp: start_eval) (clarsimp simp: page_eval step_eval demo_session_def numeral_2_eq_2)

lemma demo_record_shown:
  "ui_start (\<lambda>_. True) demo_record_backend demo_qids 0 = Some s0 \<Longrightarrow>
  user_step (\<lambda>_. True) demo_record_backend demo_qids (Navigate 1) s0 = Some s1 \<Longrightarrow>
  user_step (\<lambda>_. True) demo_record_backend demo_qids ClickHistoryQuery s1 = Some s2 \<Longrightarrow>
  drawn ''Select record'' (u_shown s2)"
  by (clarsimp simp: start_eval) (clarsimp simp: page_eval step_eval demo_session_def demo_record_backend_def py_def
     history_has_items_def py_then_def py_getitem_def py_get_def history_row_def record_label_def)


lemma demo_qids_inj: "inj demo_qids"
  by (rule injI) (metis demo_qids_def length_replicate)

lemma ui_start_some: "\<exists>s. ui_start ok b q d = Some s"
  unfolding ui_start_def by (rule run_once_some)

lemma demo_analysis_reach:
  "\<exists>s. ui_reach (\<lambda>_. True) (\<lambda>_. Inr PNone) demo_qids 0 s \<and>
       (\<exists>c. (2, c) \<in> set (u_log s) \<and> analysis_qid c = Some (demo_qids 2))"
proof -
  obtain s0 s1 s2 where
    0: "ui_start (\<lambda>_. True) (\<lambda>_. Inr PNone) demo_qids 0 = Some s0" and
    1: "user_step (\<lambda>_. True) (\<lambda>_. Inr PNone) demo_qids (TypeAnalysisCode [54]) s0 = Some s1" and
    2: "user_step (\<lambda>_. True) (\<lambda>_. Inr PNone) demo_qids ClickAnalyze s1 = Some s2"
    using ui_start_some user_step_some by metis
  have "ui_reach (\<lambda>_. True) (\<lambda>_. Inr PNone) demo_qids 0 s2"
    by (rule ui_reach.step [OF ui_reach.step [OF ui_reach.start [OF 0] 1] 2])
  with demo_analysis_log [OF 0 1 2] show ?thesis by blast
qed

lemma demo_record_reach:
  "\<exists>s. ui_reach (\<lambda>_. True) demo_record_backend demo_qids 0 s \<and> drawn ''Select record'' (u_shown s)"
proof -
  obtain s0 s1 s2 where
    0: "ui_start (\<lambda>_. True) demo_record_backend demo_qids 0 = Some s0" and
    1: "user_step (\<lambda>_. True) demo_record_backend demo_qids (Navigate 1) s0 = Some s1" and
    2: "user_step (\<lambda>_. True) demo_record_backend demo_qids ClickHistoryQuery s1 = Some s2"
    using ui_start_some user_step_some by metis
  have "ui_reach (\<lambda>_. True) demo_record_backend demo_qids 0 s2"
    by (rule ui_reach.step [OF ui_reach.step [OF ui_reach.start [OF 0] 1] 2])
  with demo_record_shown [OF 0 1 2] show ?thesis by blast
qed

lemma main_draws_nav: "Widget ''Navigation'' \<in> set (fst (main s b inp))"
  by (simp add: main_def ui_simps split: option.splits)

lemma analysis_page_draws: "Widget ''Start analysis'' \<in> set (fst (show_analysis_page b a qid))"
  by (simp add: show_analysis_page_def ui_simps)

lemma analysis_request_sent:
  "a_clicked a \<Longrightarrow> a_stock_code a \<noteq> [] \<Longrightarrow> analysis_request a qid \<in> set (calls (fst (show_analysis_page b a qid)))"
  by (auto simp: show_analysis_page_def ui_simps analysis_body_calls ui_try_def split: sum.splits)

lemma serve_initialized:
  assumes "ss_initialized (w_session w)" and "serve ok b inp w = Some (w', es, r)"
  shows "w' = w \<and> (\<exists>inp'. (inp' = inp \<or> inp' = clear_buttons inp) \<and>
                    es = PageConfig ''Stock analysis system'' ''wide'' # fst (main (w_session w) b inp'))"
proof (cases "snd (main (w_session w) b inp) = Inl RerunRequest")
  case False
  with assms show ?thesis by (subst (asm) serve_unfold) (auto simp: script_run_initialized)
next
  case True
  have "snd (snd (script_run ok b (clear_buttons inp) w)) \<noteq> Inl RerunRequest"
    by (rule script_run_no_rerun) (simp add: clear_buttons_def)
  with True assms show ?thesis
    by (subst (asm) serve_unfold, subst (asm) serve_unfold) (auto simp: script_run_initialized)
qed

lemma reach_demo_world:
  "ui_reach (\<lambda>_. True) b q d s \<Longrightarrow>
   u_world s = \<lparr>w_session = demo_session, w_made = 5\<rparr> \<and> drawn ''Navigation'' (u_shown s)"
proof (induction rule: ui_reach.induct)
  case (start s)
  then show ?case by (auto simp: start_eval Let_def drawn_def main_draws_nav)
next
  case (step s a s')
  show ?case
  proof (cases "enabled a (u_shown s)")
    case True
    with step.hyps(2) obtain w' es r where
      sv: "serve (\<lambda>_. True) b ((apply_action a (u_input s))\<lparr>r_qid := q (u_runs s)\<rparr>) (u_world s) = Some (w', es, r)"
      and s': "u_world s' = w'" "u_shown s' = es"
      by (auto simp: user_step_def enabled_def run_once_def split: option.splits)
    from step.IH have "ss_initialized (w_session (u_world s))" by (simp add: demo_session_def)
    from serve_initialized [OF this sv] step.IH s' show ?thesis
      by (auto simp: drawn_def main_draws_nav)
  next
    case False
    with step show ?thesis by (simp add: user_step_def enabled_def)
  qed
qed

lemma run_analysis_page:
  assumes "u_world s = \<lparr>w_session = demo_session, w_made = 5\<rparr>" and "r_nav inp = Some 0" and "\<not> r_refresh inp"
  shows "\<exists>s'. run_once ok b q inp s = Some s' \<and> u_world s' = u_world s \<and>
           drawn ''Start analysis'' (u_shown s') \<and> r_nav (u_input s') = Some 0 \<and>
           r_analysis (u_input s') = (r_analysis inp)\<lparr>a_clicked := False\<rparr> \<and> \<not> r_refresh (u_input s') \<and>
           u_runs s' = Suc (u_runs s) \<and>
           u_log s' = u_log s @ map (Pair (u_runs s))
             (calls (fst (show_analysis_page (session_backend demo_session b) (r_analysis inp) (q (u_runs s)))))"
proof -
  have r: "route (st_selectbox nav_labels 0 (r_nav inp)) = Some AnalysisPage"
    using assms(2) by (simp add: st_selectbox_def route_def nav_labels_def)
  have m: "main demo_session b (inp\<lparr>r_qid := q (u_runs s)\<rparr>) =
     ([SideRender (Title [Lit ''Stock analysis system'']), SideRender (Markdown [Lit ''---'']),
       Widget ''Navigation'', SideRender (Markdown [Lit ''---'']),
       SideRender (Markdown [Lit ''### System info'']),
       SideRender (Alert Info [Lit ''Run mode: Streamlit Web UI''])] @
      fst (show_analysis_page (session_backend demo_session b) (r_analysis inp) (q (u_runs s))),
      snd (show_analysis_page (session_backend demo_session b) (r_analysis inp) (q (u_runs s))))"
    using main_route_eq [of demo_session "inp\<lparr>r_qid := q (u_runs s)\<rparr>" AnalysisPage b] r
    by (simp add: demo_session_def show_page_def)
  have "ss_initialized (w_session (u_world s))" using assms(1) by (simp add: demo_session_def)
  with assms m analysis_page_draws show ?thesis
    by (simp add: run_once_quiet widget_gc_def clear_buttons_def drawn_def Let_def)
qed

lemma main_no_config:
  "ss_config s = None \<Longrightarrow>
   main s b inp = ([SideRender (Title [Lit ''Stock analysis system'']), SideRender (Markdown [Lit ''---'']),
                    Widget ''Navigation'', SideRender (Markdown [Lit ''---'']),
                    SideRender (Markdown [Lit ''### System info''])], Inl AttributeError)"
  by (simp add: main_def ui_simps)

lemma start_no_config:
  "\<not> ok GetConfigC \<Longrightarrow> ui_start ok b q d = Some s \<Longrightarrow>
   ss_initialized (w_session (u_world s)) \<and> ss_config (w_session (u_world s)) = None \<and>
   u_shown s = [PageConfig ''Stock analysis system'' ''wide''] \<and> u_log s = []"
  unfolding ui_start_def run_once_def
  by (subst (asm) serve_unfold)
     (auto simp: script_run_def init_session_def fresh_world_def session_ctors_def)

lemma run_trace_routed:
  assumes "\<And>b' p. route (st_selectbox nav_labels 0 (r_nav inp)) = Some p \<Longrightarrow> trace_all P (show_page b' inp p)"
    and "P (Widget ''Navigation'')" and "\<And>e. P (SideRender e)" and "\<And>t l. P (PageConfig t l)"
  shows "trace_all P (snd (script_run ok b inp w))"
proof -
  have "trace_all P (main s b inp)" for s
    using assms(1) [where b'="session_backend s b"]
    by (auto simp: main_def ui_simps assms(2,3) trace_all_def ui_lift_def ui_ret_def split: option.splits)
  then show ?thesis
    using assms(4) by (auto simp: script_run_def page_config_def ui_simps trace_all_def split: prod.splits sum.splits)
qed

lemma pages_markers:
  "p \<noteq> AnalysisPage \<Longrightarrow> trace_all (\<lambda>ev. ev \<noteq> Widget ''Start analysis'') (show_page b inp p)"
  "p \<noteq> HistoryPage \<Longrightarrow> trace_all (\<lambda>ev. ev \<noteq> Widget ''Query'' \<and> ev \<noteq> Widget ''Select record'') (show_page b inp p)"
  "p \<noteq> QuotePage \<Longrightarrow>
   trace_all (\<lambda>ev. ev \<noteq> Widget ''Query quote'' \<and> ev \<noteq> Widget ''Show K-line history'') (show_page b inp p)"
  unfolding page_defs
  by (cases p; simp; (intro ui_intros conjI impI allI | simp split: pyval.splits prod.splits)+)+

lemma script_run_widget_nav:
  "Widget v \<in> set (fst (snd (script_run ok b i w))) \<Longrightarrow> Widget ''Navigation'' \<in> set (fst (snd (script_run ok b i w)))"
  by (auto simp: script_run_def main_draws_nav split: prod.splits sum.splits)

lemma run_page_markers:
  assumes "es = fst (snd (script_run ok b i w))"
  shows "drawn ''Start analysis'' es \<Longrightarrow> route (st_selectbox nav_labels 0 (r_nav i)) = Some AnalysisPage"
    and "drawn ''Query'' es \<or> drawn ''Select record'' es \<Longrightarrow> route (st_selectbox nav_labels 0 (r_nav i)) = Some HistoryPage"
    and "drawn ''Query quote'' es \<or> drawn ''Show K-line history'' es \<Longrightarrow>
         route (st_selectbox nav_labels 0 (r_nav i)) = Some QuotePage"
proof -
  let ?r = "route (st_selectbox nav_labels 0 (r_nav i))"
  show "drawn ''Start analysis'' es \<Longrightarrow> ?r = Some AnalysisPage"
  proof (rule ccontr)
    assume "drawn ''Start analysis'' es" "?r \<noteq> Some AnalysisPage"
    moreover have "trace_all (\<lambda>ev. ev \<noteq> Widget ''Start analysis'') (snd (script_run ok b i w))"
      using calculation(2) by (intro run_trace_routed pages_markers(1)) auto
    ultimately show False using assms by (auto simp: trace_all_def drawn_def list_all_iff)
  qed
  show "drawn ''Query'' es \<or> drawn ''Select record'' es \<Longrightarrow> ?r = Some HistoryPage"
  proof (rule ccontr)
    assume "drawn ''Query'' es \<or> drawn ''Select record'' es" "?r \<noteq> Some HistoryPage"
    moreover have "trace_all (\<lambda>ev. ev \<noteq> Widget ''Query'' \<and> ev \<noteq> Widget ''Select record'') (snd (script_run ok b i w))"
      using calculation(2) by (intro run_trace_routed pages_markers(2)) auto
    ultimately show False using assms by (auto simp: trace_all_def drawn_def list_all_iff)
  qed
  show "drawn ''Query quote'' es \<or> drawn ''Show K-line history'' es \<Longrightarrow> ?r = Some QuotePage"
  proof (rule ccontr)
    assume "drawn ''Query quote'' es \<or> drawn ''Show K-line history'' es" "?r \<noteq> Some QuotePage"
    moreover have "trace_all (\<lambda>ev. ev \<noteq> Widget ''Query quote'' \<and> ev \<noteq> Widget ''Show K-line history'') (snd (script_run ok b i w))"
      using calculation(2) by (intro run_trace_routed pages_markers(3)) auto
    ultimately show False using assms by (auto simp: trace_all_def drawn_def list_all_iff)
  qed
qed


lemma widget_gc_resets:
  "\<not> drawn ''Start analysis'' es \<Longrightarrow> r_analysis (widget_gc es i) = analysis_defaults"
  "\<not> drawn ''Query'' es \<Longrightarrow> \<not> drawn ''Select record'' es \<Longrightarrow> r_history (widget_gc es i) = history_defaults"
  "\<not> drawn ''Query quote'' es \<Longrightarrow> \<not> drawn ''Show K-line history'' es \<Longrightarrow> r_quote (widget_gc es i) = quote_defaults"
  by (simp_all add: widget_gc_def history_defaults_def quote_defaults_def Let_def)

lemma run_once_resets:
  assumes "run_once ok b q inp s = Some s'"
  shows "(route (st_selectbox nav_labels 0 (r_nav (u_input s'))) \<noteq> Some AnalysisPage \<longrightarrow>
            r_analysis (u_input s') = analysis_defaults) \<and>
         (route (st_selectbox nav_labels 0 (r_nav (u_input s'))) \<noteq> Some HistoryPage \<longrightarrow>
            r_history (u_input s') = history_defaults) \<and>
         (route (st_selectbox nav_labels 0 (r_nav (u_input s'))) \<noteq> Some QuotePage \<longrightarrow>
            r_quote (u_input s') = quote_defaults)"
proof -
  let ?i = "inp\<lparr>r_qid := q (u_runs s)\<rparr>"
  obtain w' es r where sv: "serve ok b ?i (u_world s) = Some (w', es, r)"
    and s': "u_input s' = widget_gc es (clear_buttons inp)"
    using assms by (auto simp: run_once_def split: option.splits)
  obtain i' w0 where i': "i' = ?i \<or> i' = clear_buttons ?i" and sr: "script_run ok b i' w0 = (w', es, r)"
    using serve_cases [OF sv] by blast
  have es: "es = fst (snd (script_run ok b i' w0))" using sr by simp
  have nav: "r_nav i' = r_nav inp" using i' by (auto simp: clear_buttons_def)
  show ?thesis
  proof (cases "drawn ''Navigation'' es")
    case True
    then have "r_nav (u_input s') = r_nav inp" by (simp add: s' widget_gc_def clear_buttons_def)
    with run_page_markers [OF es] nav show ?thesis
      unfolding s' by (intro conjI impI) (auto intro!: widget_gc_resets)
  next
    case False
    then have "\<not> drawn w es" for w using script_run_widget_nav [of w ok b i' w0] es by (auto simp: drawn_def)
    then show ?thesis by (simp add: s' widget_gc_resets)
  qed
qed

lemma demo_nav_chain:
  "ui_start (\<lambda>_. True) (\<lambda>_. Inr PNone) demo_qids 0 = Some s0 \<Longrightarrow>
   user_step (\<lambda>_. True) (\<lambda>_. Inr PNone) demo_qids (TypeAnalysisCode [54]) s0 = Some s1 \<Longrightarrow>
   user_step (\<lambda>_. True) (\<lambda>_. Inr PNone) demo_qids (Navigate 1) s1 = Some s2 \<Longrightarrow>
   a_stock_code (r_analysis (u_input s1)) = [54] \<and>
   route (st_selectbox nav_labels 0 (r_nav (u_input s2))) = Some HistoryPage"
  by (clarsimp simp: start_eval) (clarsimp simp: page_eval step_eval demo_session_def)

subsection \<open>The widget life cycle of a session\<close>

text \<open>C11. In every state a browser session can reach, every button is released, the record select box holds no choice and the K-line check box is off: Streamlit forgets the value of a widget that a run does not draw, and these two are drawn only in the run a button click triggers.\<close>

theorem ui_widget_invariant:
  "ui_reach ok b q d s \<Longrightarrow>
   h_selected (r_history (u_input s)) = None \<and> \<not> q_show_history (r_quote (u_input s)) \<and>
   \<not> a_clicked (r_analysis (u_input s)) \<and> \<not> h_clicked (r_history (u_input s)) \<and>
   \<not> q_clicked (r_quote (u_input s)) \<and> \<not> r_refresh (u_input s)"
  by (drule ui_reach_inv) (simp add: ui_inv_def)

text \<open>C12. No reachable session ever requests the K-line history (get_history_data): the check box that asks for it is drawn only in the run the quote button triggers, and ticking it triggers a run in which the button is released, so the box and the branch that calls the service are gone.\<close>

theorem kline_never_fetched:
  "ui_reach ok b q d s \<Longrightarrow> \<not> list_ex (\<lambda>(n, c). kline_call (Call c)) (u_log s)"
  by (drule ui_reach_inv) (auto simp: ui_inv_def list_all_iff list_ex_iff)

text \<open>C14. With a query id supply that never repeats, no analysis query id appears in the requests of two different runs of a session: each run draws a fresh uuid and the page sends the id of its own run.\<close>

theorem query_ids_fresh:
  assumes "inj q" and "ui_reach ok b q d s"
    and "(n, c) \<in> set (u_log s)" and "(m, c') \<in> set (u_log s)"
    and "analysis_qid c = Some x" and "analysis_qid c' = Some x"
  shows "n = m"
proof -
  from assms(2) have "ui_inv q s" by (rule ui_reach_inv)
  with assms(3-6) have "q n = x" "q m = x" by (auto simp: ui_inv_def list_all_iff)
  with assms(1) show ?thesis by (auto dest: injD)
qed

text \<open>C13. Choosing a record in the history select box triggers a run with the query button released, so that run draws neither the select box nor the chosen report, and the choice is forgotten.\<close>

theorem record_choice_lost:
  "ui_reach ok b q d s \<Longrightarrow> user_step ok b q (ChooseRecord i) s = Some s' \<Longrightarrow>
   \<not> drawn ''Select record'' (u_shown s') \<and> h_selected (r_history (u_input s')) = None"
proof -
  assume r: "ui_reach ok b q d s" and st: "user_step ok b q (ChooseRecord i) s = Some s'"
  from r st have "ui_reach ok b q d s'" by (rule ui_reach.step)
  then have sel: "h_selected (r_history (u_input s')) = None" by (simp add: ui_reach_inv [THEN ui_inv_def [THEN iffD1]])
  show ?thesis
  proof (cases "drawn ''Select record'' (u_shown s)")
    case False
    with st show ?thesis using sel by (simp add: user_step_def enabled_def)
  next
    case True
    from r have i: "\<not> h_clicked (r_history (u_input s))" by (simp add: ui_reach_inv [THEN ui_inv_def [THEN iffD1]])
    from True st have ro: "run_once ok b q (apply_action (ChooseRecord i) (u_input s)) s = Some s'"
      by (simp add: user_step_def enabled_def)
    let ?i = "(apply_action (ChooseRecord i) (u_input s))\<lparr>r_qid := q (u_runs s)\<rparr>"
    obtain w' es r' where sv: "serve ok b ?i (u_world s) = Some (w', es, r')" and sh: "u_shown s' = es"
      using ro by (auto simp: run_once_def split: option.splits)
    obtain i' w0 where i': "i' = ?i \<or> i' = clear_buttons ?i" and sr: "script_run ok b i' w0 = (w', es, r')"
      using serve_cases [OF sv] by blast
    have "\<not> h_clicked (r_history i')" using i' i by (auto simp: clear_buttons_def)
    then have "\<not> drawn ''Select record'' (fst (snd (script_run ok b i' w0)))"
      by (intro not_drawn_trace_all run_trace_all pages_interaction(1)) simp_all
    with sr sh sel show ?thesis by simp
  qed
qed

text \<open>C15. From every state of a session whose initialisation succeeded, the user can always
  have a stock analysed: choosing the analysis page, typing a non-empty code and clicking the
  button makes three runs, the last of which sends the analysis request for that code with the
  query id of its run.\<close>

theorem analysis_always_reachable:
  assumes reach: "ui_reach (\<lambda>_. True) b q d s" and code: "c \<noteq> []"
  shows "\<exists>s1 s2 s3. user_step (\<lambda>_. True) b q (Navigate 0) s = Some s1 \<and>
           user_step (\<lambda>_. True) b q (TypeAnalysisCode c) s1 = Some s2 \<and>
           user_step (\<lambda>_. True) b q ClickAnalyze s2 = Some s3 \<and>
           (\<exists>rt fr n. (u_runs s2, AnalyzeStock (py_strip c) rt fr (q (u_runs s2)) n) \<in> set (u_log s3))"
proof -
  have w: "u_world s = \<lparr>w_session = demo_session, w_made = 5\<rparr>" and nav: "drawn ''Navigation'' (u_shown s)"
    using reach_demo_world [OF reach] by simp_all
  have rf: "\<not> r_refresh (u_input s)" using ui_reach_inv [OF reach] by (simp add: ui_inv_def)
  obtain s1 where r1: "run_once (\<lambda>_. True) b q (apply_action (Navigate 0) (u_input s)) s = Some s1"
    and w1: "u_world s1 = u_world s" and d1: "drawn ''Start analysis'' (u_shown s1)"
    and n1: "r_nav (u_input s1) = Some 0" and f1: "\<not> r_refresh (u_input s1)"
    using run_analysis_page [where ok="\<lambda>_. True" and b=b and q=q, of s "apply_action (Navigate 0) (u_input s)"] w rf by auto
  obtain s2 where r2: "run_once (\<lambda>_. True) b q (apply_action (TypeAnalysisCode c) (u_input s1)) s1 = Some s2"
    and w2: "u_world s2 = u_world s" and d2: "drawn ''Start analysis'' (u_shown s2)"
    and n2: "r_nav (u_input s2) = Some 0" and f2: "\<not> r_refresh (u_input s2)"
    and a2: "r_analysis (u_input s2) = (r_analysis (u_input s1))\<lparr>a_stock_code := c, a_clicked := False\<rparr>"
    using run_analysis_page [where ok="\<lambda>_. True" and b=b and q=q, of s1 "apply_action (TypeAnalysisCode c) (u_input s1)"] w w1 n1 f1 by auto
  let ?a = "(r_analysis (u_input s1))\<lparr>a_stock_code := c, a_clicked := True\<rparr>"
  obtain s3 where r3: "run_once (\<lambda>_. True) b q (apply_action ClickAnalyze (u_input s2)) s2 = Some s3"
    and l3: "u_log s3 = u_log s2 @ map (Pair (u_runs s2))
               (calls (fst (show_analysis_page (session_backend demo_session b) ?a (q (u_runs s2)))))"
    using run_analysis_page [where ok="\<lambda>_. True" and b=b and q=q, of s2 "apply_action ClickAnalyze (u_input s2)"] w w2 n2 f2 a2 by auto
  have "analysis_request ?a (q (u_runs s2)) \<in> set (calls (fst (show_analysis_page (session_backend demo_session b) ?a (q (u_runs s2)))))"
    using code by (intro analysis_request_sent) simp_all
  then have "(u_runs s2, analysis_request ?a (q (u_runs s2))) \<in> set (u_log s3)" by (simp add: l3)
  then show ?thesis
    using nav d1 d2 r1 r2 r3 by (auto simp: user_step_def enabled_def analysis_request_def)
qed

text \<open>C16. A session whose get_config() raises in the first run stays initialised without a
  configuration: whatever the user does afterwards, including Streamlit's Rerun, no service
  is ever called and no widget other than the navigation is ever drawn.\<close>

theorem config_failure_silent:
  "ui_reach ok b q d s \<Longrightarrow> \<not> ok GetConfigC \<Longrightarrow>
   ss_initialized (w_session (u_world s)) \<and> ss_config (w_session (u_world s)) = None \<and>
   u_log s = [] \<and> (\<forall>w. drawn w (u_shown s) \<longrightarrow> w = ''Navigation'')"
proof (induction rule: ui_reach.induct)
  case (start s)
  then show ?case by (auto dest: start_no_config simp: drawn_def)
next
  case (step s a s')
  show ?case
  proof (cases "enabled a (u_shown s)")
    case True
    with step.prems step.hyps(2) step.IH obtain w' es r where
      sv: "serve ok b ((apply_action a (u_input s))\<lparr>r_qid := q (u_runs s)\<rparr>) (u_world s) = Some (w', es, r)"
      and s': "u_world s' = w'" "u_shown s' = es" "u_log s' = u_log s @ map (Pair (u_runs s)) (calls es)"
      by (auto simp: user_step_def enabled_def run_once_def split: option.splits)
    from step.prems step.IH have "ss_initialized (w_session (u_world s))" by simp
    from serve_initialized [OF this sv] step.prems step.IH s' show ?thesis
      by (auto simp: drawn_def main_no_config)
  next
    case False
    with step show ?thesis by (simp add: user_step_def enabled_def)
  qed
qed

text \<open>C17. In every reachable state the widgets of every page other than the selected one hold
  their defaults: Streamlit draws only the selected page, so leaving a page forgets what was
  typed and chosen on it.\<close>

theorem other_pages_reset:
  "ui_reach ok b q d s \<Longrightarrow>
   (route (st_selectbox nav_labels 0 (r_nav (u_input s))) \<noteq> Some AnalysisPage \<longrightarrow>
      r_analysis (u_input s) = analysis_defaults) \<and>
   (route (st_selectbox nav_labels 0 (r_nav (u_input s))) \<noteq> Some HistoryPage \<longrightarrow>
      r_history (u_input s) = history_defaults) \<and>
   (route (st_selectbox nav_labels 0 (r_nav (u_input s))) \<noteq> Some QuotePage \<longrightarrow>
      r_quote (u_input s) = quote_defaults)"
proof (induction rule: ui_reach.induct)
  case (start s)
  then show ?case unfolding ui_start_def by (rule run_once_resets)
next
  case (step s a s')
  show ?case
  proof (cases "enabled a (u_shown s)")
    case True
    with step.hyps(2) have "run_once ok b q (apply_action a (u_input s)) s = Some s'" by (simp add: user_step_def)
    then show ?thesis by (rule run_once_resets)
  next
    case False
    with step show ?thesis by (simp add: user_step_def)
  qed
qed

theorem ui_widget_invariant_witness:
  "\<exists>s. ui_reach (\<lambda>_. True) (\<lambda>_. Inr PNone) demo_qids 0 s \<and>
       (\<exists>c. (2, c) \<in> set (u_log s) \<and> analysis_qid c = Some (demo_qids 2)) \<and>
       h_selected (r_history (u_input s)) = None \<and> \<not> q_show_history (r_quote (u_input s)) \<and>
       \<not> a_clicked (r_analysis (u_input s)) \<and> \<not> h_clicked (r_history (u_input s)) \<and>
       \<not> q_clicked (r_quote (u_input s)) \<and> \<not> r_refresh (u_input s)"
  using demo_analysis_reach ui_widget_invariant by blast

theorem kline_never_fetched_witness:
  "\<exists>s. ui_reach (\<lambda>_. True) (\<lambda>_. Inr PNone) demo_qids 0 s \<and> u_log s \<noteq> [] \<and>
       \<not> list_ex (\<lambda>(n, c). kline_call (Call c)) (u_log s)"
  using demo_analysis_reach kline_never_fetched by fastforce

theorem query_ids_fresh_witness:
  "inj demo_qids \<and>
   (\<exists>s c. ui_reach (\<lambda>_. True) (\<lambda>_. Inr PNone) demo_qids 0 s \<and> (2, c) \<in> set (u_log s) \<and>
          analysis_qid c = Some (demo_qids 2) \<and>
          (\<forall>m c'. (m, c') \<in> set (u_log s) \<and> analysis_qid c' = Some (demo_qids 2) \<longrightarrow> m = 2))"
  using demo_qids_inj demo_analysis_reach query_ids_fresh [of demo_qids "\<lambda>_. True" "\<lambda>_. Inr PNone" 0]
  by blast

theorem record_choice_lost_witness:
  "\<exists>s s'. ui_reach (\<lambda>_. True) demo_record_backend demo_qids 0 s \<and> drawn ''Select record'' (u_shown s) \<and>
          user_step (\<lambda>_. True) demo_record_backend demo_qids (ChooseRecord 0) s = Some s' \<and>
          \<not> drawn ''Select record'' (u_shown s') \<and> h_selected (r_history (u_input s')) = None"
proof -
  obtain s where r: "ui_reach (\<lambda>_. True) demo_record_backend demo_qids 0 s" and d: "drawn ''Select record'' (u_shown s)"
    using demo_record_reach by blast
  obtain s' where st: "user_step (\<lambda>_. True) demo_record_backend demo_qids (ChooseRecord 0) s = Some s'"
    using user_step_some by blast
  show ?thesis using r d st record_choice_lost [OF r st] by blast
qed

theorem analysis_always_reachable_witness:
  "\<exists>s. ui_reach (\<lambda>_. True) (\<lambda>_. Inr PNone) demo_qids 0 s \<and> [54] \<noteq> [] \<and>
       (\<exists>s1 s2 s3. user_step (\<lambda>_. True) (\<lambda>_. Inr PNone) demo_qids (Navigate 0) s = Some s1 \<and>
          user_step (\<lambda>_. True) (\<lambda>_. Inr PNone) demo_qids (TypeAnalysisCode [54]) s1 = Some s2 \<and>
          user_step (\<lambda>_. True) (\<lambda>_. Inr PNone) demo_qids ClickAnalyze s2 = Some s3 \<and>
          (\<exists>rt fr n. (u_runs s2, AnalyzeStock (py_strip [54]) rt fr (demo_qids (u_runs s2)) n) \<in> set (u_log s3)))"
proof -
  obtain s where "ui_start (\<lambda>_. True) (\<lambda>_. Inr PNone) demo_qids 0 = Some s" using ui_start_some by blast
  then have r: "ui_reach (\<lambda>_. True) (\<lambda>_. Inr PNone) demo_qids 0 s" by (rule ui_reach.start)
  show ?thesis using r analysis_always_reachable [OF r, of "[54]"] by blast
qed

theorem other_pages_reset_witness:
  "\<exists>s1 s2. ui_reach (\<lambda>_. True) (\<lambda>_. Inr PNone) demo_qids 0 s1 \<and> a_stock_code (r_analysis (u_input s1)) = [54] \<and>
     user_step (\<lambda>_. True) (\<lambda>_. Inr PNone) demo_qids (Navigate 1) s1 = Some s2 \<and>
     ui_reach (\<lambda>_. True) (\<lambda>_. Inr PNone) demo_qids 0 s2 \<and>
     route (st_selectbox nav_labels 0 (r_nav (u_input s2))) = Some HistoryPage \<and>
     r_analysis (u_input s2) = analysis_defaults \<and> r_quote (u_input s2) = quote_defaults"
proof -
  obtain s0 s1 s2 where
    0: "ui_start (\<lambda>_. True) (\<lambda>_. Inr PNone) demo_qids 0 = Some s0" and
    1: "user_step (\<lambda>_. True) (\<lambda>_. Inr PNone) demo_qids (TypeAnalysisCode [54]) s0 = Some s1" and
    2: "user_step (\<lambda>_. True) (\<lambda>_. Inr PNone) demo_qids (Navigate 1) s1 = Some s2"
    using ui_start_some user_step_some by metis
  have r1: "ui_reach (\<lambda>_. True) (\<lambda>_. Inr PNone) demo_qids 0 s1"
    by (rule ui_reach.step [OF ui_reach.start [OF 0] 1])
  have r2: "ui_reach (\<lambda>_. True) (\<lambda>_. Inr PNone) demo_qids 0 s2" by (rule ui_reach.step [OF r1 2])
  show ?thesis using r1 r2 2 demo_nav_chain [OF 0 1 2] other_pages_reset [OF r2] by auto
qed

theorem config_failure_silent_witness:
  "\<exists>s0 s1. ui_start (\<lambda>c. c \<noteq> GetConfigC) (\<lambda>_. Inr PNone) demo_qids 0 = Some s0 \<and>
     user_step (\<lambda>c. c \<noteq> GetConfigC) (\<lambda>_. Inr PNone) demo_qids Rerun s0 = Some s1 \<and>
     ui_reach (\<lambda>c. c \<noteq> GetConfigC) (\<lambda>_. Inr PNone) demo_qids 0 s1 \<and>
     ss_initialized (w_session (u_world s1)) \<and> ss_config (w_session (u_world s1)) = None \<and>
     u_log s1 = [] \<and> (\<forall>w. drawn w (u_shown s1) \<longrightarrow> w = ''Navigation'')"
proof -
  obtain s0 s1 where
    0: "ui_start (\<lambda>c. c \<noteq> GetConfigC) (\<lambda>_. Inr PNone) demo_qids 0 = Some s0" and
    1: "user_step (\<lambda>c. c \<noteq> GetConfigC) (\<lambda>_. Inr PNone) demo_qids Rerun s0 = Some s1"
    using ui_start_some user_step_some by metis
  have r: "ui_reach (\<lambda>c. c \<noteq> GetConfigC) (\<lambda>_. Inr PNone) demo_qids 0 s1"
    by (rule ui_reach.step [OF ui_reach.start [OF 0] 1])
  show ?thesis using 0 1 r config_failure_silent [OF r] by auto
qed

end
