(* ===== verification/Env_Proxy.thy ===== *)
theory Env_Proxy
  imports Py_Prelude
begin

text \<open>The proxy configuration of the module code of \<^verbatim>\<open>src/streamlit_app.py\<close>
  (lines 25--33): outside GitHub Actions, \<open>USE_PROXY=true\<close> (in any case) sets
  \<open>http_proxy\<close> and \<open>https_proxy\<close> to a URL built from \<open>PROXY_HOST\<close> and
  \<open>PROXY_PORT\<close>. The process environment is a map from names to values; the code runs
  on every rerun of the script, so its idempotence matters.\<close>

section \<open>The proxy setup\<close>

text \<open>The process environment, variable name to value.\<close>

type_synonym env = "pystr \<Rightarrow> pystr option"

definition getenv :: "env \<Rightarrow> pystr \<Rightarrow> pystr \<Rightarrow> pystr" where
  "getenv e k d = (case e k of Some v \<Rightarrow> v | None \<Rightarrow> d)"

text \<open>Lines 27--33.\<close>

definition setup_proxy :: "env \<Rightarrow> env" where
  "setup_proxy e =
     (if e (py ''GITHUB_ACTIONS'') \<noteq> Some (py ''true'') \<and>
         py_lower (getenv e (py ''USE_PROXY'') (py ''false'')) = py ''true'' then
        (let url = py ''http://'' @ getenv e (py ''PROXY_HOST'') (py ''127.0.0.1'') @ py '':'' @
                   getenv e (py ''PROXY_PORT'') (py ''10809'')
         in e(py ''http_proxy'' \<mapsto> url, py ''https_proxy'' \<mapsto> url))
      else e)"

text \<open>A process environment with the proxy enabled by \<open>USE_PROXY=True\<close> and a proxy host
  set, outside GitHub Actions.\<close>

definition demo_env :: env where
  "demo_env k =
     (if k = py ''USE_PROXY'' then Some (py ''True'')
      else if k = py ''PROXY_HOST'' then Some (py ''10.0.0.2'') else None)"

section \<open>Properties\<close>

lemma setup_proxy_github:
  "e (py ''GITHUB_ACTIONS'') = Some (py ''true'') \<Longrightarrow> setup_proxy e = e"
  by (simp add: setup_proxy_def)

lemma setup_proxy_other_vars:
  "k \<noteq> py ''http_proxy'' \<Longrightarrow> k \<noteq> py ''https_proxy'' \<Longrightarrow> setup_proxy e k = e k"
  by (simp add: setup_proxy_def Let_def)

lemma setup_proxy_defaults:
  "e (py ''GITHUB_ACTIONS'') = None \<Longrightarrow> e (py ''USE_PROXY'') = Some (py ''TRUE'') \<Longrightarrow>
   e (py ''PROXY_HOST'') = None \<Longrightarrow> e (py ''PROXY_PORT'') = None \<Longrightarrow>
   setup_proxy e (py ''https_proxy'') = Some (py ''http://127.0.0.1:10809'')"
  by (simp add: setup_proxy_def getenv_def py_def py_lower_def Let_def)

text \<open>C35. The proxy setup writes what it reads back: when it is enabled, both proxy variables
  read back as the URL built from the host and the port (or their defaults); and it is
  idempotent, so the reruns of the script, which execute it again on the environment the
  first run changed, leave the environment as the first run made it.\<close>

theorem setup_proxy_roundtrip:
  "setup_proxy (setup_proxy e) = setup_proxy e \<and>
   (e (py ''GITHUB_ACTIONS'') \<noteq> Some (py ''true'') \<and>
    py_lower (getenv e (py ''USE_PROXY'') (py ''false'')) = py ''true'' \<longrightarrow>
      setup_proxy e (py ''http_proxy'') =
        Some (py ''http://'' @ getenv e (py ''PROXY_HOST'') (py ''127.0.0.1'') @ py '':'' @
              getenv e (py ''PROXY_PORT'') (py ''10809'')) \<and>
      setup_proxy e (py ''https_proxy'') = setup_proxy e (py ''http_proxy''))"
proof -
  have d: "py ''http_proxy'' \<noteq> k \<and> py ''https_proxy'' \<noteq> k"
    if "k \<in> {py ''GITHUB_ACTIONS'', py ''USE_PROXY'', py ''PROXY_HOST'', py ''PROXY_PORT''}" for k
    using that by (auto simp: py_def)
  have g: "getenv (e(py ''http_proxy'' \<mapsto> u, py ''https_proxy'' \<mapsto> u)) k d' = getenv e k d'"
    if "k \<in> {py ''GITHUB_ACTIONS'', py ''USE_PROXY'', py ''PROXY_HOST'', py ''PROXY_PORT''}" for k u d'
    using d [OF that] by (auto simp: getenv_def)
  have "setup_proxy (setup_proxy e) = setup_proxy e"
    using d g by (auto simp: setup_proxy_def Let_def fun_upd_twist)
  then show ?thesis by (simp add: setup_proxy_def Let_def py_def)
qed

lemma setup_proxy_roundtrip_witness:
  "setup_proxy demo_env (py ''https_proxy'') = Some (py ''http://10.0.0.2:10809'') \<and>
   setup_proxy (setup_proxy demo_env) = setup_proxy demo_env"
  using setup_proxy_roundtrip [of demo_env]
  by (simp add: demo_env_def getenv_def py_def py_lower_def)

end
