(* ===== verification/Spec2Isabelle.thy ===== *)
theory Spec2Isabelle
  imports Interaction Env_Proxy
begin

text \<open>
  \<^bold>\<open>A verification development of the Streamlit dashboard of daily_stock_analysis.\<close>

  \<^bold>\<open>The program.\<close> \<^verbatim>\<open>src/streamlit_app.py\<close> is one Streamlit script. Streamlit
  runs it from the top on every user interaction: the module code reads the environment
  (proxy settings, lines 21--33), configures logging and the page (35--61), creates the
  per-session services once (\<open>st.session_state\<close>, 63--70) and calls \<open>main()\<close>
  (430--431), which draws the sidebar and routes the radio selection to one of five pages
  (73--101): analysis (104--199), history (202--266), quotes (269--335), task monitor
  (338--384) and configuration (387--427). Each page reads its widgets, and when its button
  was clicked in this run calls one or two back-end services inside \<open>try/except
  Exception\<close>, and renders what they return. The services themselves
  (\<open>AnalysisService\<close>, \<open>HistoryService\<close>, \<open>StockService\<close>,
  \<open>SystemConfigService\<close>, the task queue) live outside the given sources; they are
  one parameter \<open>backend\<close> of the model, any function from a request to a response or
  the message of the exception it raised. Chinese literals of the pages are kept as English
  renderings; the navigation labels, which the router compares, are kept as code points.

  \<^bold>\<open>The library.\<close>
  \<^item> \<open>Py_Prelude\<close>: Python strings as code-point lists (\<open>py_strip\<close>,
    \<open>py_lower\<close>, \<open>py_contains\<close>), the dynamic values of service responses
    (\<open>pyval\<close>), the exceptions (\<open>exc\<close>) and each built-in operation the script applies
    to them (\<open>d.get\<close>, \<open>d[k]\<close>, \<open>in\<close>, \<open>len\<close>, slicing, iteration, indexing,
    division, formatting, hashing) with the exception it raises.
  \<^item> \<open>Ui_Trace\<close>: a script statement as a value of \<open>'a ui\<close>, the events it produced
    (rendered elements, widgets, \<open>with\<close> blocks, service calls, log lines) and its result
    or exception; \<open>ui_bind\<close> stops at an exception, \<open>ui_try\<close> is \<open>except
    Exception\<close> (which does not catch Streamlit's rerun request), \<open>ui_with\<close> a context
    manager. Rule collections \<open>ui_intros\<close> (well-nested blocks, no rerun, no service call,
    calls under a spinner, a predicate on every event) and \<open>ui_simps\<close> carry the view proofs.
  \<^item> \<open>Formatter\<close>: the advice colour, the sentiment progress bar, the masking of
    sensitive configuration values and the grouping of tasks by status, with the direct
    grouping \<open>group_spec\<close> the loop refines.
  \<^item> \<open>Analysis_View\<close>, \<open>History_View\<close>, \<open>Quote_View\<close>, \<open>Task_View\<close>,
    \<open>Config_View\<close>: one theory per page, \<open>show_analysis_page\<close>,
    \<open>show_history_page\<close>, \<open>show_stock_quote_page\<close>, \<open>show_task_monitor_page\<close>,
    \<open>show_config_page\<close>, each split as the code is: the widgets, the request, the
    \<open>try\<close> body, the handler.
  \<^item> \<open>Session\<close>: the session state as a record with a counter of constructed objects
    (\<open>init_session\<close>), the sidebar and router (\<open>main\<close>, \<open>route\<close>), one run of the
    script (\<open>script_run\<close>), Streamlit's rerun loop (\<open>serve\<close>, a \<open>partial_function
    (option)\<close>: \<open>None\<close> is divergence), the worlds a session can reach
    (\<open>reachable\<close>, an inductive predicate), and the page configuration each run starts
    with (\<open>page_config\<close>, lines 55--61).
  \<^item> \<open>Env_Proxy\<close>: the environment as a map and the proxy setup of lines 25--33
    (\<open>setup_proxy\<close>).
  \<^item> \<open>Interaction\<close>: a browser session as a sequence of user actions. The state
    (\<open>ui_state\<close>) holds the session's world, the widget values, the events the last run
    drew, the number of runs and the log of every service call with its run. An action
    (\<open>action\<close>: navigate, type, choose, tick, click) changes the value of a widget the
    last run drew, and the app menu's Rerun reruns the script as it is (\<open>enabled\<close>,
    \<open>user_step\<close>, \<open>apply_action\<close>); Streamlit then serves the script
    (\<open>run_once\<close> over \<open>serve\<close>), releases the buttons and forgets the value of every
    widget the run did not draw (\<open>widget_gc\<close>), the widget life cycle Streamlit documents.
    The defaults of the widgets (\<open>analysis_defaults\<close>, \<open>history_defaults\<close>,
    \<open>quote_defaults\<close>, \<open>default_input\<close>) are translated from their \<open>index\<close> and
    \<open>value\<close> arguments. \<open>ui_reach\<close> (inductive) is the set of reachable states;
    \<open>ui_inv\<close> the invariant proved of it by rule induction.
  \<^item> This theory: the request contracts of the collaborators (\<open>wt_call\<close>, an
    inductive predicate) and the properties of a whole run that span the pages.

  \<^bold>\<open>What is proved.\<close> Every page returns normally on every input and every service
  behaviour (the task monitor unless its refresh button raises the rerun request); each
  page calls its services exactly when its button was clicked (the configuration page and the
  task monitor on every run), with the request built from the widgets; the analysis,
  history and quote calls run under a spinner and every block is closed on every path; a
  service failure shows one error and is logged. The formatting: an integer sentiment score
  makes the progress bar raise exactly when it lies outside [0, 100], the task grouping loop
  equals the direct grouping and loses no task. The configuration page shows
  exactly the fields of its specification \<open>key_fields\<close> and masks every sensitive field
  whatever the service returns. The session: in every reachable world at most five objects
  are constructed and an initialised session is never written again; the rerun loop ends on
  every input within two runs (the rerun sees every button released), and a refresh of the
  task monitor leads to a run that lists the tasks again; the router draws exactly the
  selected page; the proxy setup reads back the URL it wrote and is idempotent across reruns. Across the
  pages: every request any run sends is well typed for its collaborator, and with the
  analysis, history or quote page selected the whole run keeps the busy-indicator contract.
  Over whole browser sessions: in every reachable state every button is released and the
  record select box and the K-line check box hold their defaults; no session ever requests
  the K-line history; choosing a history record loses the page it was chosen on; with a query
  id supply that never repeats, no analysis query id is sent in two runs; and from every state
  of a session whose initialisation succeeded, three actions (choose the analysis page, type a
  code, click) always lead to a run that sends the analysis request; in every reachable state
  the widgets of the pages not selected hold their defaults; and a session whose
  \<open>get_config()\<close> failed never calls a service nor draws a widget but the navigation,
  whatever the user does.

  \<^bold>\<open>Findings.\<close> A code of white space only passes the analysis page's emptiness check
  and is sent as the empty string; an empty analysis result is shown as an error; a sentiment
  score outside [0, 100] makes \<open>st.progress\<close> raise; a sensitive list shows its first eight
  keys whole; a history item without \<open>meta\<close> is drawn in the table as N/A but makes the
  record select box raise \<open>KeyError\<close>; a blank history filter is sent as the empty string, not \<open>None\<close>; a
  quote whose change is \<open>None\<close> fails the page; the quote page may call two services; the
  task monitor and the configuration page call their services with no spinner; the webhook
  URLs are shown in clear; a numeric secret fails the configuration page; the session sets
  its initialized flag before constructing anything, so a failed \<open>get_config()\<close> in the
  first run makes every later run fail. Two widgets are drawn only inside a button's
  branch, so Streamlit removes them in the run their own use triggers: the K-line check box
  of the quote page (the K-line history can never be shown) and the record select box of the
  history page (only the first record's report can be viewed). A failed \<open>get_config()\<close>
  leaves the session unusable for good, and the inputs of a page are lost on navigation.

  \<^bold>\<open>Bounds and fuel.\<close> No fuel is used: the loops of the script are over finite lists
  (\<open>fun\<close> by structural recursion), and the one loop that may not end, Streamlit's rerun
  loop, is a \<open>partial_function (option)\<close> with its termination proved as
  \<open>\<exists>y. serve \<dots> = Some y\<close>; hence every user action of a browser session is served
  (\<open>user_step\<close> always returns a state).

  \<^bold>\<open>Not modelled.\<close> \<open>setup_logging\<close> (handler configuration, pure I/O; the
  \<open>logger.exception\<close> calls are events) and the icon and sidebar arguments of
  \<open>st.set_page_config\<close>; the imports (lines 1--21, 35--49); \<open>setup_env()\<close> and \<open>get_config()\<close> of \<^verbatim>\<open>src/config\<close>, outside the given
  sources (a construction that may raise is a parameter); page layout (columns); the
  services' internals; the binary rounding of floats (a float is its exact rational value, so
  no claim depends on the exact value of a float: the progress bar is claimed only for its
  range check, which binary division by 100 keeps exact); the AttributeError of a service
  attribute that a failed initialisation left unset is raised by the attribute lookup before
  the call, while the model records the attempted call and answers it with an error (both end
  in the page's handler with one error alert); Streamlit's handling of an action taken while
  a run is still in progress (a run is always completed before the next action);
  the characters of \<open>str()\<close> of a value (a rendered value is kept as the value); the
  randomness of \<open>uuid4\<close> (the query ids are a supply indexed by the run, and their
  freshness a hypothesis); widget keys and the browser's own state (a widget is identified
  by its label; the user acts on the widgets of the last run only, one action per run).
\<close>

section \<open>Properties that span the pages\<close>

text \<open>The requests the collaborators of the specification accept (its section 6): a trimmed
  stock code, one of the two report types, page 1 of a history list of 10, 20, 50 or 100
  items with a trimmed filter, thirty days of daily K-line data, fifty tasks, and the
  configuration with its schema.\<close>

inductive wt_call :: "call \<Rightarrow> bool" where
  analyze: "py_strip c = c \<Longrightarrow> rt \<in> {py ''detailed'', py ''simple''} \<Longrightarrow>
            wt_call (AnalyzeStock c rt fr q n)"
| history: "(\<forall>s. f = Some s \<longrightarrow> py_strip s = s) \<Longrightarrow> l \<in> {10, 20, 50, 100} \<Longrightarrow>
            wt_call (GetHistoryList f d 1 l)"
| quote: "py_strip c = c \<Longrightarrow> wt_call (GetRealtimeQuote c)"
| kline: "py_strip c = c \<Longrightarrow> wt_call (GetHistoryData c (py ''daily'') 30)"
| queue: "wt_call GetTaskQueue"
| list: "wt_call (ListTasks 50)"
| config: "wt_call (GetConfig True)"

inductive_simps wt_call_simps [simp]:
  "wt_call (AnalyzeStock c rt fr q n)" "wt_call (GetHistoryList f d p l)" "wt_call (GetRealtimeQuote c)"
  "wt_call (GetHistoryData c per k)" "wt_call GetTaskQueue" "wt_call (ListTasks k)" "wt_call (GetConfig i)"

text \<open>An event that is a call makes a well-typed request.\<close>

fun call_event_ok :: "event \<Rightarrow> bool" where
  "call_event_ok (Call c) = wt_call c"
| "call_event_ok _ = True"

subsection \<open>Helper lemmas\<close>

lemma calls_wt: "trace_all call_event_ok m \<Longrightarrow> list_all wt_call (calls (fst m))"
proof -
  have "list_all call_event_ok es \<Longrightarrow> list_all wt_call (calls es)" for es
    by (induction es rule: calls.induct) auto
  then show "trace_all call_event_ok m \<Longrightarrow> list_all wt_call (calls (fst m))"
    by (simp add: trace_all_def)
qed

lemma pages_calls_wt: "trace_all call_event_ok (show_page b inp p)"
proof -
  have rt: "report_type_of a = py ''detailed'' \<or> report_type_of a = py ''simple''" for a
    using st_selectbox_in [of 0 "[py ''detailed'', py ''simple'']"] by (simp add: report_type_of_def)
  have ps: "page_size_of h = 10 \<or> page_size_of h = 20 \<or> page_size_of h = 50 \<or> page_size_of h = 100" for h
    using st_selectbox_in [of 1 "[10, 20, 50, 100::nat]"] by (simp add: page_size_of_def)
  have "trace_all call_event_ok (show_analysis_page b a q)" for a q
    unfolding show_analysis_page_def analysis_body_def analysis_handler_def render_result_report_def
      render_report_def
    by (intro ui_intros conjI impI allI | simp add: analysis_request_def py_strip_idem split: pyval.splits
        | rule rt)+
  moreover have "trace_all call_event_ok (show_history_page b d h)" for d h
    unfolding show_history_page_def history_body_def history_handler_def history_details_def
    by (intro ui_intros conjI impI allI | simp add: history_request_def py_strip_idem split: pyval.splits
        | rule ps)+
  moreover have "trace_all call_event_ok (show_stock_quote_page b qi)" for qi
    unfolding show_stock_quote_page_def quote_body_def quote_handler_def history_chart_def
      chart_handler_def render_quote_def
    by (intro ui_intros conjI impI allI | simp add: py_strip_idem split: pyval.splits prod.splits)+
  moreover have "trace_all call_event_ok (show_task_monitor_page b r)" for r
    unfolding show_task_monitor_page_def task_body_def task_handler_def render_group_def render_task_def
    by (intro ui_intros conjI impI allI | simp split: pyval.splits prod.splits)+
  moreover have "trace_all call_event_ok (show_config_page b)"
    unfolding show_config_page_def config_body_def config_handler_def render_config_section_def
      render_config_key_def
    by (intro ui_intros conjI impI allI | simp split: pyval.splits prod.splits)+
  ultimately show ?thesis by (cases p) (simp_all add: show_page_def)
qed

lemma analysis_page_guarded: "spinner_guarded (show_analysis_page b inp q)"
  unfolding show_analysis_page_def by (intro ui_intros; simp)

lemma main_guarded:
  assumes "route (st_selectbox nav_labels 0 (r_nav inp)) \<in> {Some AnalysisPage, Some HistoryPage, Some QuotePage}"
  shows "spinner_guarded (main s b inp)"
proof -
  have pg: "spinner_guarded (case route (st_selectbox nav_labels 0 (r_nav inp)) of
              Some p \<Rightarrow> show_page (session_backend s b) inp p | None \<Rightarrow> ui_ret ())"
    using assms by (auto simp: show_page_def analysis_page_guarded history_spinner quote_spinner)
  show ?thesis
    unfolding main_def
    by (intro guarded_seq guarded_bind_ret [where v = "st_selectbox nav_labels 0 (r_nav inp)"] pg
          guarded_quiet ui_intros; simp add: ui_simps nested_emit no_calls_emit)+
qed

subsection \<open>Claims\<close>

text \<open>C36. Every request the script sends to a collaborator, in any run, for any session, back
  end and widget values, is one the collaborator contracts accept: the pages never build an
  ill-formed request, whichever branch they take.\<close>

theorem script_requests_well_typed:
  "list_all wt_call (calls (fst (snd (script_run ok b inp w))))"
proof -
  have "trace_all call_event_ok (main s b' inp)" for s b'
    unfolding main_def
    by (intro ui_intros conjI impI allI | simp add: pages_calls_wt split: option.splits)+
  then have "trace_all call_event_ok (snd (script_run ok b inp w))"
    by (auto simp: script_run_def trace_all_def split: prod.splits sum.splits)
  then show ?thesis by (rule calls_wt)
qed

text \<open>C37. The busy-indicator contract holds for the whole run when the analysis, history or
  quote page is selected: every block the run opens is closed in order and every service call
  of the run is made under a spinner, whatever the session, the constructors and the back
  end.\<close>

theorem run_busy_indicator:
  "route (st_selectbox nav_labels 0 (r_nav inp)) \<in> {Some AnalysisPage, Some HistoryPage, Some QuotePage} \<Longrightarrow>
   well_nested (fst (snd (script_run ok b inp w))) \<and> calls_in_spinner [] (fst (snd (script_run ok b inp w)))"
  using main_guarded [of inp]
  by (auto simp: script_run_def spinner_guarded_def well_nested_def split: prod.splits sum.splits)

lemma script_requests_well_typed_witness:
  "calls (fst (snd (script_run (\<lambda>_. True) (\<lambda>_. Inr PNone)
      ((demo_run False)\<lparr>r_nav := Some 0, r_analysis := demo_input (py '' 600519'')\<rparr>) fresh_world))) =
     [AnalyzeStock (py ''600519'') (py ''detailed'') False [] True] \<and>
   list_all wt_call (calls (fst (snd (script_run (\<lambda>_. True) (\<lambda>_. Inr PNone)
      ((demo_run False)\<lparr>r_nav := Some 0, r_analysis := demo_input (py '' 600519'')\<rparr>) fresh_world))))"
proof -
  have "calls (fst (snd (script_run (\<lambda>_. True) (\<lambda>_. Inr PNone)
      ((demo_run False)\<lparr>r_nav := Some 0, r_analysis := demo_input (py '' 600519'')\<rparr>) fresh_world))) =
     [AnalyzeStock (py ''600519'') (py ''detailed'') False [] True]"
    by (simp add: page_config_def script_run_def init_session_def fresh_world_def session_ctors_def
        demo_run_def main_def ui_simps route_def nav_labels_def st_selectbox_def show_page_def
        show_analysis_page_def session_backend_def calls_try_quiet_handler analysis_handler_props
        analysis_body_def analysis_request_def report_type_of_def demo_input_def
        py_def py_strip_def py_lstrip_def py_rstrip_def is_space_def)
  then show ?thesis using script_requests_well_typed [of "\<lambda>_. True" "\<lambda>_. Inr PNone"
      "(demo_run False)\<lparr>r_nav := Some 0, r_analysis := demo_input (py '' 600519'')\<rparr>" fresh_world]
    by simp
qed

lemma run_busy_indicator_witness:
  "calls (fst (snd (script_run (\<lambda>_. True) (\<lambda>_. Inr PNone) ((demo_run False)\<lparr>r_nav := Some 0,
      r_analysis := demo_input (py ''AAPL'')\<rparr>) fresh_world))) = [AnalyzeStock (py ''AAPL'') (py ''detailed'') False [] True] \<and>
   well_nested (fst (snd (script_run (\<lambda>_. True) (\<lambda>_. Inr PNone) ((demo_run False)\<lparr>r_nav := Some 0,
      r_analysis := demo_input (py ''AAPL'')\<rparr>) fresh_world))) \<and>
   calls_in_spinner [] (fst (snd (script_run (\<lambda>_. True) (\<lambda>_. Inr PNone) ((demo_run False)\<lparr>r_nav := Some 0,
      r_analysis := demo_input (py ''AAPL'')\<rparr>) fresh_world)))"
proof -
  let ?i = "(demo_run False)\<lparr>r_nav := Some 0, r_analysis := demo_input (py ''AAPL'')\<rparr>"
  have r: "route (st_selectbox nav_labels 0 (r_nav ?i)) = Some AnalysisPage"
    by (simp add: route_def nav_labels_def st_selectbox_def)
  have "calls (fst (snd (script_run (\<lambda>_. True) (\<lambda>_. Inr PNone) ?i fresh_world))) =
          [AnalyzeStock (py ''AAPL'') (py ''detailed'') False [] True]"
    by (simp add: page_config_def script_run_def init_session_def fresh_world_def session_ctors_def
        demo_run_def main_def ui_simps route_def nav_labels_def st_selectbox_def show_page_def
        show_analysis_page_def session_backend_def calls_try_quiet_handler analysis_handler_props
        analysis_body_def analysis_request_def report_type_of_def demo_input_def
        py_def py_strip_def py_lstrip_def py_rstrip_def is_space_def)
  with run_busy_indicator [of ?i "\<lambda>_. True" "\<lambda>_. Inr PNone" fresh_world] r show ?thesis by simp
qed

end
